theory Spec2Isabelle
  imports Complex_Main
begin

text \<open>
  A model of the orchestration core of the Reve AI SDK (\<open>src/index.ts\<close> and
  \<open>src/utils/helpers.ts\<close>): validation of the image options, the prompt enhancer, the
  submission of one job, the polling loop, and the batch orchestrator \<open>generateImage\<close>.

  The transport, the service and the runtime are not modelled but given: every function
  that sends a request takes the answer as an argument, and returns, beside its result,
  the requests it made. A thrown error or a rejected promise is the left summand of the
  result. The numbers of the options and of the responses are integers; the arithmetic on
  seeds is that of double-precision numbers, a value of \<open>Math.random()\<close> is a
  double in [0, 1), and logging is left out.
\<close>

section \<open>Values the SDK handles\<close>

text \<open>
  The SDK reads service responses as untyped JavaScript values. They are modelled by a
  datatype of JSON-like values; numbers are integers. \<open>truthy\<close> is JavaScript's
  conversion to a boolean, \<open>get_prop\<close> is a guarded property read (the value
  \<open>JUndefined\<close> when the property is missing or the value is not an object), and
  \<open>strict_eq\<close> is \<open>===\<close> between values of two different responses
  (two objects or arrays of different responses are never the same reference).
\<close>

datatype json =
    JUndefined
  | JNull
  | JBool bool
  | JNum int
  | JStr string
  | JArr "json list"
  | JObj "(string \<times> json) list"

fun truthy :: "json \<Rightarrow> bool" where
  "truthy JUndefined = False"
| "truthy JNull = False"
| "truthy (JBool b) = b"
| "truthy (JNum n) = (n \<noteq> 0)"
| "truthy (JStr s) = (s \<noteq> [])"
| "truthy (JArr xs) = True"
| "truthy (JObj kvs) = True"

fun get_prop :: "json \<Rightarrow> string \<Rightarrow> json" where
  "get_prop (JObj kvs) k = (case map_of kvs k of Some v \<Rightarrow> v | None \<Rightarrow> JUndefined)"
| "get_prop v k = JUndefined"

fun strict_eq :: "json \<Rightarrow> json \<Rightarrow> bool" where
  "strict_eq JUndefined JUndefined = True"
| "strict_eq JNull JNull = True"
| "strict_eq (JBool a) (JBool b) = (a = b)"
| "strict_eq (JNum a) (JNum b) = (a = b)"
| "strict_eq (JStr a) (JStr b) = (a = b)"
| "strict_eq a b = False"

fun nullish :: "json \<Rightarrow> bool" where
  "nullish JUndefined = True"
| "nullish JNull = True"
| "nullish v = False"

subsection \<open>Text\<close>

fun string_of_nat :: "nat \<Rightarrow> string" where
  "string_of_nat n =
     (if n < 10 then [''0123456789'' ! n]
      else string_of_nat (n div 10) @ [''0123456789'' ! (n mod 10)])"

definition string_of_int :: "int \<Rightarrow> string" where
  "string_of_int i = (if i < 0 then CHR ''-'' # string_of_nat (nat (- i)) else string_of_nat (nat i))"

fun join_with :: "string \<Rightarrow> string list \<Rightarrow> string" where
  "join_with sep [] = []"
| "join_with sep [s] = s"
| "join_with sep (s # t # ss) = s @ sep @ join_with sep (t # ss)"

text \<open>The text a template literal puts in for a value (\<open>String(v)\<close>).\<close>

fun to_string :: "json \<Rightarrow> string" where
  "to_string JUndefined = ''undefined''"
| "to_string JNull = ''null''"
| "to_string (JBool b) = (if b then ''true'' else ''false'')"
| "to_string (JNum n) = string_of_int n"
| "to_string (JStr s) = s"
| "to_string (JArr xs) = join_with '','' (map (\<lambda>x. if nullish x then [] else to_string x) xs)"
| "to_string (JObj kvs) = ''[object Object]''"

text \<open>\<open>s.includes(t)\<close>: \<open>t\<close> occurs in \<open>s\<close> as a contiguous run.\<close>

fun starts_with :: "string \<Rightarrow> string \<Rightarrow> bool" where
  "starts_with s [] = True"
| "starts_with [] (c # t) = False"
| "starts_with (d # s) (c # t) = (d = c \<and> starts_with s t)"

fun str_includes :: "string \<Rightarrow> string \<Rightarrow> bool" where
  "str_includes [] t = (t = [])"
| "str_includes (d # s) t = (starts_with (d # s) t \<or> str_includes s t)"

section \<open>Errors\<close>

datatype ReveAIErrorType =
    AUTHENTICATION_ERROR
  | API_ERROR
  | REQUEST_ERROR
  | TIMEOUT_ERROR
  | GENERATION_ERROR
  | POLLING_ERROR
  | UNEXPECTED_RESPONSE
  | UNKNOWN_ERROR

record ReveAIError =
  message :: string
  type :: ReveAIErrorType
  statusCode :: "int option"

text \<open>
  An error of the transport, as far as \<open>handleAxiosError\<close> reads it: its message and
  code, the status of the response (when there is one), the message of the response body
  (when it is truthy), and the request and response details that verbose mode appends.
\<close>

record AxiosError =
  ax_message :: string
  ax_code :: "string option"
  ax_status :: "int option"
  ax_response_message :: "string option"
  ax_details :: string

text \<open>What a call can throw: an error of the SDK, an error of the transport, or
  another JavaScript error (a \<open>TypeError\<close>), of which only the message is read.\<close>

datatype js_error =
    Reve ReveAIError
  | Axios AxiosError
  | OtherError string

fun error_message :: "js_error \<Rightarrow> string" where
  "error_message (Reve e) = message e"
| "error_message (Axios a) = ax_message a"
| "error_message (OtherError m) = m"

definition handleAxiosError :: "js_error \<Rightarrow> string \<Rightarrow> bool \<Rightarrow> ReveAIError" where
  "handleAxiosError error operation verbose =
     (case error of
        Reve e \<Rightarrow> e
      | Axios axiosError \<Rightarrow>
          (let statusCode = ax_status axiosError;
               errorDetails = (if verbose then ax_details axiosError else []);
               responseMessage =
                 (case ax_response_message axiosError of
                    Some m \<Rightarrow> m
                  | None \<Rightarrow> ax_message axiosError)
           in
             if statusCode = Some 401 \<or> statusCode = Some 403 then
               \<lparr>message = ''Authentication error: '' @ responseMessage @ errorDetails,
                type = AUTHENTICATION_ERROR, statusCode = statusCode\<rparr>
             else if ax_code axiosError = Some ''ECONNABORTED''
                     \<or> str_includes (ax_message axiosError) ''timeout'' then
               \<lparr>message = ''Request timed out during '' @ operation @ errorDetails,
                type = TIMEOUT_ERROR, statusCode = None\<rparr>
             else if str_includes (ax_message axiosError) ''Network Error'' then
               \<lparr>message = ''Network error during '' @ operation @ '': ''
                            @ ax_message axiosError @ errorDetails,
                type = REQUEST_ERROR, statusCode = None\<rparr>
             else if (case statusCode of Some c \<Rightarrow> c \<noteq> 0 \<and> c \<ge> 400 | None \<Rightarrow> False) then
               \<lparr>message = ''API error during '' @ operation @ '': ''
                            @ responseMessage @ errorDetails,
                type = API_ERROR, statusCode = statusCode\<rparr>
             else
               \<lparr>message = ''Request error during '' @ operation @ '': ''
                            @ ax_message axiosError @ errorDetails,
                type = REQUEST_ERROR, statusCode = statusCode\<rparr>)
      | OtherError m \<Rightarrow>
          \<lparr>message = ''Error during '' @ operation @ '': '' @ m,
           type = UNKNOWN_ERROR, statusCode = None\<rparr>)"

section \<open>Validation of the image options\<close>

text \<open>JavaScript's \<open>%\<close> on integers: the remainder has the sign of the dividend.\<close>

definition js_rem :: "int \<Rightarrow> int \<Rightarrow> int" where
  "js_rem a b = (if a < 0 then - ((- a) mod \<bar>b\<bar>) else a mod \<bar>b\<bar>)"

text \<open>
  An omitted argument is \<open>None\<close>; a supplied one is modelled at its integer values.
  The width and height tests start with the truthiness of the number
  (\<open>width && ...\<close>), which 0 does not have, the batch size test with
  \<open>batchSize !== undefined\<close>.
\<close>

definition validateImageOptions ::
  "int option \<Rightarrow> int option \<Rightarrow> int option \<Rightarrow> ReveAIError + unit" where
  "validateImageOptions width height batchSize =
     (if (case width of
            Some w \<Rightarrow> w \<noteq> 0 \<and> (w < 384 \<or> w > 1024 \<or> js_rem w 8 \<noteq> 0)
          | None \<Rightarrow> False) then
        Inl \<lparr>message = ''Width must be between 384 and 1024 and be divisible by 8'',
             type = GENERATION_ERROR, statusCode = None\<rparr>
      else if (case height of
                 Some h \<Rightarrow> h \<noteq> 0 \<and> (h < 384 \<or> h > 1024 \<or> js_rem h 8 \<noteq> 0)
               | None \<Rightarrow> False) then
        Inl \<lparr>message = ''Height must be between 384 and 1024 and be divisible by 8'',
             type = GENERATION_ERROR, statusCode = None\<rparr>
      else if (case batchSize of Some b \<Rightarrow> b < 1 \<or> b > 8 | None \<Rightarrow> False) then
        Inl \<lparr>message = ''Batch size must be between 1 and 8'',
             type = GENERATION_ERROR, statusCode = None\<rparr>
      else Inr ())"

section \<open>Double-precision arithmetic\<close>

text \<open>
  JavaScript computes with IEEE 754 double-precision numbers. A finite double is modelled by
  the real number it denotes, and an arithmetic operation by the exact operation on reals
  followed by \<open>to_double\<close>, the rounding to the nearest double, ties to the even
  significand. For \<open>x\<close> in the binade \<open>2^e \<le> |x| < 2^(e+1)\<close> the doubles
  are the multiples of \<open>2^(e-52)\<close>, and the multiples of \<open>2^(-1074)\<close> in the
  subnormal range. \<open>exponent_up\<close> and \<open>exponent_down\<close> find the binade by
  halving and doubling. The exponent is not bounded above: no operation of the SDK comes
  near the overflow threshold \<open>2^1024\<close>, so infinities are left out, as is NaN.
\<close>

definition pow2 :: "int \<Rightarrow> real" where
  "pow2 q = (if 0 \<le> q then 2 ^ nat q else 1 / 2 ^ nat (- q))"

function exponent_up :: "real \<Rightarrow> nat" where
  "exponent_up x = (if x < 2 then 0 else Suc (exponent_up (x / 2)))"
  by pat_completeness auto
termination
proof (relation "measure (\<lambda>x. nat \<lceil>x\<rceil>)")
  show "wf (measure (\<lambda>x::real. nat \<lceil>x\<rceil>))" by simp
next
  fix x :: real
  assume "\<not> x < 2"
  then have x: "2 \<le> x" by simp
  have "\<lceil>x / 2\<rceil> < \<lceil>x\<rceil>"
  proof -
    have "x / 2 \<le> x - 1" using x by simp
    then have "\<lceil>x / 2\<rceil> \<le> \<lceil>x - 1\<rceil>" by (rule ceiling_mono)
    also have "\<dots> = \<lceil>x\<rceil> - 1" by simp
    finally show ?thesis by simp
  qed
  moreover have "0 < \<lceil>x\<rceil>" using x by (simp add: ceiling_less_iff)
  ultimately show "(x / 2, x) \<in> measure (\<lambda>x. nat \<lceil>x\<rceil>)" by simp
qed

function exponent_down :: "real \<Rightarrow> nat" where
  "exponent_down x = (if x \<le> 0 \<or> 1 \<le> x then 0 else Suc (exponent_down (2 * x)))"
  by pat_completeness auto
termination
proof (relation "measure (\<lambda>x. nat \<lceil>1 / x\<rceil>)")
  show "wf (measure (\<lambda>x::real. nat \<lceil>1 / x\<rceil>))" by simp
next
  fix x :: real
  assume "\<not> (x \<le> 0 \<or> 1 \<le> x)"
  then have x: "0 < x" "x < 1" by simp_all
  have one: "1 < 1 / x" using x by simp
  have "\<lceil>1 / (2 * x)\<rceil> < \<lceil>1 / x\<rceil>"
  proof -
    have c: "2 \<le> \<lceil>1 / x\<rceil>" using one by (simp add: le_ceiling_iff)
    then have a: "real_of_int \<lceil>1 / x\<rceil> / 2 \<le> real_of_int \<lceil>1 / x\<rceil> - 1"
      by linarith
    have "1 / (2 * x) = (1 / x) / 2" by simp
    also have "\<dots> \<le> real_of_int \<lceil>1 / x\<rceil> / 2"
      by (rule divide_right_mono) simp_all
    also have "\<dots> \<le> real_of_int \<lceil>1 / x\<rceil> - 1" by (rule a)
    finally have "1 / (2 * x) \<le> real_of_int \<lceil>1 / x\<rceil> - 1" .
    then have "1 / (2 * x) \<le> real_of_int (\<lceil>1 / x\<rceil> - 1)" by (simp only: of_int_diff of_int_1)
    then have "\<lceil>1 / (2 * x)\<rceil> \<le> \<lceil>1 / x\<rceil> - 1" by (simp only: ceiling_le_iff)
    then show ?thesis by simp
  qed
  moreover have "0 < \<lceil>1 / x\<rceil>" using x by (simp add: less_ceiling_iff)
  ultimately show "(2 * x, x) \<in> measure (\<lambda>x. nat \<lceil>1 / x\<rceil>)" by simp
qed

definition binade :: "real \<Rightarrow> int" where
  "binade x = (if 1 \<le> \<bar>x\<bar> then int (exponent_up \<bar>x\<bar>) else - int (exponent_down \<bar>x\<bar>))"

definition round_half_even :: "real \<Rightarrow> int" where
  "round_half_even r =
     (if r - of_int \<lfloor>r\<rfloor> < 1 / 2 then \<lfloor>r\<rfloor>
      else if 1 / 2 < r - of_int \<lfloor>r\<rfloor> then \<lfloor>r\<rfloor> + 1
      else if even \<lfloor>r\<rfloor> then \<lfloor>r\<rfloor> else \<lfloor>r\<rfloor> + 1)"

definition ulp_exponent :: "real \<Rightarrow> int" where
  "ulp_exponent x = max (binade x - 52) (- 1074)"

definition to_double :: "real \<Rightarrow> real" where
  "to_double x =
     (if x = 0 then 0
      else of_int (round_half_even (x / pow2 (ulp_exponent x))) * pow2 (ulp_exponent x))"

text \<open>The reals that are doubles, and the values that \<open>Math.random()\<close> can
  return: the doubles in [0, 1).\<close>

definition is_double :: "real \<Rightarrow> bool" where
  "is_double x \<longleftrightarrow> to_double x = x"

definition is_random :: "real \<Rightarrow> bool" where
  "is_random d \<longleftrightarrow> is_double d \<and> 0 \<le> d \<and> d < 1"

section \<open>The client and what it exchanges with the service\<close>

text \<open>
  The options of a client instance that the orchestration reads, as the constructor stores
  them (\<open>projectId\<close> is \<open>None\<close> when it was not given). \<open>IS_TEST_ENV\<close> is
  the module's flag \<open>process.env.NODE_ENV === 'test'\<close>; \<open>json_stringify\<close> stands
  for the runtime's \<open>JSON.stringify\<close>. The attempt budget and the interval are counts.
\<close>

record config =
  projectId :: "string option"
  maxPollingAttempts :: nat
  pollingInterval :: nat
  verbose :: bool
  IS_TEST_ENV :: bool
  json_stringify :: "json \<Rightarrow> string"

record GenerateImageOptions =
  prompt :: string
  negativePrompt :: "string option"
  width :: "int option"
  height :: "int option"
  seed :: "int option"
  batchSize :: "int option"
  model :: "string option"
  opt_enhancePrompt :: "bool option"

text \<open>The body of the enhancement request and of the generation request (the nested
  objects of the source flattened into one record each; the fixed name and description
  of the node are left out).\<close>

record enhance_payload =
  num_variants :: int
  inputs_prompt :: string
  model_id :: string
  project_id :: json

record generation_payload =
  aspectRatio :: string
  instruction :: string
  optimizeEnabled :: bool
  unexpandedPrompt :: string
  caption :: json
  inference_height :: int
  negative_caption :: string
  inference_seed :: int
  inference_width :: int
  inference_model :: string
  node_id :: string

text \<open>What a run does that can be observed from outside: its requests, in order, and
  its waits.\<close>

datatype event =
    GetProjects
  | PostEnhance enhance_payload
  | PostGeneration json generation_payload
  | GetNode json
  | GetImage json json
  | Delay nat

text \<open>
  The answer to the image request: the base64 text of the body
  (\<open>Buffer.from(data).toString('base64')\<close>) and the declared content type.
\<close>

record image_response =
  body_base64 :: string
  content_type :: "string option"

text \<open>
  The service and the runtime, as one job pipeline meets them. A request either fails
  (\<open>Inl\<close>, the error the transport rejects with) or answers with the response's data.
  The node listing and the image request are indexed by the number of polling attempts
  made before them: each iteration of the polling loop asks for the listing once and
  for the image at most once. \<open>seed_random\<close> is the value of the call of
  \<open>Math.random()\<close> for the seed.
\<close>

record job_env =
  projects_get :: "js_error + json"
  enhance_projects_get :: "js_error + json"
  enhance_post :: "js_error + json"
  random_uuid :: string
  seed_random :: real
  generation_post :: "js_error + json"
  node_get :: "nat \<Rightarrow> js_error + json"
  image_get :: "nat \<Rightarrow> js_error + image_response"

text \<open>
  The same for a batch: the enhancement call of the whole batch, the value of
  \<open>Math.random()\<close> for the seed jitter of each job, the environment of each job
  pipeline, the instant at which each pipeline settles (what \<open>Promise.all\<close>
  observes of the interleaving), and the clock.
\<close>

record batch_env =
  batch_projects_get :: "js_error + json"
  batch_enhance_post :: "js_error + json"
  jitter_random :: "nat \<Rightarrow> real"
  job_env_of :: "nat \<Rightarrow> job_env"
  settled_at :: "nat \<Rightarrow> nat"
  now :: nat

section \<open>The project id\<close>

text \<open>The message of V8's \<open>TypeError\<close> for reading a property of \<open>null\<close> or
  \<open>undefined\<close>.\<close>

definition type_error_read :: "json \<Rightarrow> string \<Rightarrow> string" where
  "type_error_read v k =
     ''Cannot read properties of '' @ to_string v @ '' (reading '' @ [CHR 0x27] @ k @ [CHR 0x27] @ '')''"

definition no_projects_message :: string where
  \<open>no_projects_message = ''No projects found. Please provide a projectId in the options. You can find your project ID in the browser network tab when making requests to "/api/project/{projectId}/generation".''\<close>

definition no_endpoint_message :: string where
  \<open>no_endpoint_message = ''Cannot auto-detect project ID. The /api/projects endpoint was not found. Please provide a projectId in the options. You can find your project ID in the browser network tab when making generation requests.''\<close>

definition getProjectId :: "config \<Rightarrow> js_error + json \<Rightarrow> (ReveAIError + json) \<times> event list" where
  "getProjectId cfg projects =
     (if (case projectId cfg of Some p \<Rightarrow> p \<noteq> [] | None \<Rightarrow> False) then
        (Inr (JStr (the (projectId cfg))), [])
      else
        ((case projects of
            Inr data \<Rightarrow>
              (case data of
                 JArr (first # rest) \<Rightarrow>
                   if nullish first then
                     Inl (handleAxiosError (OtherError (type_error_read first ''id''))
                            ''getting project ID'' (verbose cfg))
                   else Inr (get_prop first ''id'')
               | _ \<Rightarrow> Inl \<lparr>message = no_projects_message, type = API_ERROR, statusCode = None\<rparr>)
          | Inl error \<Rightarrow>
              (case error of
                 Reve e \<Rightarrow> Inl e
               | Axios a \<Rightarrow>
                   if ax_status a = Some 404 then
                     Inl \<lparr>message = no_endpoint_message, type = API_ERROR, statusCode = Some 404\<rparr>
                   else Inl (handleAxiosError error ''getting project ID'' (verbose cfg))
               | OtherError m \<Rightarrow> Inl (handleAxiosError error ''getting project ID'' (verbose cfg)))),
         [GetProjects]))"

section \<open>The prompt enhancer\<close>

text \<open>
  \<open>enhancePrompt\<close> has one \<open>try\<close> around its whole body, whose \<open>catch\<close> returns
  the original prompt: the model returns a list, never an error. The request is sent only
  once the project id is there (the payload awaits it). \<open>original\<close> is the source's
  parameter \<open>prompt\<close>.
\<close>

definition enhancePrompt ::
  "config \<Rightarrow> js_error + json \<Rightarrow> js_error + json \<Rightarrow> string \<Rightarrow> int \<Rightarrow> json list \<times> event list" where
  "enhancePrompt cfg projects answer original numVariants =
     (case getProjectId cfg projects of
        (Inl e, t) \<Rightarrow> ([JStr original], t)
      | (Inr pid, t) \<Rightarrow>
          (let payload = \<lparr>num_variants = numVariants, inputs_prompt = original,
                           model_id = ''promptenhancer_v1/prod/20250224-0952'',
                           project_id = pid\<rparr>
           in
             ((case answer of
                 Inl error \<Rightarrow> [JStr original]
               | Inr data \<Rightarrow>
                   (case data of
                      JArr (x # xs) \<Rightarrow>
                        (let lastResponse = last (x # xs) in
                           if get_prop lastResponse ''status'' = JStr ''success''
                              \<and> truthy (get_prop lastResponse ''outputs'')
                           then
                             (case get_prop (get_prop lastResponse ''outputs'') ''expanded_prompts'' of
                                JArr expanded_prompts \<Rightarrow> expanded_prompts
                              | _ \<Rightarrow> [JStr original])
                           else [JStr original])
                    | _ \<Rightarrow> [JStr original])),
              t @ [PostEnhance payload])))"

section \<open>The status poller\<close>

record poll_result =
  poll_imageUrls :: "string list"
  poll_seed :: json

text \<open>
  \<open>list.find(item => item.node && item.node.id === generationId)\<close>: the first entry
  whose node carries the id, \<open>JUndefined\<close> when there is none. Reading \<open>item.node\<close>
  of an entry that is \<open>null\<close> or \<open>undefined\<close> throws.
\<close>

fun find_generation :: "json \<Rightarrow> json list \<Rightarrow> js_error + json" where
  "find_generation generationId [] = Inr JUndefined"
| "find_generation generationId (item # items) =
     (if nullish item then Inl (OtherError (type_error_read item ''node''))
      else if truthy (get_prop item ''node'')
              \<and> strict_eq (get_prop (get_prop item ''node'') ''id'') generationId
      then Inr item
      else find_generation generationId items)"

text \<open>The entry of the job in the data of a node listing; \<open>JUndefined\<close> as well when
  the data has no \<open>list\<close> array (the source then skips the search).\<close>

definition ourGeneration_in :: "json \<Rightarrow> json \<Rightarrow> js_error + json" where
  "ourGeneration_in data generationId =
     (if truthy data \<and> truthy (get_prop data ''list'') then
        (case get_prop data ''list'' of
           JArr items \<Rightarrow> find_generation generationId items
         | _ \<Rightarrow> Inr JUndefined)
      else Inr JUndefined)"

text \<open>
  One iteration of the \<open>while\<close> loop of \<open>pollGenerationStatus\<close>, at the given count
  of attempts: it either leaves the loop (\<open>Leave\<close>: a \<open>return\<close> or a \<open>throw\<close>,
  after the outer \<open>catch\<close>) or goes on to the next iteration with one more attempt
  (\<open>Again\<close>), in both cases with the events of the iteration.
\<close>

datatype iteration =
    Leave "ReveAIError + poll_result" "event list"
  | Again "event list"

definition poll_iteration :: "config \<Rightarrow> job_env \<Rightarrow> json \<Rightarrow> json \<Rightarrow> nat \<Rightarrow> iteration" where
  "poll_iteration cfg env project generationId attempts =
     (case node_get env attempts of
        Inl error \<Rightarrow>
          Leave (Inl (handleAxiosError error ''polling generation status'' (verbose cfg)))
            [GetNode project]
      | Inr data \<Rightarrow>
          (case ourGeneration_in data generationId of
             Inl error \<Rightarrow>
               Leave (Inl (handleAxiosError error ''polling generation status'' (verbose cfg)))
                 [GetNode project]
           | Inr ourGeneration \<Rightarrow>
               (let gdata = get_prop ourGeneration ''data'' in
                  if truthy ourGeneration \<and> truthy gdata \<and> truthy (get_prop gdata ''output'') then
                    (let imageId = get_prop gdata ''output'';
                         echoed = get_prop (get_prop gdata ''inference_inputs'') ''seed'';
                         seed = (if truthy echoed then echoed else JNum (- 1))
                     in
                       case image_get env attempts of
                         Inr imageResponse \<Rightarrow>
                           (let mimeType =
                                  (case content_type imageResponse of
                                     Some c \<Rightarrow> if c \<noteq> [] then c else ''image/webp''
                                   | None \<Rightarrow> ''image/webp'');
                                dataUrl = ''data:'' @ mimeType @ '';base64,''
                                          @ body_base64 imageResponse
                            in Leave (Inr \<lparr>poll_imageUrls = [dataUrl], poll_seed = seed\<rparr>)
                                 [GetNode project, GetImage project imageId])
                       | Inl imageError \<Rightarrow>
                           Again [GetNode project, GetImage project imageId,
                                  Delay (pollingInterval cfg)])
                  else if truthy ourGeneration \<and> truthy gdata \<and> truthy (get_prop gdata ''error'') then
                    Leave (Inl \<lparr>message = ''Generation failed: '' @ to_string (get_prop gdata ''error''),
                                type = GENERATION_ERROR, statusCode = None\<rparr>)
                      [GetNode project]
                  else Again [GetNode project, Delay (pollingInterval cfg)])))"

function poll_loop ::
  "config \<Rightarrow> job_env \<Rightarrow> json \<Rightarrow> json \<Rightarrow> nat \<Rightarrow> (ReveAIError + poll_result) \<times> event list" where
  "poll_loop cfg env project generationId attempts =
     (if attempts < maxPollingAttempts cfg then
        (case poll_iteration cfg env project generationId attempts of
           Leave r t \<Rightarrow> (r, t)
         | Again t \<Rightarrow>
             (case poll_loop cfg env project generationId (attempts + 1) of
                (r, t') \<Rightarrow> (r, t @ t')))
      else
        (Inl \<lparr>message = ''Generation timed out after '' @ string_of_nat attempts
                          @ '' polling attempts'',
              type = POLLING_ERROR, statusCode = None\<rparr>, []))"
  by pat_completeness auto
termination
  by (relation "measure (\<lambda>(cfg, env, project, generationId, attempts).
                  maxPollingAttempts cfg - attempts)") auto

definition pollGenerationStatus ::
  "config \<Rightarrow> job_env \<Rightarrow> json \<Rightarrow> json \<Rightarrow> (ReveAIError + poll_result) \<times> event list" where
  "pollGenerationStatus cfg env project generationId = poll_loop cfg env project generationId 0"

section \<open>One job: submission and polling\<close>

record single_result =
  imageUrl :: json
  single_seed :: json
  single_enhancedPrompt :: json

text \<open>The prompt a job submits (lines 318 to 347 of \<open>generateSingleImage\<close>): the variant
  it was given when that is truthy, else the first prompt of an enhancement of its own,
  else the original prompt.\<close>

definition shouldEnhancePrompt :: "GenerateImageOptions \<Rightarrow> bool" where
  "shouldEnhancePrompt options = (case opt_enhancePrompt options of Some b \<Rightarrow> b | None \<Rightarrow> True)"

definition finalPrompt_of ::
  "config \<Rightarrow> job_env \<Rightarrow> GenerateImageOptions \<Rightarrow> json \<Rightarrow> json \<times> event list" where
  "finalPrompt_of cfg env options enhancedPrompt =
     (if truthy enhancedPrompt \<and> shouldEnhancePrompt options then (enhancedPrompt, [])
      else if shouldEnhancePrompt options then
        (case enhancePrompt cfg (enhance_projects_get env) (enhance_post env) (prompt options) 1 of
           (enhancedPrompts, t) \<Rightarrow>
             ((case enhancedPrompts of [] \<Rightarrow> JStr (prompt options) | first # rest \<Rightarrow> first), t))
      else (JStr (prompt options), []))"

text \<open>The seed drawn for the sentinel -1 (line 365),
  \<open>Math.floor(Math.random() * 10000000)\<close>: the product is rounded to a double, then
  floored.\<close>

definition drawn_seed :: "job_env \<Rightarrow> int" where
  "drawn_seed env = \<lfloor>to_double (seed_random env * 10000000)\<rfloor>"

text \<open>The request body (lines 353 to 375).\<close>

definition generationPayload ::
  "job_env \<Rightarrow> GenerateImageOptions \<Rightarrow> json \<Rightarrow> generation_payload" where
  "generationPayload env options finalPrompt =
     (let w = (case width options of Some n \<Rightarrow> if n \<noteq> 0 then n else 1024 | None \<Rightarrow> 1024);
          h = (case height options of Some n \<Rightarrow> if n \<noteq> 0 then n else 1024 | None \<Rightarrow> 1024);
          s = (case seed options of None \<Rightarrow> - 1 | Some n \<Rightarrow> n)
      in
        \<lparr>aspectRatio = string_of_int w @ '':'' @ string_of_int h,
         instruction = prompt options,
         optimizeEnabled = shouldEnhancePrompt options,
         unexpandedPrompt = prompt options,
         caption = finalPrompt,
         inference_height = h,
         negative_caption = (case negativePrompt options of Some n \<Rightarrow> n | None \<Rightarrow> []),
         inference_seed = (if s = - 1 then drawn_seed env else s),
         inference_width = w,
         inference_model =
           (case model options of
              Some m \<Rightarrow> if m \<noteq> [] then m else ''text2image_v1/prod/20250325-2246''
            | None \<Rightarrow> ''text2image_v1/prod/20250325-2246''),
         node_id = random_uuid env\<rparr>)"

text \<open>The generation id of a submission's answer (lines 391 to 401), \<open>JNull\<close> when
  neither shape is there.\<close>

definition generationIdFromResponse :: "json \<Rightarrow> json" where
  "generationIdFromResponse data =
     (if truthy (get_prop data ''create'')
         \<and> truthy (get_prop (get_prop data ''create'') ''node'')
         \<and> truthy (get_prop (get_prop (get_prop data ''create'') ''node'') ''id'')
      then get_prop (get_prop (get_prop data ''create'') ''node'') ''id''
      else if truthy (get_prop data ''generation_id'') then get_prop data ''generation_id''
      else JNull)"

text \<open>
  \<open>generateSingleImage\<close> in two parts. \<open>submitGeneration\<close> is its lines 307 to 408:
  the pipeline up to the generation id. It has either settled there (\<open>Settled\<close>: an
  error thrown, or the fixed result that the test environment returns for an answer without
  data), or it goes on to poll (\<open>Polling\<close>) with the project, the generation id and the
  prompt it submitted. The second part is the polling and the result (lines 410 to 417).
\<close>

datatype submission =
    Settled "js_error + single_result"
  | Polling json json json

definition submitGeneration ::
  "config \<Rightarrow> job_env \<Rightarrow> GenerateImageOptions \<Rightarrow> json \<Rightarrow> submission \<times> event list" where
  "submitGeneration cfg env options enhancedPrompt =
     (case getProjectId cfg (projects_get env) of
        (Inl e, t1) \<Rightarrow> (Settled (Inl (Reve e)), t1)
      | (Inr project, t1) \<Rightarrow>
          (case validateImageOptions (width options) (height options) (Some 1) of
             Inl e \<Rightarrow> (Settled (Inl (Reve e)), t1)
           | Inr ok \<Rightarrow>
               (case finalPrompt_of cfg env options enhancedPrompt of
                  (finalPrompt, t2) \<Rightarrow>
                    ((case generation_post env of
                        Inl error \<Rightarrow> Settled (Inl error)
                      | Inr data \<Rightarrow>
                          if IS_TEST_ENV cfg \<and> \<not> truthy data then
                            Settled (Inr \<lparr>imageUrl = JStr ''https://example.com/test-image.jpg'',
                                          single_seed = JNum (- 1),
                                          single_enhancedPrompt = JUndefined\<rparr>)
                          else if nullish data then
                            Settled (Inl (OtherError (type_error_read data ''create'')))
                          else if \<not> truthy (generationIdFromResponse data) then
                            Settled (Inl (Reve
                              \<lparr>message = ''Failed to get generation ID from response: ''
                                           @ json_stringify cfg data,
                               type = UNEXPECTED_RESPONSE, statusCode = None\<rparr>))
                          else Polling project (generationIdFromResponse data) finalPrompt),
                     t1 @ t2 @ [PostGeneration project
                                  (generationPayload env options finalPrompt)]))))"

definition generateSingleImage ::
  "config \<Rightarrow> job_env \<Rightarrow> GenerateImageOptions \<Rightarrow> json \<Rightarrow> (js_error + single_result) \<times> event list" where
  "generateSingleImage cfg env options enhancedPrompt =
     (case submitGeneration cfg env options enhancedPrompt of
        (Settled r, t3) \<Rightarrow> (r, t3)
      | (Polling project generationId finalPrompt, t3) \<Rightarrow>
          (case pollGenerationStatus cfg env project generationId of
             (Inl e, t4) \<Rightarrow> (Inl (Reve e), t3 @ t4)
           | (Inr result, t4) \<Rightarrow>
               (Inr \<lparr>imageUrl =
                       (case poll_imageUrls result of [] \<Rightarrow> JUndefined | u # us \<Rightarrow> JStr u),
                     single_seed = poll_seed result,
                     single_enhancedPrompt =
                       (if shouldEnhancePrompt options \<and> finalPrompt \<noteq> JStr (prompt options)
                        then finalPrompt else JUndefined)\<rparr>,
                t3 @ t4)))"

section \<open>The batch orchestrator\<close>

record GenerateImageResult =
  imageUrls :: "json list"
  result_seed :: json
  completedAt :: nat
  result_prompt :: string
  enhancedPrompt :: "json option"
  enhancedPrompts :: "json list option"
  result_negativePrompt :: "string option"

text \<open>
  \<open>Promise.all\<close> over the pipelines, given what each settles with and when: it
  rejects with the error of the pipeline that rejects first (of two that reject at the same
  instant, the one dispatched first), and resolves with all values, in the order of the
  pipelines, when none rejects.
\<close>

fun first_rejection :: "(nat \<Rightarrow> nat) \<Rightarrow> nat \<Rightarrow> ('e + 'a) list \<Rightarrow> (nat \<times> 'e) option" where
  "first_rejection instant i [] = None"
| "first_rejection instant i (Inr v # rs) = first_rejection instant (Suc i) rs"
| "first_rejection instant i (Inl e # rs) =
     (case first_rejection instant (Suc i) rs of
        None \<Rightarrow> Some (instant i, e)
      | Some (t, e') \<Rightarrow> if t < instant i then Some (t, e') else Some (instant i, e))"

fun resolved_values :: "('e + 'a) list \<Rightarrow> 'a list" where
  "resolved_values [] = []"
| "resolved_values (Inr v # rs) = v # resolved_values rs"
| "resolved_values (Inl e # rs) = resolved_values rs"

definition promise_all :: "(nat \<Rightarrow> nat) \<Rightarrow> ('e + 'a) list \<Rightarrow> 'e + 'a list" where
  "promise_all instant rs =
     (case first_rejection instant 0 rs of
        Some (t, e) \<Rightarrow> Inl e
      | None \<Rightarrow> Inr (resolved_values rs))"

text \<open>The \<open>catch\<close> of \<open>generateImage\<close>: what it rejects with for an error thrown in
  its \<open>try\<close>.\<close>

definition generateImage_catch :: "config \<Rightarrow> js_error \<Rightarrow> ReveAIError" where
  "generateImage_catch cfg error =
     (if IS_TEST_ENV cfg \<and> str_includes (error_message error) ''Generation failed'' then
        \<lparr>message = ''Generation failed'', type = GENERATION_ERROR, statusCode = None\<rparr>
      else if IS_TEST_ENV cfg \<and> str_includes (error_message error) ''timed out'' then
        \<lparr>message = ''Generation timed out'', type = POLLING_ERROR, statusCode = None\<rparr>
      else handleAxiosError error ''generating image'' (verbose cfg))"

text \<open>The defaults and the batch's enhancement (lines 435 to 449).\<close>

definition effective_batchSize :: "GenerateImageOptions \<Rightarrow> int" where
  "effective_batchSize options =
     (case batchSize options of Some b \<Rightarrow> if b \<noteq> 0 then b else 1 | None \<Rightarrow> 1)"

definition batch_enhancement ::
  "config \<Rightarrow> batch_env \<Rightarrow> GenerateImageOptions \<Rightarrow> json list \<times> event list" where
  "batch_enhancement cfg env options =
     (if shouldEnhancePrompt options \<and> effective_batchSize options > 1 then
        enhancePrompt cfg (batch_projects_get env) (batch_enhance_post env) (prompt options)
          (effective_batchSize options)
      else ([], []))"

text \<open>
  The seed of a job for a given seed (line 463),
  \<open>options.seed + Math.floor(Math.random() * 1000)\<close>: the product and the sum are
  each rounded to a double. The sum of two integers rounds to an integer, which the floor
  of \<open>jittered_seed\<close> reads.
\<close>

definition job_jitter :: "batch_env \<Rightarrow> nat \<Rightarrow> int" where
  "job_jitter env index = \<lfloor>to_double (jitter_random env index * 1000)\<rfloor>"

definition jittered_seed :: "batch_env \<Rightarrow> int \<Rightarrow> nat \<Rightarrow> int" where
  "jittered_seed env s index = \<lfloor>to_double (of_int s + of_int (job_jitter env index))\<rfloor>"

text \<open>The options and the variant that the job of the given index is started with
  (lines 452 to 466).\<close>

definition job_options :: "batch_env \<Rightarrow> GenerateImageOptions \<Rightarrow> nat \<Rightarrow> GenerateImageOptions" where
  "job_options env options index =
     options\<lparr>seed :=
       Some (case seed options of
               None \<Rightarrow> - 1
             | Some s \<Rightarrow> jittered_seed env s index)\<rparr>"

definition job_variant :: "GenerateImageOptions \<Rightarrow> json list \<Rightarrow> nat \<Rightarrow> json" where
  "job_variant options variants index =
     (if shouldEnhancePrompt options \<and> length variants > 0
      then variants ! (index mod length variants)
      else JUndefined)"

definition job_run ::
  "config \<Rightarrow> batch_env \<Rightarrow> GenerateImageOptions \<Rightarrow> nat \<Rightarrow> (js_error + single_result) \<times> event list" where
  "job_run cfg env options index =
     generateSingleImage cfg (job_env_of env index) (job_options env options index)
       (job_variant options (fst (batch_enhancement cfg env options)) index)"

text \<open>
  \<open>generateImage\<close> returns what the promise settles with, the events of the batch's own
  enhancement, and the events of each job pipeline, in the order of dispatch.
\<close>

definition generateImage ::
  "config \<Rightarrow> batch_env \<Rightarrow> GenerateImageOptions
     \<Rightarrow> (ReveAIError + GenerateImageResult) \<times> event list \<times> event list list" where
  "generateImage cfg env options =
     (case validateImageOptions (width options) (height options) (batchSize options) of
        Inl e \<Rightarrow> (Inl (generateImage_catch cfg (Reve e)), [], [])
      | Inr ok \<Rightarrow>
          (let runs = map (job_run cfg env options) [0 ..< nat (effective_batchSize options)]
           in
             ((case promise_all (settled_at env) (map fst runs) of
                 Inl error \<Rightarrow> Inl (generateImage_catch cfg error)
               | Inr results \<Rightarrow>
                   (case results of
                      [] \<Rightarrow> Inl (generateImage_catch cfg
                                   (OtherError (type_error_read JUndefined ''seed'')))
                    | first # rest \<Rightarrow>
                        (let usedEnhancedPrompts =
                               filter (\<lambda>p. p \<noteq> JUndefined) (map single_enhancedPrompt results);
                             given = shouldEnhancePrompt options \<and> length usedEnhancedPrompts > 0
                         in
                           Inr \<lparr>imageUrls = map imageUrl results,
                                result_seed = single_seed first,
                                completedAt = now env,
                                result_prompt = prompt options,
                                enhancedPrompt =
                                  (if given then Some (hd usedEnhancedPrompts) else None),
                                enhancedPrompts =
                                  (if given \<and> length usedEnhancedPrompts > 1
                                   then Some usedEnhancedPrompts else None),
                                result_negativePrompt =
                                  (case negativePrompt options of
                                     Some n \<Rightarrow> if n \<noteq> [] then Some n else None
                                   | None \<Rightarrow> None)\<rparr>))),
              snd (batch_enhancement cfg env options),
              map snd runs)))"

section \<open>Observing a run\<close>

text \<open>The polling attempts of a run, as the service sees them: its requests for the node
  listing. The enhancement calls of a run: the bodies of its requests to the enhancer.\<close>

fun is_node_request :: "event \<Rightarrow> bool" where
  "is_node_request (GetNode p) = True"
| "is_node_request e = False"

definition polling_attempts :: "event list \<Rightarrow> nat" where
  "polling_attempts t = length (filter is_node_request t)"

definition enhancement_calls :: "event list \<Rightarrow> enhance_payload list" where
  "enhancement_calls t = concat (map (\<lambda>e. case e of PostEnhance p \<Rightarrow> [p] | _ \<Rightarrow> []) t)"

text \<open>The bodies of the generation requests of a run.\<close>

definition submitted_payloads :: "event list \<Rightarrow> generation_payload list" where
  "submitted_payloads t = concat (map (\<lambda>e. case e of PostGeneration p b \<Rightarrow> [b] | _ \<Rightarrow> []) t)"

text \<open>What the pipelines of a batch settle with, in the order of dispatch.\<close>

definition job_results ::
  "config \<Rightarrow> batch_env \<Rightarrow> GenerateImageOptions \<Rightarrow> (js_error + single_result) list" where
  "job_results cfg env options =
     map (\<lambda>i. fst (job_run cfg env options i)) [0 ..< nat (effective_batchSize options)]"

text \<open>How far the submission of the job of the given index got.\<close>

definition job_submission ::
  "config \<Rightarrow> batch_env \<Rightarrow> GenerateImageOptions \<Rightarrow> nat \<Rightarrow> submission" where
  "job_submission cfg env options index =
     fst (submitGeneration cfg (job_env_of env index) (job_options env options index)
            (job_variant options (fst (batch_enhancement cfg env options)) index))"

section \<open>The seed helper\<close>

text \<open>\<open>generateRandomSeed\<close> of the helpers, at the value of \<open>Math.random()\<close>: the
  draw from [0, 2^31 - 1). Nothing in \<open>index.ts\<close> calls it.\<close>

definition generateRandomSeed :: "real \<Rightarrow> int" where
  "generateRandomSeed random = \<lfloor>to_double (random * 2147483647)\<rfloor>"

section \<open>A mock service\<close>

text \<open>
  The service of the repository's test suite, for running the model on concrete input: a
  configured project, a submission answered with the id \<open>mock-gen-id-123\<close>, a node
  listing that holds the finished job (output \<open>mock-image-id\<close>, seed 12345), an image
  answered with \<open>mock-base64-data\<close>, and an enhancer that returns three variants.
\<close>

definition mock_config :: config where
  "mock_config =
     \<lparr>projectId = Some ''mock-project-id'', maxPollingAttempts = 2, pollingInterval = 1,
      verbose = False, IS_TEST_ENV = False, json_stringify = to_string\<rparr>"

definition mock_entry :: "(string \<times> json) list \<Rightarrow> json" where
  "mock_entry kvs =
     JObj [(''node'', JObj [(''id'', JStr ''mock-gen-id-123'')]), (''data'', JObj kvs)]"

definition mock_listing :: "json list \<Rightarrow> json" where
  "mock_listing entries = JObj [(''list'', JArr entries)]"

definition mock_job :: job_env where
  "mock_job =
     \<lparr>projects_get = Inr (JArr []),
      enhance_projects_get = Inr (JArr []),
      enhance_post = Inr (JObj []),
      random_uuid = ''uuid-1'',
      seed_random = 1 / 2,
      generation_post =
        Inr (JObj [(''create'', JObj [(''node'', JObj [(''id'', JStr ''mock-gen-id-123'')])])]),
      node_get = (\<lambda>n. Inr (mock_listing
        [mock_entry [(''output'', JStr ''mock-image-id''),
                     (''inference_inputs'', JObj [(''seed'', JNum 12345)])]])),
      image_get = (\<lambda>n. Inr \<lparr>body_base64 = ''mock-base64-data'',
                                content_type = Some ''image/webp''\<rparr>)\<rparr>"

definition mock_variants :: json where
  "mock_variants =
     JArr [JObj [(''status'', JStr ''success''),
                 (''outputs'', JObj [(''expanded_prompts'',
                    JArr [JStr ''variant 1'', JStr ''variant 2'', JStr ''variant 3''])])]]"

definition mock_batch :: batch_env where
  "mock_batch =
     \<lparr>batch_projects_get = Inr (JArr []),
      batch_enhance_post = Inr mock_variants,
      jitter_random = (\<lambda>i. 1 / 2),
      job_env_of = (\<lambda>i. mock_job),
      settled_at = (\<lambda>i. i),
      now = 0\<rparr>"

definition mock_options :: GenerateImageOptions where
  "mock_options =
     \<lparr>prompt = ''test prompt'', negativePrompt = None, width = None, height = None,
      seed = None, batchSize = None, model = None, opt_enhancePrompt = None\<rparr>"

text \<open>A batch whose jitter draws are 3/2048 (a jitter of 1), and the generation request
  of the mock service for the mock options with the given seed.\<close>

definition low_jitter_batch :: batch_env where
  "low_jitter_batch = mock_batch\<lparr>jitter_random := (\<lambda>i. 3 / 2048)\<rparr>"

definition mock_payload :: "int \<Rightarrow> generation_payload" where
  "mock_payload s =
     \<lparr>aspectRatio = ''1024:1024'', instruction = ''test prompt'', optimizeEnabled = True,
      unexpandedPrompt = ''test prompt'', caption = JStr ''test prompt'',
      inference_height = 1024, negative_caption = [], inference_seed = s,
      inference_width = 1024, inference_model = ''text2image_v1/prod/20250325-2246'',
      node_id = ''uuid-1''\<rparr>"

text \<open>A batch whose jitter draws are 1023/1024 (a jitter of 999), and a batch whose
  jobs draw differently: job \<open>i\<close> draws \<open>1 / 2^(i+1)\<close> for its jitter and
  for its seed.\<close>

definition high_jitter_batch :: batch_env where
  "high_jitter_batch = mock_batch\<lparr>jitter_random := (\<lambda>i. 1023 / 1024)\<rparr>"

definition drawing_batch :: batch_env where
  "drawing_batch =
     mock_batch\<lparr>jitter_random := (\<lambda>i. 1 / 2 ^ (i + 1)),
                job_env_of := (\<lambda>i. mock_job\<lparr>seed_random := 1 / 2 ^ (i + 1)\<rparr>)\<rparr>"

text \<open>A job whose first image request fails and whose second succeeds.\<close>

definition flaky_job :: job_env where
  "flaky_job =
     mock_job\<lparr>image_get :=
       (\<lambda>n. if n = 0 then Inl (OtherError ''Network Error'') else image_get mock_job n)\<rparr>"

text \<open>A batch whose second job cannot reach the service.\<close>

definition network_error :: js_error where
  "network_error =
     Axios \<lparr>ax_message = ''Network Error'', ax_code = None, ax_status = None,
            ax_response_message = None, ax_details = []\<rparr>"

definition failing_batch :: batch_env where
  "failing_batch =
     mock_batch\<lparr>job_env_of :=
       (\<lambda>i. if i = 1 then mock_job\<lparr>generation_post := Inl network_error\<rparr> else mock_job)\<rparr>"

text \<open>A service whose listing echoes the seed 0 for the finished job.\<close>

definition zero_seed_batch :: batch_env where
  "zero_seed_batch =
     mock_batch\<lparr>job_env_of :=
       (\<lambda>i. mock_job\<lparr>node_get :=
          (\<lambda>n. Inr (mock_listing
             [mock_entry [(''output'', JStr ''mock-image-id''),
                          (''inference_inputs'', JObj [(''seed'', JNum 0)])]]))\<rparr>)\<rparr>"

text \<open>A service whose listing never holds the job, and the client of the test suite's
  timeout test: the test environment, with a budget of one attempt.\<close>

definition absent_batch :: batch_env where
  "absent_batch =
     mock_batch\<lparr>job_env_of := (\<lambda>i. mock_job\<lparr>node_get := (\<lambda>n. Inr (mock_listing []))\<rparr>)\<rparr>"

definition test_config :: config where
  "test_config = mock_config\<lparr>IS_TEST_ENV := True, maxPollingAttempts := 1\<rparr>"

text \<open>A service whose listing holds the job with the given data.\<close>

definition listing_batch :: "(string \<times> json) list \<Rightarrow> batch_env" where
  "listing_batch kvs =
     mock_batch\<lparr>job_env_of :=
       (\<lambda>i. mock_job\<lparr>node_get := (\<lambda>n. Inr (mock_listing [mock_entry kvs]))\<rparr>)\<rparr>"

text \<open>A batch whose enhancer reports success with no variants.\<close>

definition empty_variants_batch :: batch_env where
  "empty_variants_batch =
     mock_batch\<lparr>batch_enhance_post :=
       Inr (JArr [JObj [(''status'', JStr ''success''),
                        (''outputs'', JObj [(''expanded_prompts'', JArr [])])]])\<rparr>"

text \<open>A job whose requests for the listing time out, and a job whose submission is
  answered with \<open>null\<close>.\<close>

definition timeout_error :: js_error where
  "timeout_error =
     Axios \<lparr>ax_message = ''timeout of 30000ms exceeded'', ax_code = Some ''ECONNABORTED'',
            ax_status = None, ax_response_message = None, ax_details = []\<rparr>"

definition stalled_batch :: batch_env where
  "stalled_batch =
     mock_batch\<lparr>job_env_of := (\<lambda>i. mock_job\<lparr>node_get := (\<lambda>n. Inl timeout_error)\<rparr>)\<rparr>"

definition null_answer_batch :: batch_env where
  "null_answer_batch =
     mock_batch\<lparr>job_env_of := (\<lambda>i. mock_job\<lparr>generation_post := Inr JNull\<rparr>)\<rparr>"

text \<open>
  A service that echoes no seed for the finished job, one that echoes the seed 0 and whose
  first image request fails, and a batch whose first job cannot reach the service while
  the listing reports a failure for the other jobs.
\<close>

definition seedless_batch :: batch_env where
  "seedless_batch = listing_batch [(''output'', JStr ''mock-image-id'')]"

definition flaky_zero_batch :: batch_env where
  "flaky_zero_batch =
     mock_batch\<lparr>job_env_of :=
       (\<lambda>i. flaky_job\<lparr>node_get :=
          (\<lambda>n. Inr (mock_listing
             [mock_entry [(''output'', JStr ''mock-image-id''),
                          (''inference_inputs'', JObj [(''seed'', JNum 0)])]]))\<rparr>)\<rparr>"

definition mixed_failure_batch :: batch_env where
  "mixed_failure_batch =
     mock_batch\<lparr>job_env_of :=
       (\<lambda>i. if i = 0 then mock_job\<lparr>generation_post := Inl network_error\<rparr>
            else mock_job\<lparr>node_get :=
                   (\<lambda>n. Inr (mock_listing
                      [mock_entry [(''error'', JStr ''quota exceeded'')]]))\<rparr>)\<rparr>"

text \<open>A batch whose enhancer returns the empty string as its first variant, and a
  client that was given no project id.\<close>

definition blank_variant_batch :: batch_env where
  "blank_variant_batch =
     mock_batch\<lparr>batch_enhance_post :=
       Inr (JArr [JObj [(''status'', JStr ''success''),
                        (''outputs'', JObj [(''expanded_prompts'',
                           JArr [JStr [], JStr ''variant 2''])])]])\<rparr>"

definition unconfigured :: config where
  "unconfigured = mock_config\<lparr>projectId := None\<rparr>"

section \<open>Properties\<close>

subsection \<open>Rounding to a double\<close>

declare exponent_up.simps [simp del] exponent_down.simps [simp del]

lemma pow2_powr: "pow2 q = 2 powr (real_of_int q)"
  by (simp add: pow2_def powr_real_of_int field_simps)

lemma pow2_pos [simp]: "0 < pow2 q"
  by (simp add: pow2_powr)

lemma pow2_neq_0 [simp]: "pow2 q \<noteq> 0"
  by (simp add: pow2_powr)

lemma pow2_add: "pow2 (a + b) = pow2 a * pow2 b"
  by (simp add: pow2_powr powr_add)

lemma pow2_0 [simp]: "pow2 0 = 1"
  by (simp add: pow2_def)

lemma pow2_mono: "a \<le> b \<Longrightarrow> pow2 a \<le> pow2 b"
  by (simp add: pow2_powr)

lemma pow2_less_iff: "pow2 a < pow2 b \<longleftrightarrow> a < b"
  by (simp add: pow2_powr)

lemma pow2_int: "0 \<le> q \<Longrightarrow> pow2 q = real_of_int (2 ^ nat q)"
  by (simp add: pow2_def)

lemma pow2_diff: "pow2 a / pow2 b = pow2 (a - b)"
  by (simp add: pow2_powr powr_diff)

lemma exponent_up_bounds:
  "1 \<le> x \<Longrightarrow> 2 ^ exponent_up x \<le> x \<and> x < 2 ^ Suc (exponent_up x)"
proof (induction x rule: exponent_up.induct)
  case (1 x)
  show ?case
  proof (cases "x < 2")
    case True
    then show ?thesis using "1.prems" by (subst (1 2) exponent_up.simps) simp
  next
    case False
    then have "1 \<le> x / 2" by simp
    from "1.IH"[OF False this] show ?thesis
      using False by (subst (1 2) exponent_up.simps) (simp add: field_simps)
  qed
qed

lemma exponent_down_bounds:
  "0 < x \<Longrightarrow> x < 1 \<Longrightarrow>
     1 / 2 ^ exponent_down x \<le> x \<and> x < 2 / 2 ^ exponent_down x"
proof (induction x rule: exponent_down.induct)
  case (1 x)
  have n: "\<not> (x \<le> 0 \<or> 1 \<le> x)" using "1.prems" by simp
  show ?case
  proof (cases "2 * x < 1")
    case True
    have "0 < 2 * x" using "1.prems" by simp
    from "1.IH"[OF n this True] show ?thesis
      using n by (subst (1 2) exponent_down.simps) (simp add: field_simps)
  next
    case False
    then have "exponent_down (2 * x) = 0" by (subst exponent_down.simps) simp
    then show ?thesis
      using n False "1.prems" by (subst (1 2) exponent_down.simps) simp
  qed
qed

lemma binade_bounds:
  assumes "x \<noteq> 0"
  shows "pow2 (binade x) \<le> \<bar>x\<bar> \<and> \<bar>x\<bar> < pow2 (binade x + 1)"
proof (cases "1 \<le> \<bar>x\<bar>")
  case True
  then have b: "binade x = int (exponent_up \<bar>x\<bar>)" by (simp add: binade_def)
  have "nat (int (exponent_up \<bar>x\<bar>) + 1) = Suc (exponent_up \<bar>x\<bar>)" by simp
  then show ?thesis
    using exponent_up_bounds[OF True] unfolding b pow2_def by simp
next
  case False
  then have b: "binade x = - int (exponent_down \<bar>x\<bar>)" by (simp add: binade_def)
  have x: "0 < \<bar>x\<bar>" "\<bar>x\<bar> < 1" using assms False by simp_all
  note e = exponent_down_bounds[OF x]
  show ?thesis
  proof (cases "exponent_down \<bar>x\<bar>")
    case 0
    then show ?thesis using e x by (simp add: b pow2_def)
  next
    case (Suc k)
    have p: "pow2 (- int (Suc k)) = 1 / 2 ^ Suc k" by (simp add: pow2_def nat_add_distrib)
    have "pow2 (- int (Suc k) + 1) = pow2 (- int (Suc k)) * pow2 1" by (rule pow2_add)
    also have "\<dots> = 2 / 2 ^ Suc k" unfolding p by (simp add: pow2_def)
    finally show ?thesis using e p unfolding b Suc by simp
  qed
qed

lemma binade_less: "x \<noteq> 0 \<Longrightarrow> \<bar>x\<bar> < pow2 k \<Longrightarrow> binade x < k"
  using binade_bounds[of x] pow2_less_iff[of "binade x" k] by linarith

lemma binade_ge: "pow2 k \<le> \<bar>x\<bar> \<Longrightarrow> k \<le> binade x"
proof -
  assume a: "pow2 k \<le> \<bar>x\<bar>"
  have "x \<noteq> 0"
  proof
    assume "x = 0"
    with a have "pow2 k \<le> 0" by simp
    with pow2_pos[of k] show False by linarith
  qed
  from binade_bounds[OF this] a have "pow2 k < pow2 (binade x + 1)" by linarith
  then show ?thesis by (simp add: pow2_less_iff)
qed

lemma binade_eq: "pow2 k \<le> \<bar>x\<bar> \<Longrightarrow> \<bar>x\<bar> < pow2 (k + 1) \<Longrightarrow> binade x = k"
proof -
  assume a: "pow2 k \<le> \<bar>x\<bar>" and b: "\<bar>x\<bar> < pow2 (k + 1)"
  have "x \<noteq> 0"
  proof
    assume "x = 0"
    with a have "pow2 k \<le> 0" by simp
    with pow2_pos[of k] show False by linarith
  qed
  from binade_less[OF this b] binade_ge[OF a] show ?thesis by simp
qed

lemma round_half_even_cases:
  "round_half_even r = \<lfloor>r\<rfloor> \<or> round_half_even r = \<lfloor>r\<rfloor> + 1"
  by (simp add: round_half_even_def)

lemma round_half_even_int [simp]: "round_half_even (of_int k) = k"
  by (simp add: round_half_even_def)

lemma round_half_even_error: "\<bar>of_int (round_half_even r) - r\<bar> \<le> 1 / 2"
proof -
  have "of_int \<lfloor>r\<rfloor> \<le> r" "r < of_int \<lfloor>r\<rfloor> + 1" by linarith+
  then show ?thesis unfolding round_half_even_def by (auto split: if_splits)
qed

lemma round_half_even_le: "r \<le> of_int n \<Longrightarrow> round_half_even r \<le> n"
proof -
  assume a: "r \<le> of_int n"
  show ?thesis
  proof (cases "r = of_int n")
    case True
    then show ?thesis by simp
  next
    case False
    then have "r < of_int n" using a by simp
    then have "\<lfloor>r\<rfloor> < n" by (simp add: floor_less_iff)
    then show ?thesis using round_half_even_cases[of r] by linarith
  qed
qed

lemma round_half_even_ge: "of_int n \<le> r \<Longrightarrow> n \<le> round_half_even r"
proof -
  assume "of_int n \<le> r"
  then have "n \<le> \<lfloor>r\<rfloor>" by (simp add: le_floor_iff)
  then show ?thesis using round_half_even_cases[of r] by linarith
qed

lemma round_half_even_below: "r < of_int n - 1 / 2 \<Longrightarrow> round_half_even r \<le> n - 1"
proof -
  assume "r < of_int n - 1 / 2"
  moreover have "of_int (round_half_even r) \<le> r + 1 / 2"
    using round_half_even_error[of r] by linarith
  ultimately have "real_of_int (round_half_even r) < of_int n" by linarith
  then show ?thesis by simp
qed

lemma ulp_exponent_le: "x \<noteq> 0 \<Longrightarrow> \<bar>x\<bar> < pow2 k \<Longrightarrow> - 1021 \<le> k \<Longrightarrow> ulp_exponent x \<le> k - 53"
  using binade_less[of x k] by (simp add: ulp_exponent_def)

lemma to_double_0 [simp]: "to_double 0 = 0"
  by (simp add: to_double_def)

lemma to_double_upper:
  assumes "x \<le> of_int k * pow2 (ulp_exponent x)"
  shows "to_double x \<le> of_int k * pow2 (ulp_exponent x)"
proof (cases "x = 0")
  case True
  then show ?thesis using assms by simp
next
  case False
  have "x / pow2 (ulp_exponent x) \<le> of_int k"
    using assms by (simp add: pos_divide_le_eq)
  then have "round_half_even (x / pow2 (ulp_exponent x)) \<le> k" by (rule round_half_even_le)
  then have "real_of_int (round_half_even (x / pow2 (ulp_exponent x))) \<le> of_int k" by simp
  then show ?thesis using False by (simp add: to_double_def)
qed

lemma to_double_lower:
  assumes "of_int k * pow2 (ulp_exponent x) \<le> x"
  shows "of_int k * pow2 (ulp_exponent x) \<le> to_double x"
proof (cases "x = 0")
  case True
  then show ?thesis using assms by simp
next
  case False
  have "of_int k \<le> x / pow2 (ulp_exponent x)"
    using assms by (simp add: pos_le_divide_eq)
  then have "k \<le> round_half_even (x / pow2 (ulp_exponent x))" by (rule round_half_even_ge)
  then have "real_of_int k \<le> of_int (round_half_even (x / pow2 (ulp_exponent x)))" by simp
  then show ?thesis using False by (simp add: to_double_def)
qed

lemma to_double_exact:
  assumes "x = of_int k * pow2 (ulp_exponent x)"
  shows "to_double x = x"
  using to_double_upper[of x k] to_double_lower[of k x] assms by simp

lemma to_double_error: "\<bar>to_double x - x\<bar> \<le> pow2 (ulp_exponent x) / 2"
proof (cases "x = 0")
  case True
  then show ?thesis using less_imp_le[OF pow2_pos[of "ulp_exponent 0"]] by simp
next
  case False
  let ?q = "ulp_exponent x"
  let ?r = "x / pow2 ?q"
  have "to_double x - x = (of_int (round_half_even ?r) - ?r) * pow2 ?q"
    using False by (simp add: to_double_def field_simps)
  then have "\<bar>to_double x - x\<bar> = \<bar>of_int (round_half_even ?r) - ?r\<bar> * pow2 ?q"
    using less_imp_le[OF pow2_pos[of ?q]] by (simp add: abs_mult)
  also have "\<dots> \<le> 1 / 2 * pow2 ?q"
    by (rule mult_right_mono[OF round_half_even_error less_imp_le[OF pow2_pos]])
  finally show ?thesis by simp
qed

lemma to_double_grid:
  assumes "to_double x = x"
  shows "\<exists>k. x = of_int k * pow2 (ulp_exponent x)"
proof (cases "x = 0")
  case True
  then show ?thesis by (intro exI[of _ 0]) simp
next
  case False
  then have "x = of_int (round_half_even (x / pow2 (ulp_exponent x))) * pow2 (ulp_exponent x)"
    using assms by (simp add: to_double_def)
  then show ?thesis by (rule exI)
qed

lemma grid_coarser:
  assumes "q \<le> j"
  shows "\<exists>k'. of_int k * pow2 j = of_int k' * pow2 q"
proof -
  have "pow2 j = pow2 (j - q) * pow2 q" using pow2_add[of "j - q" q] by simp
  moreover have "pow2 (j - q) = of_int (2 ^ nat (j - q))" using assms by (simp add: pow2_int)
  ultimately have "of_int k * pow2 j = of_int (k * 2 ^ nat (j - q)) * pow2 q" by simp
  then show ?thesis by blast
qed

lemma pow2_1 [simp]: "pow2 1 = 2"
  by (simp add: pow2_def)

lemma pow2_inverse: "pow2 q * pow2 (- q) = 1"
  using pow2_add[of q "- q"] by simp

lemma to_double_nonneg: "0 \<le> x \<Longrightarrow> 0 \<le> to_double x"
  using to_double_lower[of 0 x] by simp

lemma to_double_exact_coarser:
  assumes "x = of_int k * pow2 j" and "ulp_exponent x \<le> j"
  shows "to_double x = x"
proof -
  from grid_coarser[OF assms(2), of k] obtain k' where
    "of_int k * pow2 j = of_int k' * pow2 (ulp_exponent x)" by blast
  with assms(1) have "x = of_int k' * pow2 (ulp_exponent x)" by simp
  then show ?thesis by (rule to_double_exact)
qed

lemma to_double_ge_coarser:
  assumes "of_int k * pow2 j \<le> x" and "ulp_exponent x \<le> j"
  shows "of_int k * pow2 j \<le> to_double x"
proof -
  from grid_coarser[OF assms(2), of k] obtain k' where
    k': "of_int k * pow2 j = of_int k' * pow2 (ulp_exponent x)" by blast
  with assms(1) have "of_int k' * pow2 (ulp_exponent x) \<le> x" by simp
  then have "of_int k' * pow2 (ulp_exponent x) \<le> to_double x" by (rule to_double_lower)
  with k' show ?thesis by simp
qed

lemma to_double_le_coarser:
  assumes "x \<le> of_int k * pow2 j" and "ulp_exponent x \<le> j"
  shows "to_double x \<le> of_int k * pow2 j"
proof -
  from grid_coarser[OF assms(2), of k] obtain k' where
    k': "of_int k * pow2 j = of_int k' * pow2 (ulp_exponent x)" by blast
  with assms(1) have "x \<le> of_int k' * pow2 (ulp_exponent x)" by simp
  then have "to_double x \<le> of_int k' * pow2 (ulp_exponent x)" by (rule to_double_upper)
  with k' show ?thesis by simp
qed

lemma ulp_exponent_nonpos:
  assumes "\<bar>x\<bar> < 2 ^ 53"
  shows "ulp_exponent x \<le> 0"
proof (cases "x = 0")
  case True
  then show ?thesis by (simp add: ulp_exponent_def binade_def)
next
  case False
  have "pow2 53 = 2 ^ 53" by (simp add: pow2_def)
  with assms have "\<bar>x\<bar> < pow2 53" by simp
  from ulp_exponent_le[OF False this] show ?thesis by simp
qed

lemma to_double_ge_int:
  assumes "\<bar>x\<bar> < 2 ^ 53" and "of_int n \<le> x"
  shows "of_int n \<le> to_double x"
  using to_double_ge_coarser[of n 0 x] ulp_exponent_nonpos[OF assms(1)] assms(2) by simp

lemma to_double_le_int:
  assumes "\<bar>x\<bar> < 2 ^ 53" and "x \<le> of_int n"
  shows "to_double x \<le> of_int n"
  using to_double_le_coarser[of x n 0] ulp_exponent_nonpos[OF assms(1)] assms(2) by simp

lemma to_double_int:
  assumes "\<bar>n\<bar> \<le> 2 ^ 53"
  shows "to_double (of_int n) = of_int n"
proof (cases "\<bar>n\<bar> = 2 ^ 53")
  case True
  have p: "pow2 53 = 2 ^ 53" "pow2 54 = 2 ^ 54" by (simp_all add: pow2_def)
  have a: "\<bar>real_of_int n\<bar> = 2 ^ 53" using arg_cong[OF True, of real_of_int] by simp
  have "binade (of_int n) = 53"
    by (rule binade_eq) (simp_all add: p a)
  then have u: "ulp_exponent (of_int n) = 1" by (simp add: ulp_exponent_def)
  from True have "n = 2 ^ 53 \<or> n = - (2 ^ 53)" by linarith
  then have "real_of_int n = of_int (n div 2) * pow2 1" by (elim disjE) simp_all
  then show ?thesis using to_double_exact_coarser[of "of_int n" "n div 2" 1] u by simp
next
  case False
  with assms have "\<bar>n\<bar> < 2 ^ 53" by simp
  then have "real_of_int \<bar>n\<bar> < real_of_int (2 ^ 53)" by (simp only: of_int_less_iff)
  then have "\<bar>real_of_int n\<bar> < 2 ^ 53" by simp
  from ulp_exponent_nonpos[OF this] show ?thesis
    using to_double_exact_coarser[of "of_int n" n 0] by simp
qed

lemma to_double_integer: "\<exists>m. to_double (of_int n) = of_int m"
proof (cases "ulp_exponent (of_int n) \<le> 0")
  case True
  then have "to_double (of_int n) = of_int n"
    using to_double_exact_coarser[of "of_int n" n 0] by simp
  then show ?thesis by blast
next
  case False
  let ?q = "ulp_exponent (real_of_int n)"
  let ?r = "round_half_even (of_int n / pow2 ?q)"
  have "pow2 ?q = of_int (2 ^ nat ?q)" using False by (simp add: pow2_int)
  then have "to_double (of_int n) = of_int (if n = 0 then 0 else ?r * 2 ^ nat ?q)"
    by (simp add: to_double_def)
  then show ?thesis by blast
qed

lemma double_below_one:
  assumes "is_double d" and "d < 1"
  shows "d \<le> 1 - 1 / 2 ^ 53"
proof (cases "d < 1 / 2")
  case True
  have "(1::real) / 2 ^ 53 \<le> 1 / 2" by simp
  with True show ?thesis by linarith
next
  case False
  have p: "pow2 (- 1) = 1 / 2" "pow2 (- 1 + 1) = 1" "pow2 (- 53) = 1 / 2 ^ 53"
    by (simp_all add: pow2_def)
  have a: "\<bar>d\<bar> = d" using False by simp
  have "binade d = - 1"
    by (rule binade_eq) (use False assms(2) in \<open>simp_all add: p a\<close>)
  then have u: "ulp_exponent d = - 53" by (simp add: ulp_exponent_def)
  from to_double_grid[of d] assms(1) obtain k where k: "d = of_int k * pow2 (- 53)"
    unfolding is_double_def u by blast
  then have "real_of_int k = d * 2 ^ 53" by (simp add: p)
  also have "\<dots> < 2 ^ 53" using assms(2) by simp
  finally have "real_of_int k < real_of_int (2 ^ 53)" by simp
  then have "k < 2 ^ 53" by (simp only: of_int_less_iff)
  then have "k \<le> 2 ^ 53 - 1" by simp
  then have "real_of_int k \<le> real_of_int (2 ^ 53 - 1)" by (simp only: of_int_le_iff)
  then have "real_of_int k \<le> 2 ^ 53 - 1" by simp
  then have "real_of_int k * (1 / 2 ^ 53) \<le> (2 ^ 53 - 1) * (1 / 2 ^ 53)"
    by (rule mult_right_mono) simp
  then show ?thesis unfolding k p by (simp add: field_simps)
qed

lemma scaled_draw_below:
  assumes d: "is_double d" "0 \<le> d" "d < 1"
    and n: "pow2 e < of_int n" "of_int n < pow2 (e + 1)"
    and e: "0 \<le> e" "e \<le> 52"
  shows "to_double (d * of_int n) < of_int n"
proof -
  let ?x = "d * real_of_int n"
  have npos: "0 < real_of_int n" using n(1) pow2_pos[of e] by linarith
  have d1: "d \<le> 1 - 1 / 2 ^ 53" using d(1,3) by (rule double_below_one)
  have "?x \<le> (1 - 1 / 2 ^ 53) * real_of_int n"
    using d1 npos by (intro mult_right_mono) simp_all
  then have x_le: "?x \<le> real_of_int n - real_of_int n / 2 ^ 53" by (simp add: algebra_simps)
  have x0: "0 \<le> ?x" using d(2) npos by simp
  show ?thesis
  proof (cases "?x < pow2 e")
    case True
    show ?thesis
    proof (cases "?x = 0")
      case True
      then show ?thesis using npos by simp
    next
      case False
      have "\<bar>?x\<bar> < pow2 e" using True x0 by simp
      from ulp_exponent_le[OF False this] e have "ulp_exponent ?x \<le> e" by simp
      from to_double_le_coarser[of ?x 1 e, OF _ this] True
      have "to_double ?x \<le> pow2 e" by simp
      with n(1) show ?thesis by linarith
    qed
  next
    case False
    then have lo: "pow2 e \<le> \<bar>?x\<bar>" using x0 by simp
    have "?x < real_of_int n" using x_le npos by (simp add: field_simps) 
    then have hi: "\<bar>?x\<bar> < pow2 (e + 1)" using n(2) x0 by simp
    have b: "binade ?x = e" using lo hi by (rule binade_eq)
    have u: "ulp_exponent ?x = e - 52" using e by (simp add: ulp_exponent_def b)
    define M where "M = n * 2 ^ nat (52 - e)"
    have s: "pow2 (52 - e) = of_int (2 ^ nat (52 - e))" using e by (simp add: pow2_int)
    have i: "pow2 (52 - e) * pow2 (e - 52) = 1" using pow2_inverse[of "52 - e"] by simp
    have nM: "real_of_int n = real_of_int M * pow2 (e - 52)"
    proof -
      have "real_of_int M * pow2 (e - 52) = real_of_int n * (pow2 (52 - e) * pow2 (e - 52))"
        unfolding M_def s by simp
      then show ?thesis unfolding i by simp
    qed
    have half: "1 / 2 < real_of_int n / 2 ^ 53 / pow2 (e - 52)"
    proof -
      have "e + 1 = 53 + (e - 52)" by simp
      then have "pow2 (e + 1) = pow2 (53 + (e - 52))" by (rule arg_cong)
      also have "\<dots> = pow2 53 * pow2 (e - 52)" by (rule pow2_add)
      also have "pow2 53 = 2 ^ 53" by (simp add: pow2_def)
      finally have "pow2 (e + 1) = 2 ^ 53 * pow2 (e - 52)" .
      moreover have "pow2 (e + 1) = 2 * pow2 e" using pow2_add[of e 1] by (simp add: mult.commute)
      ultimately have "2 ^ 53 * pow2 (e - 52) = 2 * pow2 e" by simp
      then have "real_of_int n / 2 ^ 53 / pow2 (e - 52) = real_of_int n / (2 * pow2 e)"
        by (simp add: field_simps)
      also have "\<dots> > 1 / 2" using n(1) pow2_pos[of e] by (simp add: field_simps)
      finally show ?thesis .
    qed
    have "?x / pow2 (e - 52) \<le> (real_of_int n - real_of_int n / 2 ^ 53) / pow2 (e - 52)"
      using x_le by (intro divide_right_mono) (simp_all add: less_imp_le)
    also have "\<dots> = real_of_int M - real_of_int n / 2 ^ 53 / pow2 (e - 52)"
      unfolding diff_divide_distrib by (subst (1) nM) simp
    also have "\<dots> < real_of_int M - 1 / 2" using half by linarith
    finally have "round_half_even (?x / pow2 (e - 52)) \<le> M - 1" by (rule round_half_even_below)
    then have "real_of_int (round_half_even (?x / pow2 (e - 52))) \<le> real_of_int M - 1" by linarith
    then have "real_of_int (round_half_even (?x / pow2 (e - 52))) * pow2 (e - 52)
                 \<le> (real_of_int M - 1) * pow2 (e - 52)"
      by (intro mult_right_mono) (simp_all add: less_imp_le)
    also have "\<dots> = real_of_int n - pow2 (e - 52)" unfolding nM by (simp add: algebra_simps)
    also have "\<dots> < real_of_int n" using pow2_pos[of "e - 52"] by linarith
    finally show ?thesis using False x0 npos unfolding to_double_def u by (simp split: if_splits)
  qed
qed

lemma scaled_draw_floor:
  assumes "is_double d" "0 \<le> d" "d < 1"
    and "pow2 e < of_int n" "of_int n < pow2 (e + 1)" "0 \<le> e" "e \<le> 52"
  shows "0 \<le> \<lfloor>to_double (d * of_int n)\<rfloor> \<and> \<lfloor>to_double (d * of_int n)\<rfloor> < n"
proof -
  have "0 < real_of_int n" using assms(4) pow2_pos[of e] by linarith
  then have "0 \<le> d * of_int n" using assms(2) by simp
  then have "0 \<le> to_double (d * of_int n)" by (rule to_double_nonneg)
  moreover have "to_double (d * of_int n) < of_int n" using assms by (rule scaled_draw_below)
  ultimately show ?thesis by (simp add: floor_less_iff)
qed

lemma seed_draw_range:
  assumes "is_double d" "0 \<le> d" "d < 1"
  shows "0 \<le> \<lfloor>to_double (d * 10000000)\<rfloor> \<and> \<lfloor>to_double (d * 10000000)\<rfloor> < 10000000"
  using scaled_draw_floor[OF assms, of 23 10000000] by (simp add: pow2_def)

lemma jitter_draw_range:
  assumes "is_double d" "0 \<le> d" "d < 1"
  shows "0 \<le> \<lfloor>to_double (d * 1000)\<rfloor> \<and> \<lfloor>to_double (d * 1000)\<rfloor> < 1000"
  using scaled_draw_floor[OF assms, of 9 1000] by (simp add: pow2_def)

lemma binade_mono:
  assumes "x \<noteq> 0" and "\<bar>x\<bar> \<le> \<bar>y\<bar>"
  shows "binade x \<le> binade y"
proof -
  from binade_bounds[OF assms(1)] assms(2) have "pow2 (binade x) \<le> \<bar>y\<bar>" by linarith
  then show ?thesis by (rule binade_ge)
qed

lemma ulp_exponent_mono:
  assumes "x \<noteq> 0" and "\<bar>x\<bar> \<le> \<bar>y\<bar>"
  shows "ulp_exponent x \<le> ulp_exponent y"
  using binade_mono[OF assms] by (simp add: ulp_exponent_def)

lemma to_double_add_ge:
  assumes S: "is_double (of_int S)" and j: "0 \<le> j"
  shows "of_int S \<le> to_double (of_int S + of_int j)"
proof -
  let ?x = "real_of_int S + real_of_int j"
  consider (zero) "?x = 0" | (neg) "?x < 0" | (pos) "0 < ?x" "S \<le> 0" | (up) "0 < S"
    by linarith
  then show ?thesis
  proof cases
    case zero
    then have "real_of_int S \<le> 0" using j by linarith
    with zero show ?thesis by simp
  next
    case neg
    then have "?x \<noteq> 0" and "\<bar>?x\<bar> \<le> \<bar>real_of_int S\<bar>" using j by linarith+
    then have u: "ulp_exponent ?x \<le> ulp_exponent (of_int S)" by (rule ulp_exponent_mono)
    from to_double_grid[of "of_int S"] S obtain k where
      k: "real_of_int S = of_int k * pow2 (ulp_exponent (of_int S))"
      unfolding is_double_def by blast
    have "of_int k * pow2 (ulp_exponent (real_of_int S)) \<le> ?x" using k j by simp
    from to_double_ge_coarser[OF this u] k show ?thesis by simp
  next
    case pos
    then have "0 \<le> to_double ?x" using to_double_nonneg[of ?x] by simp
    moreover have "real_of_int S \<le> 0" using pos(2) by simp
    ultimately show ?thesis by linarith
  next
    case up
    then have S0: "real_of_int S \<noteq> 0" and le: "\<bar>real_of_int S\<bar> \<le> \<bar>?x\<bar>" using j by simp_all
    have x1: "1 \<le> \<bar>?x\<bar>" using up j by linarith
    have b: "binade (of_int S) \<le> binade ?x" using S0 le by (rule binade_mono)
    show ?thesis
    proof (cases "binade (of_int S) = binade ?x")
      case True
      then have u: "ulp_exponent ?x \<le> ulp_exponent (of_int S)" by (simp add: ulp_exponent_def)
      from to_double_grid[of "of_int S"] S obtain k where
        k: "real_of_int S = of_int k * pow2 (ulp_exponent (of_int S))"
        unfolding is_double_def by blast
      have "of_int k * pow2 (ulp_exponent (real_of_int S)) \<le> ?x" using k j by simp
      from to_double_ge_coarser[OF this u] k show ?thesis by simp
    next
      case False
      with b have "binade (of_int S) + 1 \<le> binade ?x" by simp
      then have "pow2 (binade (of_int S) + 1) \<le> pow2 (binade ?x)" by (rule pow2_mono)
      moreover have "\<bar>real_of_int S\<bar> < pow2 (binade (of_int S) + 1)"
        using binade_bounds[OF S0] by simp
      ultimately have lt: "real_of_int S < pow2 (binade ?x)" by linarith
      have "?x \<noteq> 0" using up j by linarith
      from binade_bounds[OF this] have px: "pow2 (binade ?x) \<le> ?x" using up j by simp
      have "pow2 0 \<le> \<bar>?x\<bar>" using x1 by simp
      then have "0 \<le> binade ?x" by (rule binade_ge)
      then have "ulp_exponent ?x \<le> binade ?x" by (simp add: ulp_exponent_def)
      from to_double_ge_coarser[of 1 "binade ?x" ?x, OF _ this] px
      have "pow2 (binade ?x) \<le> to_double ?x" by simp
      with lt show ?thesis by linarith
    qed
  qed
qed

lemma to_double_error_small:
  assumes "\<bar>x\<bar> < 2 ^ 24"
  shows "\<bar>to_double x - x\<bar> \<le> 1 / 2 ^ 30"
proof (cases "x = 0")
  case True
  then show ?thesis by simp
next
  case False
  have "pow2 24 = 2 ^ 24" by (simp add: pow2_def)
  with assms have "\<bar>x\<bar> < pow2 24" by simp
  from ulp_exponent_le[OF False this] have "ulp_exponent x \<le> - 29" by simp
  then have "pow2 (ulp_exponent x) \<le> pow2 (- 29)" by (rule pow2_mono)
  moreover have "pow2 (- 29) = 1 / 2 ^ 29" by (simp add: pow2_def)
  ultimately have "pow2 (ulp_exponent x) / 2 \<le> 1 / 2 ^ 30" by simp
  with to_double_error[of x] show ?thesis by linarith
qed

lemma seed_draw_preimage:
  assumes "is_double d" "0 \<le> d" "d < 1"
  shows "real_of_int \<lfloor>to_double (d * 10000000)\<rfloor> - 1 / 2 ^ 30 \<le> d * 10000000
         \<and> d * 10000000 < real_of_int \<lfloor>to_double (d * 10000000)\<rfloor> + 1"
proof -
  let ?x = "d * 10000000"
  have x: "\<bar>?x\<bar> < 2 ^ 24" using assms(2,3) by simp
  then have x53: "\<bar>?x\<bar> < 2 ^ 53" by simp
  have "real_of_int \<lfloor>to_double ?x\<rfloor> \<le> to_double ?x" by simp
  with to_double_error_small[OF x] have lo: "real_of_int \<lfloor>to_double ?x\<rfloor> - 1 / 2 ^ 30 \<le> ?x"
    by linarith
  have "?x < real_of_int \<lfloor>to_double ?x\<rfloor> + 1"
  proof (rule ccontr)
    assume "\<not> ?x < real_of_int \<lfloor>to_double ?x\<rfloor> + 1"
    then have "real_of_int (\<lfloor>to_double ?x\<rfloor> + 1) \<le> ?x" by simp
    from to_double_ge_int[OF x53 this] show False by linarith
  qed
  with lo show ?thesis by simp
qed

text \<open>The rounding at some values: 0.1, two sums above \<open>2^53\<close>, and two draws
  whose product with the scale rounds up to the next integer, where the floor of the
  exact product is one less.\<close>

lemma to_double_examples:
  "to_double (1 / 10) = 3602879701896397 / 2 ^ 55"
  "to_double (2 ^ 53 + 1) = 2 ^ 53"
  "to_double (2 ^ 53 + 3) = 2 ^ 53 + 4"
  "\<lfloor>to_double (5711915407394 / 2 ^ 52 * 10000000)\<rfloor> = 12683"
  "\<lfloor>5711915407394 / 2 ^ 52 * (10000000::real)\<rfloor> = 12682"
  "\<lfloor>to_double (to_double (9 / 1000) * 1000)\<rfloor> = 9"
  "\<lfloor>to_double (9 / 1000) * 1000\<rfloor> = 8"
  by code_simp+

subsection \<open>Validation\<close>

lemma js_rem_8: "js_rem a 8 = 0 \<longleftrightarrow> 8 dvd a"
  by (simp add: js_rem_def mod_eq_0_iff_dvd)

lemma validate_ok_iff:
  "(validateImageOptions wd ht b = Inr ()) \<longleftrightarrow>
     (case wd of None \<Rightarrow> True | Some w \<Rightarrow> w = 0 \<or> (384 \<le> w \<and> w \<le> 1024 \<and> 8 dvd w)) \<and>
     (case ht of None \<Rightarrow> True | Some h \<Rightarrow> h = 0 \<or> (384 \<le> h \<and> h \<le> 1024 \<and> 8 dvd h)) \<and>
     (case b of None \<Rightarrow> True | Some n \<Rightarrow> 1 \<le> n \<and> n \<le> 8)"
  unfolding validateImageOptions_def by (auto simp: js_rem_8 split: option.splits)

lemma validate_error_cases:
  "validateImageOptions wd ht b = Inl e \<Longrightarrow>
     e = \<lparr>message = ''Width must be between 384 and 1024 and be divisible by 8'',
             type = GENERATION_ERROR, statusCode = None\<rparr>
   \<or> e = \<lparr>message = ''Height must be between 384 and 1024 and be divisible by 8'',
             type = GENERATION_ERROR, statusCode = None\<rparr>
   \<or> e = \<lparr>message = ''Batch size must be between 1 and 8'',
             type = GENERATION_ERROR, statusCode = None\<rparr>"
  unfolding validateImageOptions_def by (simp split: if_splits)

lemma validate_error_type:
  "validateImageOptions wd ht b = Inl e \<Longrightarrow> type e = GENERATION_ERROR"
  by (drule validate_error_cases) (elim disjE; simp)

lemma catch_validation_error:
  assumes "validateImageOptions wd ht b = Inl e"
  shows "generateImage_catch cfg (Reve e) = e"
  using validate_error_cases[OF assms]
  by (elim disjE; simp add: generateImage_catch_def handleAxiosError_def)

lemma generateImage_invalid:
  assumes "validateImageOptions (width options) (height options) (batchSize options) = Inl e"
  shows "generateImage cfg env options = (Inl e, [], [])"
  using assms catch_validation_error[OF assms] by (simp add: generateImage_def)

text \<open>
  What \<open>validateImageOptions\<close> does at integer arguments. It raises nothing exactly when
  the width and the height are each omitted, zero, or a multiple of 8 within [384, 1024],
  and the batch size is omitted or within [1, 8]. Every error it raises has the kind
  \<open>GENERATION_ERROR\<close>, and \<open>generateImage\<close> then rejects with that error without any
  request: the batch's events and the jobs' events are empty.
\<close>

lemma validateImageOptions_integers:
  "((validateImageOptions wd ht b = Inr ()) \<longleftrightarrow>
      (case wd of None \<Rightarrow> True | Some w \<Rightarrow> w = 0 \<or> (384 \<le> w \<and> w \<le> 1024 \<and> 8 dvd w)) \<and>
      (case ht of None \<Rightarrow> True | Some h \<Rightarrow> h = 0 \<or> (384 \<le> h \<and> h \<le> 1024 \<and> 8 dvd h)) \<and>
      (case b of None \<Rightarrow> True | Some n \<Rightarrow> 1 \<le> n \<and> n \<le> 8))
   \<and> (\<forall>e. validateImageOptions wd ht b = Inl e \<longrightarrow> type e = GENERATION_ERROR)
   \<and> (\<forall>e. validateImageOptions (width options) (height options) (batchSize options) = Inl e
          \<longrightarrow> generateImage cfg env options = (Inl e, [], []))"
  using validate_ok_iff[of wd ht b] validate_error_type[of wd ht b]
    generateImage_invalid[of options _ cfg env]
  by blast

text \<open>
  Claim C2 does not hold of the code: a supplied width or height of 0 lies outside
  [384, 1024], and \<open>validateImageOptions\<close> raises no error for it. The tests start with
  \<open>width &&\<close> and \<open>height &&\<close>, and 0 is falsy. A request with the width 0 is
  accepted, and the job submits the default width 1024. The test of the batch size starts
  with \<open>batchSize !== undefined\<close> and does reject 0. At the boundary values 384, 1024,
  1025, 513 and 100 the function does what the claim says.
\<close>

theorem validateImageOptions_zero_width:
  "validateImageOptions (Some 0) (Some 512) (Some 1) = Inr ()
   \<and> validateImageOptions (Some 512) (Some 0) (Some 1) = Inr ()
   \<and> \<not> (0::int) \<in> {384 .. 1024}
   \<and> map inference_width
        (submitted_payloads
           (snd (snd (generateImage mock_config mock_batch (mock_options\<lparr>width := Some 0\<rparr>)))
              ! 0))
     = [1024]
   \<and> validateImageOptions (Some 512) (Some 512) (Some 0)
       = Inl \<lparr>message = ''Batch size must be between 1 and 8'',
              type = GENERATION_ERROR, statusCode = None\<rparr>
   \<and> validateImageOptions (Some 384) (Some 1024) (Some 8) = Inr ()
   \<and> validateImageOptions (Some 1025) (Some 512) None
       = Inl \<lparr>message = ''Width must be between 384 and 1024 and be divisible by 8'',
              type = GENERATION_ERROR, statusCode = None\<rparr>
   \<and> validateImageOptions (Some 513) (Some 512) None
       = Inl \<lparr>message = ''Width must be between 384 and 1024 and be divisible by 8'',
              type = GENERATION_ERROR, statusCode = None\<rparr>
   \<and> validateImageOptions (Some 512) (Some 100) None
       = Inl \<lparr>message = ''Height must be between 384 and 1024 and be divisible by 8'',
              type = GENERATION_ERROR, statusCode = None\<rparr>"
  by code_simp

subsection \<open>The prompt enhancer\<close>

lemma enhancePrompt_success:
  assumes "fst (getProjectId cfg projects) = Inr pid"
    and "answer = Inr (JArr xs)" and "xs \<noteq> []"
    and "get_prop (last xs) ''status'' = JStr ''success''"
    and "get_prop (get_prop (last xs) ''outputs'') ''expanded_prompts'' = JArr vs"
  shows "fst (enhancePrompt cfg projects answer original n) = vs"
proof -
  obtain x ys where xs: "xs = x # ys" using assms(3) by (cases xs) auto
  obtain t where g: "getProjectId cfg projects = (Inr pid, t)"
    using assms(1) by (cases "getProjectId cfg projects") auto
  have "truthy (get_prop (last xs) ''outputs'')"
    using assms(5) by (cases "get_prop (last xs) ''outputs''") auto
  then show ?thesis
    using assms(2,4,5) unfolding enhancePrompt_def g xs by (simp add: Let_def)
qed

lemma enhancePrompt_fallback:
  assumes "\<not> (\<exists>pid xs vs. fst (getProjectId cfg projects) = Inr pid
            \<and> answer = Inr (JArr xs) \<and> xs \<noteq> []
            \<and> get_prop (last xs) ''status'' = JStr ''success''
            \<and> get_prop (get_prop (last xs) ''outputs'') ''expanded_prompts'' = JArr vs)"
  shows "fst (enhancePrompt cfg projects answer original n) = [JStr original]"
proof (cases "getProjectId cfg projects")
  case (Pair r t)
  show ?thesis
  proof (cases r)
    case (Inl e)
    then show ?thesis unfolding enhancePrompt_def Pair by simp
  next
    case (Inr pid)
    then have p: "fst (getProjectId cfg projects) = Inr pid" using Pair by simp
    show ?thesis
      using assms p unfolding enhancePrompt_def Pair Inr
      by (auto simp: Let_def split: sum.splits json.splits list.splits)
  qed
qed

text \<open>
  Claim C5, as the code has it. \<open>enhancePrompt\<close> never raises (its model returns a list):
  it returns the original prompt alone unless the project id was resolved, the answer is a
  non-empty array, and the last entry of the array has the status \<open>success\<close> and an
  array \<open>outputs.expanded_prompts\<close>; then it returns that array as it is, also when the
  array is empty.
\<close>

theorem enhancePrompt_result:
  "(\<forall>pid xs vs. fst (getProjectId cfg projects) = Inr pid
        \<and> answer = Inr (JArr xs) \<and> xs \<noteq> []
        \<and> get_prop (last xs) ''status'' = JStr ''success''
        \<and> get_prop (get_prop (last xs) ''outputs'') ''expanded_prompts'' = JArr vs
      \<longrightarrow> fst (enhancePrompt cfg projects answer original n) = vs)
   \<and> (\<not> (\<exists>pid xs vs. fst (getProjectId cfg projects) = Inr pid
        \<and> answer = Inr (JArr xs) \<and> xs \<noteq> []
        \<and> get_prop (last xs) ''status'' = JStr ''success''
        \<and> get_prop (get_prop (last xs) ''outputs'') ''expanded_prompts'' = JArr vs)
      \<longrightarrow> fst (enhancePrompt cfg projects answer original n) = [JStr original])"
  using enhancePrompt_success[of cfg projects _ answer _ _ original n]
    enhancePrompt_fallback[of cfg projects answer original n]
  by blast

text \<open>The theorem at the mock enhancer, and at a request that fails in the network.\<close>

theorem enhancePrompt_result_witness:
  "fst (enhancePrompt mock_config (Inr (JArr [])) (Inr mock_variants) ''test prompt'' 3)
     = [JStr ''variant 1'', JStr ''variant 2'', JStr ''variant 3'']
   \<and> fst (enhancePrompt mock_config (Inr (JArr [])) (Inl (OtherError ''Network Error''))
            ''test prompt'' 3)
     = [JStr ''test prompt'']"
  using enhancePrompt_result[of mock_config "Inr (JArr [])" "Inr mock_variants"
      "''test prompt''" 3]
    enhancePrompt_result[of mock_config "Inr (JArr [])" "Inl (OtherError ''Network Error'')"
      "''test prompt''" 3]
  by (simp add: mock_config_def mock_variants_def getProjectId_def)

text \<open>Claim C5 as stated fails when the last entry reports success with an empty list of
  variants: there is no entry with a non-empty list, and the result is the empty list, not
  the original prompt.\<close>

theorem enhancePrompt_empty_counterexample:
  "fst (enhancePrompt mock_config (Inr (JArr []))
          (Inr (JArr [JObj [(''status'', JStr ''success''),
                            (''outputs'', JObj [(''expanded_prompts'', JArr [])])]]))
          ''test prompt'' 4) = []
   \<and> [] \<noteq> [JStr ''test prompt'']"
  by (simp add: enhancePrompt_def mock_config_def getProjectId_def)

subsection \<open>The polling loop\<close>

declare poll_loop.simps [simp del]

lemma poll_loop_exhausted:
  "\<not> a < maxPollingAttempts cfg \<Longrightarrow>
     poll_loop cfg env p g a =
       (Inl \<lparr>message = ''Generation timed out after '' @ string_of_nat a @ '' polling attempts'',
              type = POLLING_ERROR, statusCode = None\<rparr>, [])"
  by (subst poll_loop.simps) simp

lemma poll_loop_leave:
  "a < maxPollingAttempts cfg \<Longrightarrow> poll_iteration cfg env p g a = Leave r t \<Longrightarrow>
     poll_loop cfg env p g a = (r, t)"
  by (subst poll_loop.simps) simp

lemma poll_loop_again:
  "a < maxPollingAttempts cfg \<Longrightarrow> poll_iteration cfg env p g a = Again t \<Longrightarrow>
     poll_loop cfg env p g a =
       (fst (poll_loop cfg env p g (a + 1)), t @ snd (poll_loop cfg env p g (a + 1)))"
  by (subst poll_loop.simps) (simp add: case_prod_beta)

lemma truthy_get_prop: "truthy (get_prop v k) \<Longrightarrow> truthy v"
  by (cases v) auto

lemma poll_iteration_attempts:
  "poll_iteration cfg env p g a = Leave r t \<Longrightarrow> polling_attempts t = 1"
  "poll_iteration cfg env p g a = Again t \<Longrightarrow> polling_attempts t = 1"
  unfolding poll_iteration_def polling_attempts_def
  by (auto simp: Let_def split: sum.splits if_splits)

lemma polling_attempts_append: "polling_attempts (s @ t) = polling_attempts s + polling_attempts t"
  by (simp add: polling_attempts_def)

lemma poll_loop_attempts_bound:
  "polling_attempts (snd (poll_loop cfg env p g a)) \<le> maxPollingAttempts cfg - a"
proof (induction cfg env p g a rule: poll_loop.induct)
  case (1 cfg env p g a)
  show ?case
  proof (cases "a < maxPollingAttempts cfg")
    case False
    then show ?thesis by (simp add: poll_loop_exhausted polling_attempts_def)
  next
    case True
    show ?thesis
    proof (cases "poll_iteration cfg env p g a")
      case (Leave r t)
      then show ?thesis
        using True poll_iteration_attempts(1)[OF Leave] by (simp add: poll_loop_leave)
    next
      case (Again t)
      have "polling_attempts (snd (poll_loop cfg env p g (a + 1))) \<le> maxPollingAttempts cfg - (a + 1)"
        using "1.IH"[OF True Again] .
      then show ?thesis
        using True poll_iteration_attempts(2)[OF Again]
        by (simp add: poll_loop_again[OF True Again] polling_attempts_append)
    qed
  qed
qed

lemma poll_iteration_fetch_failed:
  assumes "node_get env a = Inr data" and "ourGeneration_in data g = Inr entry"
    and "truthy (get_prop (get_prop entry ''data'') ''output'')"
    and "image_get env a = Inl err"
  shows "poll_iteration cfg env p g a =
           Again [GetNode p, GetImage p (get_prop (get_prop entry ''data'') ''output''),
                  Delay (pollingInterval cfg)]"
proof -
  have "truthy (get_prop entry ''data'')" using assms(3) by (rule truthy_get_prop)
  moreover from this have "truthy entry" by (rule truthy_get_prop)
  ultimately show ?thesis
    using assms unfolding poll_iteration_def by (simp add: Let_def)
qed

lemma poll_iteration_failed:
  assumes "node_get env a = Inr data" and "ourGeneration_in data g = Inr entry"
    and "\<not> truthy (get_prop (get_prop entry ''data'') ''output'')"
    and "truthy (get_prop (get_prop entry ''data'') ''error'')"
  shows "poll_iteration cfg env p g a =
           Leave (Inl \<lparr>message = ''Generation failed: ''
                                  @ to_string (get_prop (get_prop entry ''data'') ''error''),
                       type = GENERATION_ERROR, statusCode = None\<rparr>) [GetNode p]"
proof -
  have "truthy (get_prop entry ''data'')" using assms(4) by (rule truthy_get_prop)
  moreover from this have "truthy entry" by (rule truthy_get_prop)
  ultimately show ?thesis
    using assms unfolding poll_iteration_def by (simp add: Let_def)
qed

lemma poll_iteration_absent:
  assumes "node_get env a = Inr data" and "ourGeneration_in data g = Inr JUndefined"
  shows "poll_iteration cfg env p g a = Again [GetNode p, Delay (pollingInterval cfg)]"
  using assms unfolding poll_iteration_def by (simp add: Let_def)

lemma poll_loop_absent:
  assumes "\<forall>a. a0 \<le> a \<and> a < maxPollingAttempts cfg \<longrightarrow>
             (\<exists>data. node_get env a = Inr data \<and> ourGeneration_in data g = Inr JUndefined)"
    and "a0 \<le> maxPollingAttempts cfg"
  shows "poll_loop cfg env p g a0 =
           (Inl \<lparr>message = ''Generation timed out after ''
                            @ string_of_nat (maxPollingAttempts cfg) @ '' polling attempts'',
                 type = POLLING_ERROR, statusCode = None\<rparr>,
            concat (replicate (maxPollingAttempts cfg - a0) [GetNode p, Delay (pollingInterval cfg)]))"
  using assms
proof (induction "maxPollingAttempts cfg - a0" arbitrary: a0)
  case 0
  then have "a0 = maxPollingAttempts cfg" by simp
  then show ?case by (simp add: poll_loop_exhausted)
next
  case (Suc n)
  then have lt: "a0 < maxPollingAttempts cfg" by simp
  obtain data where d: "node_get env a0 = Inr data" "ourGeneration_in data g = Inr JUndefined"
    using Suc.prems(1) lt by blast
  have it: "poll_iteration cfg env p g a0 = Again [GetNode p, Delay (pollingInterval cfg)]"
    using d by (rule poll_iteration_absent)
  have n: "n = maxPollingAttempts cfg - (a0 + 1)" using Suc.hyps(2) by simp
  have IH: "poll_loop cfg env p g (a0 + 1) =
      (Inl \<lparr>message = ''Generation timed out after ''
                            @ string_of_nat (maxPollingAttempts cfg) @ '' polling attempts'',
                 type = POLLING_ERROR, statusCode = None\<rparr>,
       concat (replicate n [GetNode p, Delay (pollingInterval cfg)]))"
    unfolding n using Suc.hyps(1)[OF n] Suc.prems(1) lt by simp
  have "maxPollingAttempts cfg - a0 = Suc n" using Suc.hyps(2) by simp
  then show ?case
    unfolding poll_loop_again[OF lt it] IH by simp
qed

lemma poll_iteration_result:
  assumes "poll_iteration cfg env p g a = Leave (Inr pr) t"
  shows "\<exists>data entry img. node_get env a = Inr data \<and> ourGeneration_in data g = Inr entry
           \<and> truthy (get_prop (get_prop entry ''data'') ''output'')
           \<and> image_get env a = Inr img
           \<and> length (poll_imageUrls pr) = 1
           \<and> poll_seed pr =
               (if truthy (get_prop (get_prop (get_prop entry ''data'') ''inference_inputs'') ''seed'')
                then get_prop (get_prop (get_prop entry ''data'') ''inference_inputs'') ''seed''
                else JNum (- 1))"
proof (cases "node_get env a")
  case (Inl e)
  then show ?thesis using assms by (simp add: poll_iteration_def)
next
  case data: (Inr data)
  show ?thesis
  proof (cases "ourGeneration_in data g")
    case (Inl e)
    then show ?thesis using assms data by (simp add: poll_iteration_def)
  next
    case entry: (Inr entry)
    show ?thesis
    proof (cases "truthy entry \<and> truthy (get_prop entry ''data'')
                  \<and> truthy (get_prop (get_prop entry ''data'') ''output'')")
      case False
      then show ?thesis
        using assms data entry by (simp add: poll_iteration_def Let_def split: if_splits)
    next
      case True
      show ?thesis
      proof (cases "image_get env a")
        case (Inl err)
        then show ?thesis
          using assms data entry True by (simp add: poll_iteration_def Let_def)
      next
        case img: (Inr img)
        have "length (poll_imageUrls pr) = 1 \<and> poll_seed pr =
               (if truthy (get_prop (get_prop (get_prop entry ''data'') ''inference_inputs'') ''seed'')
                then get_prop (get_prop (get_prop entry ''data'') ''inference_inputs'') ''seed''
                else JNum (- 1))"
          using assms data entry True img
          by (auto simp add: poll_iteration_def Let_def)
        then show ?thesis using data entry True img by blast
      qed
    qed
  qed
qed

lemma poll_loop_result:
  "fst (poll_loop cfg env p g a0) = Inr pr \<Longrightarrow>
     \<exists>a t. a0 \<le> a \<and> a < maxPollingAttempts cfg \<and> poll_iteration cfg env p g a = Leave (Inr pr) t"
proof (induction cfg env p g a0 rule: poll_loop.induct)
  case (1 cfg env p g a)
  show ?case
  proof (cases "a < maxPollingAttempts cfg")
    case False
    then show ?thesis using "1.prems" by (simp add: poll_loop_exhausted)
  next
    case True
    show ?thesis
    proof (cases "poll_iteration cfg env p g a")
      case (Leave r t)
      then have "r = Inr pr" using True "1.prems" by (simp add: poll_loop_leave)
      then show ?thesis using True Leave by blast
    next
      case (Again t)
      have "fst (poll_loop cfg env p g (a + 1)) = Inr pr"
        using "1.prems" by (simp add: poll_loop_again[OF True Again])
      from "1.IH"[OF True Again this] obtain b u where
        "a + 1 \<le> b" "b < maxPollingAttempts cfg" "poll_iteration cfg env p g b = Leave (Inr pr) u"
        by blast
      moreover from this have "a \<le> b" by simp
      ultimately show ?thesis by blast
    qed
  qed
qed

lemma poll_loop_skip:
  assumes "\<forall>b. a0 \<le> b \<and> b < a \<longrightarrow> (\<exists>t. poll_iteration cfg env p g b = Again t)"
    and "a0 \<le> a" and "a \<le> maxPollingAttempts cfg"
  shows "fst (poll_loop cfg env p g a0) = fst (poll_loop cfg env p g a)"
  using assms
proof (induction "a - a0" arbitrary: a0)
  case 0
  then show ?case by simp
next
  case (Suc n)
  then have lt: "a0 < a" by simp
  then have m: "a0 < maxPollingAttempts cfg" using Suc.prems(3) by simp
  obtain t where it: "poll_iteration cfg env p g a0 = Again t"
    using Suc.prems(1) lt by blast
  have n: "n = a - (a0 + 1)" using Suc.hyps(2) by simp
  have "fst (poll_loop cfg env p g (a0 + 1)) = fst (poll_loop cfg env p g a)"
    using Suc.hyps(1)[OF n] Suc.prems lt by simp
  then show ?case by (simp add: poll_loop_again[OF m it])
qed

lemma poll_iteration_completed:
  assumes "node_get env a = Inr data" and "ourGeneration_in data g = Inr entry"
    and "truthy (get_prop (get_prop entry ''data'') ''output'')"
    and "image_get env a = Inr img"
  shows "poll_iteration cfg env p g a =
           Leave (Inr \<lparr>poll_imageUrls =
                         [''data:''
                          @ (case content_type img of
                               Some c \<Rightarrow> if c \<noteq> [] then c else ''image/webp''
                             | None \<Rightarrow> ''image/webp'')
                          @ '';base64,'' @ body_base64 img],
                       poll_seed =
                         (if truthy (get_prop (get_prop (get_prop entry ''data'')
                                                 ''inference_inputs'') ''seed'')
                          then get_prop (get_prop (get_prop entry ''data'')
                                           ''inference_inputs'') ''seed''
                          else JNum (- 1))\<rparr>)
             [GetNode p, GetImage p (get_prop (get_prop entry ''data'') ''output'')]"
proof -
  have "truthy (get_prop entry ''data'')" using assms(3) by (rule truthy_get_prop)
  moreover from this have "truthy entry" by (rule truthy_get_prop)
  ultimately show ?thesis
    using assms unfolding poll_iteration_def by (simp add: Let_def)
qed

lemma poll_iteration_waiting:
  assumes "node_get env a = Inr data" and "ourGeneration_in data g = Inr entry"
    and "\<not> truthy (get_prop (get_prop entry ''data'') ''output'')"
    and "\<not> truthy (get_prop (get_prop entry ''data'') ''error'')"
  shows "poll_iteration cfg env p g a = Again [GetNode p, Delay (pollingInterval cfg)]"
  using assms unfolding poll_iteration_def by (simp add: Let_def)

text \<open>
  Claim C8. At a polling iteration within the budget where the job's entry carries an
  output and the image request fails, the loop does not end: it waits one polling interval
  and goes on as the loop at one more attempt does, so the failure costs exactly one
  attempt (one request for the listing); the attempts of the loop from any count on, and
  of the whole polling, stay within \<open>maxPollingAttempts\<close>.
\<close>

theorem fetch_failure_retries:
  assumes "a < maxPollingAttempts cfg"
    and "node_get env a = Inr data" and "ourGeneration_in data g = Inr entry"
    and "truthy (get_prop (get_prop entry ''data'') ''output'')"
    and "image_get env a = Inl err"
  shows "poll_loop cfg env p g a =
           (fst (poll_loop cfg env p g (a + 1)),
            [GetNode p, GetImage p (get_prop (get_prop entry ''data'') ''output''),
             Delay (pollingInterval cfg)] @ snd (poll_loop cfg env p g (a + 1)))
       \<and> polling_attempts (snd (poll_loop cfg env p g a))
           = 1 + polling_attempts (snd (poll_loop cfg env p g (a + 1)))
       \<and> polling_attempts (snd (poll_loop cfg env p g a)) \<le> maxPollingAttempts cfg - a
       \<and> polling_attempts (snd (pollGenerationStatus cfg env p g)) \<le> maxPollingAttempts cfg"
proof -
  have it: "poll_iteration cfg env p g a =
      Again [GetNode p, GetImage p (get_prop (get_prop entry ''data'') ''output''),
             Delay (pollingInterval cfg)]"
    using assms(2-5) by (rule poll_iteration_fetch_failed)
  have loop: "poll_loop cfg env p g a =
           (fst (poll_loop cfg env p g (a + 1)),
            [GetNode p, GetImage p (get_prop (get_prop entry ''data'') ''output''),
             Delay (pollingInterval cfg)] @ snd (poll_loop cfg env p g (a + 1)))"
    using assms(1) it by (rule poll_loop_again)
  have "polling_attempts (snd (poll_loop cfg env p g a))
           = 1 + polling_attempts (snd (poll_loop cfg env p g (a + 1)))"
    unfolding loop by (simp add: polling_attempts_def)
  moreover have "polling_attempts (snd (pollGenerationStatus cfg env p g)) \<le> maxPollingAttempts cfg"
    using poll_loop_attempts_bound[of cfg env p g 0] by (simp add: pollGenerationStatus_def)
  ultimately show ?thesis
    using loop poll_loop_attempts_bound[of cfg env p g a] by simp
qed

text \<open>The theorem at a job whose first image request fails: the poller waits, asks
  again, and returns the image of the second attempt.\<close>

lemma flaky_second:
  "poll_loop mock_config flaky_job (JStr ''mock-project-id'') (JStr ''mock-gen-id-123'') 1
     = (Inr \<lparr>poll_imageUrls = [''data:image/webp;base64,mock-base64-data''],
              poll_seed = JNum 12345\<rparr>,
        [GetNode (JStr ''mock-project-id''),
         GetImage (JStr ''mock-project-id'') (JStr ''mock-image-id'')])"
  by (simp add: poll_loop.simps poll_iteration_def mock_config_def flaky_job_def mock_job_def
      mock_listing_def mock_entry_def ourGeneration_in_def Let_def)

theorem fetch_failure_retries_witness:
  "pollGenerationStatus mock_config flaky_job (JStr ''mock-project-id'') (JStr ''mock-gen-id-123'')
     = (Inr \<lparr>poll_imageUrls = [''data:image/webp;base64,mock-base64-data''],
              poll_seed = JNum 12345\<rparr>,
        [GetNode (JStr ''mock-project-id''),
         GetImage (JStr ''mock-project-id'') (JStr ''mock-image-id''),
         Delay 1,
         GetNode (JStr ''mock-project-id''),
         GetImage (JStr ''mock-project-id'') (JStr ''mock-image-id'')])"
proof -
  let ?entry = "mock_entry [(''output'', JStr ''mock-image-id''),
                     (''inference_inputs'', JObj [(''seed'', JNum 12345)])]"
  have a: "0 < maxPollingAttempts mock_config" by (simp add: mock_config_def)
  have n: "node_get flaky_job 0 = Inr (mock_listing [?entry])"
    by (simp add: flaky_job_def mock_job_def)
  have f: "ourGeneration_in (mock_listing [?entry]) (JStr ''mock-gen-id-123'') = Inr ?entry"
    by (simp add: ourGeneration_in_def mock_listing_def mock_entry_def)
  have out: "truthy (get_prop (get_prop ?entry ''data'') ''output'')"
    by (simp add: mock_entry_def)
  have img: "image_get flaky_job 0 = Inl (OtherError ''Network Error'')"
    by (simp add: flaky_job_def)
  show ?thesis
    using fetch_failure_retries[OF a n f out img, of "JStr ''mock-project-id''"] flaky_second
    by (simp add: pollGenerationStatus_def mock_entry_def mock_config_def)
qed

subsection \<open>Awaiting all pipelines\<close>

lemma first_rejection_None:
  "first_rejection f i rs = None \<longleftrightarrow> (\<forall>r\<in>set rs. \<exists>v. r = Inr v)"
  by (induction f i rs rule: first_rejection.induct) (auto split: option.splits if_splits)

lemma resolved_values_all:
  "(\<forall>r\<in>set rs. \<exists>v. r = Inr v) \<Longrightarrow> map Inr (resolved_values rs) = rs"
  by (induction rs rule: resolved_values.induct) auto

lemma resolved_values_map_Inr: "resolved_values (map Inr vs) = vs"
  by (induction vs) auto

lemma first_rejection_Some:
  "first_rejection f i rs = Some (t, e) \<Longrightarrow>
     \<exists>k<length rs. rs ! k = Inl e \<and> t = f (i + k)
        \<and> (\<forall>j<length rs. \<forall>e'. rs ! j = Inl e' \<longrightarrow> t \<le> f (i + j))"
proof (induction f i rs arbitrary: t e rule: first_rejection.induct)
  case (1 f i)
  then show ?case by simp
next
  case (2 f i v rs)
  from "2.IH"[of t e] "2.prems" obtain k where k: "k < length rs" "rs ! k = Inl e"
    "t = f (Suc i + k)" "\<forall>j<length rs. \<forall>e'. rs ! j = Inl e' \<longrightarrow> t \<le> f (Suc i + j)"
    by auto
  have "\<forall>j<length (Inr v # rs). \<forall>e'. (Inr v # rs) ! j = Inl e' \<longrightarrow> t \<le> f (i + j)"
  proof (intro allI impI)
    fix j e' assume j: "j < length (Inr v # rs)" "(Inr v # rs) ! j = Inl e'"
    then obtain j' where "j = Suc j'" by (cases j) auto
    with j k(4) show "t \<le> f (i + j)" by auto
  qed
  with k(1-3) show ?case by (intro exI[of _ "Suc k"]) auto
next
  case (3 f i e0 rs)
  show ?case
  proof (cases "first_rejection f (Suc i) rs")
    case None
    then have all: "\<forall>r\<in>set rs. \<exists>v. r = Inr v" by (simp add: first_rejection_None)
    from None "3.prems" have te: "t = f i" "e = e0" by auto
    have "\<forall>j<length (Inl e0 # rs). \<forall>e'. (Inl e0 # rs) ! j = Inl e' \<longrightarrow> t \<le> f (i + j)"
    proof (intro allI impI)
      fix j e' assume j: "j < length (Inl e0 # rs)" "(Inl e0 # rs) ! j = Inl e'"
      show "t \<le> f (i + j)"
      proof (cases j)
        case 0
        then show ?thesis using te by simp
      next
        case (Suc j')
        then have "rs ! j' \<in> set rs" using j(1) by simp
        with all obtain v where "rs ! j' = Inr v" by blast
        with j(2) Suc show ?thesis by simp
      qed
    qed
    with te show ?thesis by (intro exI[of _ 0]) auto
  next
    case (Some a)
    obtain t' e' where a: "a = (t', e')" by (cases a)
    from "3.IH"[of t' e'] Some a obtain k where k: "k < length rs" "rs ! k = Inl e'"
      "t' = f (Suc i + k)" "\<forall>j<length rs. \<forall>e''. rs ! j = Inl e'' \<longrightarrow> t' \<le> f (Suc i + j)"
      by auto
    show ?thesis
    proof (cases "t' < f i")
      case True
      with Some a "3.prems" have te: "t = t'" "e = e'" by auto
      have "\<forall>j<length (Inl e0 # rs). \<forall>e''. (Inl e0 # rs) ! j = Inl e'' \<longrightarrow> t \<le> f (i + j)"
      proof (intro allI impI)
        fix j e'' assume j: "j < length (Inl e0 # rs)" "(Inl e0 # rs) ! j = Inl e''"
        show "t \<le> f (i + j)"
        proof (cases j)
          case 0
          then show ?thesis using te True by simp
        next
          case (Suc j')
          with j k(4) te show ?thesis by auto
        qed
      qed
      with k(1-3) te show ?thesis by (intro exI[of _ "Suc k"]) auto
    next
      case False
      with Some a "3.prems" have te: "t = f i" "e = e0" by auto
      have "\<forall>j<length (Inl e0 # rs). \<forall>e''. (Inl e0 # rs) ! j = Inl e'' \<longrightarrow> t \<le> f (i + j)"
      proof (intro allI impI)
        fix j e'' assume j: "j < length (Inl e0 # rs)" "(Inl e0 # rs) ! j = Inl e''"
        show "t \<le> f (i + j)"
        proof (cases j)
          case 0
          then show ?thesis using te by simp
        next
          case (Suc j')
          with j k(4) have "t' \<le> f (i + j)" by auto
          with False te show ?thesis by simp
        qed
      qed
      with te show ?thesis by (intro exI[of _ 0]) auto
    qed
  qed
qed

lemma promise_all_resolves:
  "promise_all f rs = Inr vs \<longleftrightarrow> rs = map Inr vs"
proof
  assume "promise_all f rs = Inr vs"
  then have n: "first_rejection f 0 rs = None" and v: "vs = resolved_values rs"
    by (auto simp: promise_all_def split: option.splits)
  from n have "\<forall>r\<in>set rs. \<exists>v. r = Inr v" by (simp add: first_rejection_None)
  then show "rs = map Inr vs" using v resolved_values_all by metis
next
  assume r: "rs = map Inr vs"
  then have "first_rejection f 0 rs = None" by (auto simp: first_rejection_None)
  then show "promise_all f rs = Inr vs" by (simp add: promise_all_def r resolved_values_map_Inr)
qed

lemma promise_all_rejects:
  assumes "promise_all f rs = Inl e"
  shows "\<exists>k<length rs. rs ! k = Inl e
           \<and> (\<forall>j<length rs. \<forall>e'. rs ! j = Inl e' \<longrightarrow> f k \<le> f j)"
proof -
  from assms obtain t where "first_rejection f 0 rs = Some (t, e)"
    by (auto simp: promise_all_def split: option.splits)
  from first_rejection_Some[OF this] show ?thesis by auto
qed

lemma promise_all_some_rejection:
  assumes "k < length rs" and "rs ! k = Inl e"
  shows "\<exists>e'. promise_all f rs = Inl e'"
proof (cases "promise_all f rs")
  case (Inl e')
  then show ?thesis by blast
next
  case (Inr vs)
  then have "rs = map Inr vs" by (simp add: promise_all_resolves)
  with assms show ?thesis by auto
qed

lemma first_rejection_first:
  assumes "k < length rs" and "rs ! k = Inl e"
    and "\<forall>j<length rs. \<forall>e'. rs ! j = Inl e' \<longrightarrow>
           (j < k \<longrightarrow> f (i + k) < f (i + j)) \<and> (k < j \<longrightarrow> f (i + k) \<le> f (i + j))"
  shows "first_rejection f i rs = Some (f (i + k), e)"
  using assms
proof (induction rs arbitrary: i k)
  case Nil
  then show ?case by simp
next
  case (Cons r rs)
  show ?case
  proof (cases k)
    case 0
    then have r: "r = Inl e" using Cons.prems(2) by simp
    show ?thesis
    proof (cases "first_rejection f (Suc i) rs")
      case None
      then show ?thesis using r 0 by simp
    next
      case (Some te)
      obtain t e' where te: "te = (t, e')" by (cases te)
      from first_rejection_Some[OF Some[unfolded te]] obtain k' where
        k': "k' < length rs" "rs ! k' = Inl e'" "t = f (Suc i + k')" by blast
      have "f (i + k) \<le> f (i + Suc k')"
        using Cons.prems(3)[rule_format, of "Suc k'" e'] k' 0 by simp
      then have "\<not> t < f i" using k'(3) 0 by simp
      then show ?thesis using r 0 Some te by simp
    qed
  next
    case (Suc k')
    have a: "k' < length rs" "rs ! k' = Inl e" using Cons.prems(1,2) Suc by simp_all
    have b: "\<forall>j<length rs. \<forall>e'. rs ! j = Inl e' \<longrightarrow>
           (j < k' \<longrightarrow> f (Suc i + k') < f (Suc i + j)) \<and> (k' < j \<longrightarrow> f (Suc i + k') \<le> f (Suc i + j))"
    proof (intro allI impI)
      fix j e' assume j: "j < length rs" "rs ! j = Inl e'"
      from Cons.prems(3)[rule_format, of "Suc j" e'] j Suc
      show "(j < k' \<longrightarrow> f (Suc i + k') < f (Suc i + j)) \<and> (k' < j \<longrightarrow> f (Suc i + k') \<le> f (Suc i + j))"
        by simp
    qed
    have IH: "first_rejection f (Suc i) rs = Some (f (Suc i + k'), e)"
      using Cons.IH[OF a b] .
    show ?thesis
    proof (cases r)
      case (Inr v)
      then show ?thesis using IH Suc by simp
    next
      case (Inl e0)
      have "f (i + k) < f (i + 0)"
        using Cons.prems(3)[rule_format, of 0 e0] Inl Suc by simp
      then show ?thesis using IH Suc Inl by simp
    qed
  qed
qed

lemma promise_all_first:
  assumes "k < length rs" and "rs ! k = Inl e"
    and "\<forall>j<length rs. \<forall>e'. rs ! j = Inl e' \<longrightarrow>
           (j < k \<longrightarrow> f k < f j) \<and> (k < j \<longrightarrow> f k \<le> f j)"
  shows "promise_all f rs = Inl e"
  using first_rejection_first[of k rs e f 0] assms by (simp add: promise_all_def)

subsection \<open>The batch\<close>

lemma generateImage_fst:
  assumes "validateImageOptions (width options) (height options) (batchSize options) = Inr ()"
  shows "fst (generateImage cfg env options) =
     (case promise_all (settled_at env) (job_results cfg env options) of
        Inl error \<Rightarrow> Inl (generateImage_catch cfg error)
      | Inr results \<Rightarrow>
          (case results of
             [] \<Rightarrow> Inl (generateImage_catch cfg (OtherError (type_error_read JUndefined ''seed'')))
           | first # rest \<Rightarrow>
               (let usedEnhancedPrompts =
                      filter (\<lambda>p. p \<noteq> JUndefined) (map single_enhancedPrompt results);
                    given = shouldEnhancePrompt options \<and> length usedEnhancedPrompts > 0
                in
                  Inr \<lparr>imageUrls = map imageUrl results,
                       result_seed = single_seed first,
                       completedAt = now env,
                       result_prompt = prompt options,
                       enhancedPrompt = (if given then Some (hd usedEnhancedPrompts) else None),
                       enhancedPrompts =
                         (if given \<and> length usedEnhancedPrompts > 1
                          then Some usedEnhancedPrompts else None),
                       result_negativePrompt =
                         (case negativePrompt options of
                            Some n \<Rightarrow> if n \<noteq> [] then Some n else None
                          | None \<Rightarrow> None)\<rparr>)))"
  using assms by (simp add: generateImage_def job_results_def comp_def Let_def)

lemma generateImage_invalid_fst:
  "validateImageOptions (width options) (height options) (batchSize options) = Inl e \<Longrightarrow>
     fst (generateImage cfg env options) = Inl e"
  by (simp add: generateImage_invalid)

lemma generateImage_resolved:
  assumes "fst (generateImage cfg env options) = Inr r"
  shows "validateImageOptions (width options) (height options) (batchSize options) = Inr ()
       \<and> (\<exists>results. job_results cfg env options = map Inr results \<and> results \<noteq> []
             \<and> imageUrls r = map imageUrl results
             \<and> result_seed r = single_seed (hd results))"
proof -
  have v: "validateImageOptions (width options) (height options) (batchSize options) = Inr ()"
  proof (cases "validateImageOptions (width options) (height options) (batchSize options)")
    case (Inl e)
    then show ?thesis using assms by (simp add: generateImage_invalid)
  next
    case (Inr u)
    then show ?thesis by simp
  qed
  show ?thesis
  proof (cases "promise_all (settled_at env) (job_results cfg env options)")
    case (Inl e)
    then show ?thesis using assms by (simp add: generateImage_fst[OF v])
  next
    case (Inr results)
    then have rs: "job_results cfg env options = map Inr results"
      by (simp add: promise_all_resolves)
    show ?thesis
    proof (cases results)
      case Nil
      then show ?thesis using assms Inr by (simp add: generateImage_fst[OF v])
    next
      case (Cons first rest)
      then have "imageUrls r = map imageUrl results \<and> result_seed r = single_seed (hd results)"
        using assms Inr by (auto simp add: generateImage_fst[OF v] Let_def)
      then show ?thesis using v rs Cons by blast
    qed
  qed
qed

lemma job_run_settled_at [simp]:
  "job_run cfg (env\<lparr>settled_at := f\<rparr>) options i = job_run cfg env options i"
  by (simp add: job_run_def job_options_def jittered_seed_def job_jitter_def
        batch_enhancement_def split: option.splits)

lemma job_results_settled_at [simp]:
  "job_results cfg (env\<lparr>settled_at := f\<rparr>) options = job_results cfg env options"
  by (simp add: job_results_def)

lemma generateImage_resolved_any_order:
  assumes "fst (generateImage cfg env options) = Inr r"
  shows "fst (generateImage cfg (env\<lparr>settled_at := f\<rparr>) options) = Inr r"
proof -
  from generateImage_resolved[OF assms] obtain results where
    v: "validateImageOptions (width options) (height options) (batchSize options) = Inr ()"
    and rs: "job_results cfg env options = map Inr results"
    by blast
  have p: "\<And>g. promise_all g (job_results cfg env options) = Inr results"
    using rs by (simp add: promise_all_resolves)
  have "fst (generateImage cfg (env\<lparr>settled_at := f\<rparr>) options)
          = fst (generateImage cfg env options)"
    by (simp add: generateImage_fst[OF v] p cong: list.case_cong)
  then show ?thesis using assms by simp
qed

lemma effective_batchSize_valid:
  assumes "validateImageOptions (width options) (height options) (batchSize options) = Inr ()"
  shows "(\<forall>b. batchSize options = Some b \<longrightarrow> effective_batchSize options = b \<and> 1 \<le> b \<and> b \<le> 8)
       \<and> (batchSize options = None \<longrightarrow> effective_batchSize options = 1)"
  using assms by (auto simp: validate_ok_iff effective_batchSize_def split: option.splits)

lemma length_job_results [simp]:
  "length (job_results cfg env options) = nat (effective_batchSize options)"
  by (simp add: job_results_def)

lemma nth_job_results:
  "i < nat (effective_batchSize options) \<Longrightarrow>
     job_results cfg env options ! i = fst (job_run cfg env options i)"
  by (simp add: job_results_def)

lemma generateImage_resolved_jobs:
  assumes "fst (generateImage cfg env options) = Inr r"
  shows "length (imageUrls r) = nat (effective_batchSize options)
       \<and> (\<forall>i<nat (effective_batchSize options).
            \<exists>res. fst (job_run cfg env options i) = Inr res \<and> imageUrls r ! i = imageUrl res)
       \<and> (\<exists>res. fst (job_run cfg env options 0) = Inr res \<and> result_seed r = single_seed res)"
proof -
  from generateImage_resolved[OF assms] obtain results where
    rs: "job_results cfg env options = map Inr results" and ne: "results \<noteq> []"
    and u: "imageUrls r = map imageUrl results" and s: "result_seed r = single_seed (hd results)"
    by blast
  have len: "length results = nat (effective_batchSize options)"
    using arg_cong[OF rs, of length] by simp
  have nth: "\<And>i. i < nat (effective_batchSize options) \<Longrightarrow>
      fst (job_run cfg env options i) = Inr (results ! i)"
    using rs len by (metis nth_job_results nth_map)
  have "0 < length results" using ne by simp
  then have "0 < nat (effective_batchSize options)" unfolding len .
  from nth[OF this] have "fst (job_run cfg env options 0) = Inr (hd results)"
    using ne by (simp add: hd_conv_nth)
  then show ?thesis using u s len nth by auto
qed

lemma generateImage_rejected:
  assumes v: "validateImageOptions (width options) (height options) (batchSize options) = Inr ()"
    and i: "i < nat (effective_batchSize options)"
    and e: "fst (job_run cfg env options i) = Inl e"
  shows "\<exists>k e'. k < nat (effective_batchSize options)
           \<and> fst (job_run cfg env options k) = Inl e'
           \<and> (\<forall>j e''. j < nat (effective_batchSize options)
                  \<and> fst (job_run cfg env options j) = Inl e''
                \<longrightarrow> settled_at env k \<le> settled_at env j)
           \<and> fst (generateImage cfg env options) = Inl (generateImage_catch cfg e')"
proof -
  have "job_results cfg env options ! i = Inl e" using i e by (simp add: nth_job_results)
  with i obtain e' where p: "promise_all (settled_at env) (job_results cfg env options) = Inl e'"
    using promise_all_some_rejection[of i "job_results cfg env options" e "settled_at env"] by auto
  from promise_all_rejects[OF p] obtain k where
    k: "k < nat (effective_batchSize options)" "job_results cfg env options ! k = Inl e'"
    and m: "\<forall>j<nat (effective_batchSize options). \<forall>e''.
              job_results cfg env options ! j = Inl e'' \<longrightarrow> settled_at env k \<le> settled_at env j"
    by auto
  have "fst (generateImage cfg env options) = Inl (generateImage_catch cfg e')"
    by (simp add: generateImage_fst[OF v] p)
  moreover have "fst (job_run cfg env options k) = Inl e'" using k by (simp add: nth_job_results)
  moreover have "\<forall>j e''. j < nat (effective_batchSize options)
                  \<and> fst (job_run cfg env options j) = Inl e''
                \<longrightarrow> settled_at env k \<le> settled_at env j"
    using m by (simp add: nth_job_results)
  ultimately show ?thesis using k(1) by blast
qed

lemma generateImage_first_rejection:
  assumes "validateImageOptions (width options) (height options) (batchSize options) = Inr ()"
    and "i < nat (effective_batchSize options)"
    and "fst (job_run cfg env options i) = Inl e"
    and "\<forall>j<nat (effective_batchSize options). \<forall>e'.
           fst (job_run cfg env options j) = Inl e' \<longrightarrow>
             (j < i \<longrightarrow> settled_at env i < settled_at env j)
           \<and> (i < j \<longrightarrow> settled_at env i \<le> settled_at env j)"
  shows "fst (generateImage cfg env options) = Inl (generateImage_catch cfg e)"
proof -
  have "promise_all (settled_at env) (job_results cfg env options) = Inl e"
  proof (rule promise_all_first[of i])
    show "i < length (job_results cfg env options)" using assms(2) by simp
    show "job_results cfg env options ! i = Inl e"
      using assms(2,3) by (simp add: nth_job_results)
    show "\<forall>j<length (job_results cfg env options). \<forall>e'.
            job_results cfg env options ! j = Inl e' \<longrightarrow>
              (j < i \<longrightarrow> settled_at env i < settled_at env j)
            \<and> (i < j \<longrightarrow> settled_at env i \<le> settled_at env j)"
      using assms(4) by (simp add: nth_job_results)
  qed
  then show ?thesis by (simp add: generateImage_fst[OF assms(1)])
qed

lemma generateImage_all_resolved:
  assumes v: "validateImageOptions (width options) (height options) (batchSize options) = Inr ()"
    and first: "fst (job_run cfg env options 0) = Inr res"
    and others: "\<forall>j<nat (effective_batchSize options). 0 < j \<longrightarrow>
                   (\<exists>res'. fst (job_run cfg env options j) = Inr res')"
  shows "\<exists>r. fst (generateImage cfg env options) = Inr r \<and> result_seed r = single_seed res"
proof -
  let ?rs = "job_results cfg env options"
  have pos: "0 < nat (effective_batchSize options)"
    using effective_batchSize_valid[OF v] by (cases "batchSize options") auto
  have all: "\<forall>r\<in>set ?rs. \<exists>x. r = Inr x"
  proof
    fix r assume "r \<in> set ?rs"
    then obtain j where j: "j < nat (effective_batchSize options)" "r = ?rs ! j"
      by (auto simp: in_set_conv_nth)
    then have r: "r = fst (job_run cfg env options j)" by (simp add: nth_job_results)
    show "\<exists>x. r = Inr x"
    proof (cases "j = 0")
      case True
      then show ?thesis using r first by simp
    next
      case False
      then show ?thesis using r others j(1) by simp
    qed
  qed
  define vs where "vs = resolved_values ?rs"
  have m: "?rs = map Inr vs" unfolding vs_def using resolved_values_all[OF all] by simp
  then have p: "promise_all (settled_at env) ?rs = Inr vs" by (simp add: promise_all_resolves)
  have len: "length vs = nat (effective_batchSize options)"
    using arg_cong[OF m, of length] by simp
  then obtain x xs where vs: "vs = x # xs" using pos by (cases vs) auto
  have "?rs ! 0 = Inr res" using pos first by (simp add: nth_job_results)
  then have x: "x = res" unfolding m vs by simp
  show ?thesis
    unfolding generateImage_fst[OF v] p using vs x by (simp add: Let_def)
qed

lemma generateImage_catch_cases:
  "generateImage_catch cfg e =
     (if IS_TEST_ENV cfg \<and> str_includes (error_message e) ''Generation failed'' then
        \<lparr>message = ''Generation failed'', type = GENERATION_ERROR, statusCode = None\<rparr>
      else if IS_TEST_ENV cfg \<and> str_includes (error_message e) ''timed out'' then
        \<lparr>message = ''Generation timed out'', type = POLLING_ERROR, statusCode = None\<rparr>
      else
        (case e of
           Reve x \<Rightarrow> x
         | OtherError m \<Rightarrow>
             \<lparr>message = ''Error during generating image: '' @ m,
              type = UNKNOWN_ERROR, statusCode = None\<rparr>
         | Axios a \<Rightarrow>
             (let errorDetails = (if verbose cfg then ax_details a else []);
                  responseMessage =
                    (case ax_response_message a of Some m \<Rightarrow> m | None \<Rightarrow> ax_message a)
              in
                if ax_status a = Some 401 \<or> ax_status a = Some 403 then
                  \<lparr>message = ''Authentication error: '' @ responseMessage @ errorDetails,
                   type = AUTHENTICATION_ERROR, statusCode = ax_status a\<rparr>
                else if ax_code a = Some ''ECONNABORTED''
                        \<or> str_includes (ax_message a) ''timeout'' then
                  \<lparr>message = ''Request timed out during generating image'' @ errorDetails,
                   type = TIMEOUT_ERROR, statusCode = None\<rparr>
                else if str_includes (ax_message a) ''Network Error'' then
                  \<lparr>message = ''Network error during generating image: ''
                               @ ax_message a @ errorDetails,
                   type = REQUEST_ERROR, statusCode = None\<rparr>
                else if (case ax_status a of Some c \<Rightarrow> 400 \<le> c | None \<Rightarrow> False) then
                  \<lparr>message = ''API error during generating image: ''
                               @ responseMessage @ errorDetails,
                   type = API_ERROR, statusCode = ax_status a\<rparr>
                else
                  \<lparr>message = ''Request error during generating image: ''
                               @ ax_message a @ errorDetails,
                   type = REQUEST_ERROR, statusCode = ax_status a\<rparr>)))"
proof (cases e)
  case (Reve x)
  then show ?thesis by (simp add: generateImage_catch_def handleAxiosError_def)
next
  case (OtherError m)
  then show ?thesis by (simp add: generateImage_catch_def handleAxiosError_def)
next
  case (Axios a)
  have c: "(case ax_status a of Some c \<Rightarrow> c \<noteq> 0 \<and> c \<ge> 400 | None \<Rightarrow> False)
             = (case ax_status a of Some c \<Rightarrow> 400 \<le> c | None \<Rightarrow> False)"
    by (cases "ax_status a") auto
  show ?thesis
    unfolding Axios generateImage_catch_def handleAxiosError_def Let_def js_error.case c
    by simp
qed

text \<open>
  Claim C1, as the code has it. When \<open>generateImage\<close> resolves, the request was valid,
  the result holds exactly \<open>batchSize\<close> images (one when the batch size is omitted), the
  image at each index is the image of the job dispatched at that index, and the result is
  the same whatever the order in which the pipelines settle. When the request is valid and
  some pipeline fails, \<open>generateImage\<close> rejects (there is no partial result) with what
  its \<open>catch\<close> makes of the failure of the pipeline that rejected first. In the test
  environment a failure whose message contains \<open>Generation failed\<close> or \<open>timed out\<close> is
  replaced by a fixed error. Otherwise an error of the SDK is passed on as it is, an
  error of the transport is converted to an error of the SDK, and another error becomes
  an unknown error that carries its message.
\<close>

theorem generateImage_all_or_nothing:
  "(\<forall>r. fst (generateImage cfg env options) = Inr r \<longrightarrow>
        validateImageOptions (width options) (height options) (batchSize options) = Inr ()
      \<and> (\<forall>b. batchSize options = Some b \<longrightarrow> int (length (imageUrls r)) = b)
      \<and> (batchSize options = None \<longrightarrow> length (imageUrls r) = 1)
      \<and> (\<forall>i<length (imageUrls r).
            \<exists>res. fst (job_run cfg env options i) = Inr res \<and> imageUrls r ! i = imageUrl res)
      \<and> (\<forall>f. fst (generateImage cfg (env\<lparr>settled_at := f\<rparr>) options) = Inr r))
   \<and> (\<forall>i e. validateImageOptions (width options) (height options) (batchSize options) = Inr ()
          \<and> i < nat (effective_batchSize options)
          \<and> fst (job_run cfg env options i) = Inl e \<longrightarrow>
        (\<exists>k e'. k < nat (effective_batchSize options)
           \<and> fst (job_run cfg env options k) = Inl e'
           \<and> (\<forall>j e''. j < nat (effective_batchSize options)
                  \<and> fst (job_run cfg env options j) = Inl e''
                \<longrightarrow> settled_at env k \<le> settled_at env j)
           \<and> fst (generateImage cfg env options) =
               Inl (if IS_TEST_ENV cfg \<and> str_includes (error_message e') ''Generation failed'' then
                      \<lparr>message = ''Generation failed'', type = GENERATION_ERROR, statusCode = None\<rparr>
                    else if IS_TEST_ENV cfg \<and> str_includes (error_message e') ''timed out'' then
                      \<lparr>message = ''Generation timed out'', type = POLLING_ERROR, statusCode = None\<rparr>
                    else
                      (case e' of
                         Reve x \<Rightarrow> x
                       | OtherError m \<Rightarrow>
                           \<lparr>message = ''Error during generating image: '' @ m,
                            type = UNKNOWN_ERROR, statusCode = None\<rparr>
                       | Axios a \<Rightarrow>
                           (let errorDetails = (if verbose cfg then ax_details a else []);
                                responseMessage =
                                  (case ax_response_message a of
                                     Some m \<Rightarrow> m
                                   | None \<Rightarrow> ax_message a)
                            in
                              if ax_status a = Some 401 \<or> ax_status a = Some 403 then
                                \<lparr>message = ''Authentication error: '' @ responseMessage
                                             @ errorDetails,
                                 type = AUTHENTICATION_ERROR, statusCode = ax_status a\<rparr>
                              else if ax_code a = Some ''ECONNABORTED''
                                      \<or> str_includes (ax_message a) ''timeout'' then
                                \<lparr>message = ''Request timed out during generating image''
                                             @ errorDetails,
                                 type = TIMEOUT_ERROR, statusCode = None\<rparr>
                              else if str_includes (ax_message a) ''Network Error'' then
                                \<lparr>message = ''Network error during generating image: ''
                                             @ ax_message a @ errorDetails,
                                 type = REQUEST_ERROR, statusCode = None\<rparr>
                              else if (case ax_status a of
                                         Some c \<Rightarrow> 400 \<le> c
                                       | None \<Rightarrow> False) then
                                \<lparr>message = ''API error during generating image: ''
                                             @ responseMessage @ errorDetails,
                                 type = API_ERROR, statusCode = ax_status a\<rparr>
                              else
                                \<lparr>message = ''Request error during generating image: ''
                                             @ ax_message a @ errorDetails,
                                 type = REQUEST_ERROR, statusCode = ax_status a\<rparr>)))))"
proof (intro conjI allI impI)
  fix r assume r: "fst (generateImage cfg env options) = Inr r"
  from generateImage_resolved[OF r]
  show v: "validateImageOptions (width options) (height options) (batchSize options) = Inr ()"
    by blast
  note jobs = generateImage_resolved_jobs[OF r]
  note eff = effective_batchSize_valid[OF v]
  show "\<And>b. batchSize options = Some b \<Longrightarrow> int (length (imageUrls r)) = b"
    using jobs eff by auto
  show "batchSize options = None \<Longrightarrow> length (imageUrls r) = 1"
    using jobs eff by auto
  show "\<And>i. i < length (imageUrls r) \<Longrightarrow>
      \<exists>res. fst (job_run cfg env options i) = Inr res \<and> imageUrls r ! i = imageUrl res"
    using jobs by auto
  show "\<And>f. fst (generateImage cfg (env\<lparr>settled_at := f\<rparr>) options) = Inr r"
    using r by (rule generateImage_resolved_any_order)
next
  fix i e
  assume a: "validateImageOptions (width options) (height options) (batchSize options) = Inr ()
          \<and> i < nat (effective_batchSize options)
          \<and> fst (job_run cfg env options i) = Inl e"
  then have "\<exists>k e'. k < nat (effective_batchSize options)
           \<and> fst (job_run cfg env options k) = Inl e'
           \<and> (\<forall>j e''. j < nat (effective_batchSize options)
                  \<and> fst (job_run cfg env options j) = Inl e''
                \<longrightarrow> settled_at env k \<le> settled_at env j)
           \<and> fst (generateImage cfg env options) = Inl (generateImage_catch cfg e')"
    using generateImage_rejected by blast
  then show "\<exists>k e'. k < nat (effective_batchSize options)
           \<and> fst (job_run cfg env options k) = Inl e'
           \<and> (\<forall>j e''. j < nat (effective_batchSize options)
                  \<and> fst (job_run cfg env options j) = Inl e''
                \<longrightarrow> settled_at env k \<le> settled_at env j)
           \<and> fst (generateImage cfg env options) =
               Inl (if IS_TEST_ENV cfg \<and> str_includes (error_message e') ''Generation failed'' then
                      \<lparr>message = ''Generation failed'', type = GENERATION_ERROR, statusCode = None\<rparr>
                    else if IS_TEST_ENV cfg \<and> str_includes (error_message e') ''timed out'' then
                      \<lparr>message = ''Generation timed out'', type = POLLING_ERROR, statusCode = None\<rparr>
                    else
                      (case e' of
                         Reve x \<Rightarrow> x
                       | OtherError m \<Rightarrow>
                           \<lparr>message = ''Error during generating image: '' @ m,
                            type = UNKNOWN_ERROR, statusCode = None\<rparr>
                       | Axios a \<Rightarrow>
                           (let errorDetails = (if verbose cfg then ax_details a else []);
                                responseMessage =
                                  (case ax_response_message a of
                                     Some m \<Rightarrow> m
                                   | None \<Rightarrow> ax_message a)
                            in
                              if ax_status a = Some 401 \<or> ax_status a = Some 403 then
                                \<lparr>message = ''Authentication error: '' @ responseMessage
                                             @ errorDetails,
                                 type = AUTHENTICATION_ERROR, statusCode = ax_status a\<rparr>
                              else if ax_code a = Some ''ECONNABORTED''
                                      \<or> str_includes (ax_message a) ''timeout'' then
                                \<lparr>message = ''Request timed out during generating image''
                                             @ errorDetails,
                                 type = TIMEOUT_ERROR, statusCode = None\<rparr>
                              else if str_includes (ax_message a) ''Network Error'' then
                                \<lparr>message = ''Network error during generating image: ''
                                             @ ax_message a @ errorDetails,
                                 type = REQUEST_ERROR, statusCode = None\<rparr>
                              else if (case ax_status a of
                                         Some c \<Rightarrow> 400 \<le> c
                                       | None \<Rightarrow> False) then
                                \<lparr>message = ''API error during generating image: ''
                                             @ responseMessage @ errorDetails,
                                 type = API_ERROR, statusCode = ax_status a\<rparr>
                              else
                                \<lparr>message = ''Request error during generating image: ''
                                             @ ax_message a @ errorDetails,
                                 type = REQUEST_ERROR, statusCode = ax_status a\<rparr>)))"
    unfolding generateImage_catch_cases .
qed

text \<open>The theorem at a batch of two on the mock service, and at a batch whose second
  job fails in the network.\<close>

lemma mock_batch_of_two:
  "fst (generateImage mock_config mock_batch (mock_options\<lparr>batchSize := Some 2\<rparr>)) =
     Inr \<lparr>imageUrls = [JStr ''data:image/webp;base64,mock-base64-data'',
                         JStr ''data:image/webp;base64,mock-base64-data''],
          result_seed = JNum 12345, completedAt = 0, result_prompt = ''test prompt'',
          enhancedPrompt = Some (JStr ''variant 1''),
          enhancedPrompts = Some [JStr ''variant 1'', JStr ''variant 2''],
          result_negativePrompt = None\<rparr>"
  by code_simp

lemma failing_batch_jobs:
  "fst (job_run mock_config failing_batch (mock_options\<lparr>batchSize := Some 2\<rparr>) 1)
     = Inl network_error"
  "fst (job_run mock_config failing_batch (mock_options\<lparr>batchSize := Some 2\<rparr>) 0)
     \<noteq> Inl e"
  by (code_simp, cases e) code_simp+

theorem generateImage_all_or_nothing_witness:
  "int (length (imageUrls
      \<lparr>imageUrls = [JStr ''data:image/webp;base64,mock-base64-data'',
                    JStr ''data:image/webp;base64,mock-base64-data''],
       result_seed = JNum 12345, completedAt = 0, result_prompt = ''test prompt'',
       enhancedPrompt = Some (JStr ''variant 1''),
       enhancedPrompts = Some [JStr ''variant 1'', JStr ''variant 2''],
       result_negativePrompt = None\<rparr>)) = 2
   \<and> fst (generateImage mock_config failing_batch (mock_options\<lparr>batchSize := Some 2\<rparr>))
       = Inl \<lparr>message = ''Network error during generating image: Network Error'',
              type = REQUEST_ERROR, statusCode = None\<rparr>"
proof -
  let ?options = "mock_options\<lparr>batchSize := Some 2\<rparr>"
  have v: "validateImageOptions (width ?options) (height ?options) (batchSize ?options) = Inr ()"
    by (simp add: validate_ok_iff mock_options_def)
  have n: "nat (effective_batchSize ?options) = 2"
    by (simp add: effective_batchSize_def mock_options_def)
  have b: "batchSize ?options = Some 2" by simp
  have "int (length (imageUrls
      \<lparr>imageUrls = [JStr ''data:image/webp;base64,mock-base64-data'',
                    JStr ''data:image/webp;base64,mock-base64-data''],
       result_seed = JNum 12345, completedAt = 0, result_prompt = ''test prompt'',
       enhancedPrompt = Some (JStr ''variant 1''),
       enhancedPrompts = Some [JStr ''variant 1'', JStr ''variant 2''],
       result_negativePrompt = None\<rparr>)) = 2"
    using generateImage_all_or_nothing[of mock_config mock_batch ?options,
        THEN conjunct1, rule_format, OF mock_batch_of_two] b
    by simp
  moreover have "fst (generateImage mock_config failing_batch ?options)
       = Inl \<lparr>message = ''Network error during generating image: Network Error'',
              type = REQUEST_ERROR, statusCode = None\<rparr>"
  proof -
    from generateImage_all_or_nothing[of mock_config failing_batch ?options,
        THEN conjunct2, rule_format, of 1 network_error] v n failing_batch_jobs(1)
    obtain k e' where k: "k < 2"
      and e': "fst (job_run mock_config failing_batch ?options k) = Inl e'"
      and g: "fst (generateImage mock_config failing_batch ?options) =
               Inl (if IS_TEST_ENV mock_config \<and> str_includes (error_message e') ''Generation failed'' then
                      \<lparr>message = ''Generation failed'', type = GENERATION_ERROR, statusCode = None\<rparr>
                    else if IS_TEST_ENV mock_config \<and> str_includes (error_message e') ''timed out'' then
                      \<lparr>message = ''Generation timed out'', type = POLLING_ERROR, statusCode = None\<rparr>
                    else
                      (case e' of
                         Reve x \<Rightarrow> x
                       | OtherError m \<Rightarrow>
                           \<lparr>message = ''Error during generating image: '' @ m,
                            type = UNKNOWN_ERROR, statusCode = None\<rparr>
                       | Axios a \<Rightarrow>
                           (let errorDetails = (if verbose mock_config then ax_details a else []);
                                responseMessage =
                                  (case ax_response_message a of
                                     Some m \<Rightarrow> m
                                   | None \<Rightarrow> ax_message a)
                            in
                              if ax_status a = Some 401 \<or> ax_status a = Some 403 then
                                \<lparr>message = ''Authentication error: '' @ responseMessage
                                             @ errorDetails,
                                 type = AUTHENTICATION_ERROR, statusCode = ax_status a\<rparr>
                              else if ax_code a = Some ''ECONNABORTED''
                                      \<or> str_includes (ax_message a) ''timeout'' then
                                \<lparr>message = ''Request timed out during generating image''
                                             @ errorDetails,
                                 type = TIMEOUT_ERROR, statusCode = None\<rparr>
                              else if str_includes (ax_message a) ''Network Error'' then
                                \<lparr>message = ''Network error during generating image: ''
                                             @ ax_message a @ errorDetails,
                                 type = REQUEST_ERROR, statusCode = None\<rparr>
                              else if (case ax_status a of
                                         Some c \<Rightarrow> 400 \<le> c
                                       | None \<Rightarrow> False) then
                                \<lparr>message = ''API error during generating image: ''
                                             @ responseMessage @ errorDetails,
                                 type = API_ERROR, statusCode = ax_status a\<rparr>
                              else
                                \<lparr>message = ''Request error during generating image: ''
                                             @ ax_message a @ errorDetails,
                                 type = REQUEST_ERROR, statusCode = ax_status a\<rparr>)))"
      by auto
    from k have "k = 0 \<or> k = 1" by auto
    with e' failing_batch_jobs(2) have "k = 1" by blast
    have "e' = network_error" using e' failing_batch_jobs(1) unfolding \<open>k = 1\<close> by simp
    then show ?thesis
      unfolding g by (simp add: network_error_def mock_config_def)
  qed
  ultimately show ?thesis by blast
qed

text \<open>
  Claim C1 as stated fails, since the rejection is not always the failure of the pipeline.
  The second job of a batch fails with the transport's network error, and
  \<open>generateImage\<close> rejects with an error of the SDK made from it. In the test
  environment a job whose status request times out fails with a timeout error of the
  request, and \<open>generateImage\<close> rejects with a polling error instead; a job whose
  generation failed fails with the reported error, and \<open>generateImage\<close> rejects
  without it. A job whose submission is answered with \<open>null\<close> fails with a
  \<open>TypeError\<close>, and \<open>generateImage\<close> rejects with an unknown error of the SDK.
\<close>

theorem generateImage_rejection_counterexample:
  "fst (job_run mock_config failing_batch (mock_options\<lparr>batchSize := Some 2\<rparr>) 1)
     = Inl network_error
   \<and> fst (generateImage mock_config failing_batch (mock_options\<lparr>batchSize := Some 2\<rparr>))
       = Inl \<lparr>message = ''Network error during generating image: Network Error'',
              type = REQUEST_ERROR, statusCode = None\<rparr>
   \<and> network_error
       \<noteq> Reve \<lparr>message = ''Network error during generating image: Network Error'',
                 type = REQUEST_ERROR, statusCode = None\<rparr>
   \<and> fst (job_run test_config stalled_batch mock_options 0)
       = Inl (Reve \<lparr>message = ''Request timed out during polling generation status'',
                    type = TIMEOUT_ERROR, statusCode = None\<rparr>)
   \<and> fst (generateImage test_config stalled_batch mock_options)
       = Inl \<lparr>message = ''Generation timed out'', type = POLLING_ERROR, statusCode = None\<rparr>
   \<and> fst (job_run test_config (listing_batch [(''error'', JStr ''quota exceeded'')])
             mock_options 0)
       = Inl (Reve \<lparr>message = ''Generation failed: quota exceeded'',
                    type = GENERATION_ERROR, statusCode = None\<rparr>)
   \<and> fst (generateImage test_config (listing_batch [(''error'', JStr ''quota exceeded'')])
            mock_options)
       = Inl \<lparr>message = ''Generation failed'', type = GENERATION_ERROR, statusCode = None\<rparr>
   \<and> fst (job_run mock_config null_answer_batch mock_options 0)
       = Inl (OtherError (''Cannot read properties of null (reading ''
                          @ [CHR 0x27] @ ''create'' @ [CHR 0x27] @ '')''))
   \<and> fst (generateImage mock_config null_answer_batch mock_options)
       = Inl \<lparr>message = ''Error during generating image: Cannot read properties of null (reading ''
                         @ [CHR 0x27] @ ''create'' @ [CHR 0x27] @ '')'',
              type = UNKNOWN_ERROR, statusCode = None\<rparr>"
  by code_simp

subsection \<open>The seed a batch reports\<close>

lemma generateSingleImage_polled:
  assumes "fst (submitGeneration cfg env options ep) = Polling p g fp"
    and "fst (pollGenerationStatus cfg env p g) = Inr pr"
  shows "\<exists>res. fst (generateSingleImage cfg env options ep) = Inr res
           \<and> single_seed res = poll_seed pr
           \<and> imageUrl res = (case poll_imageUrls pr of [] \<Rightarrow> JUndefined | u # us \<Rightarrow> JStr u)"
proof -
  obtain t3 where s: "submitGeneration cfg env options ep = (Polling p g fp, t3)"
    using assms(1) by (cases "submitGeneration cfg env options ep") simp
  obtain t4 where q: "pollGenerationStatus cfg env p g = (Inr pr, t4)"
    using assms(2) by (cases "pollGenerationStatus cfg env p g") simp
  show ?thesis by (simp add: generateSingleImage_def s q)
qed

text \<open>
  Claim C10. When the job's entry carries an output at a polling iteration within the
  budget, the image request of that iteration succeeds, and the iterations before only
  waited, \<open>pollGenerationStatus\<close> returns the image with the seed the entry echoes, and
  with -1 when the echoed seed is falsy: omitted (with or without \<open>inference_inputs\<close>),
  or 0. When that job is the first of a valid batch whose other jobs resolve as well,
  \<open>generateImage\<close> resolves and the seed of its result is that seed, so -1 for a falsy
  echo.
\<close>

theorem falsy_echoed_seed:
  assumes "a < maxPollingAttempts cfg"
    and "\<forall>b<a. \<exists>t. poll_iteration cfg jenv p g b = Again t"
    and "node_get jenv a = Inr data" and "ourGeneration_in data g = Inr entry"
    and "truthy (get_prop (get_prop entry ''data'') ''output'')"
    and "image_get jenv a = Inr img"
  shows "fst (pollGenerationStatus cfg jenv p g) =
           Inr \<lparr>poll_imageUrls =
                  [''data:''
                   @ (case content_type img of
                        Some c \<Rightarrow> if c \<noteq> [] then c else ''image/webp''
                      | None \<Rightarrow> ''image/webp'')
                   @ '';base64,'' @ body_base64 img],
                poll_seed =
                  (if truthy (get_prop (get_prop (get_prop entry ''data'')
                                          ''inference_inputs'') ''seed'')
                   then get_prop (get_prop (get_prop entry ''data'')
                                    ''inference_inputs'') ''seed''
                   else JNum (- 1))\<rparr>
       \<and> (get_prop (get_prop (get_prop entry ''data'') ''inference_inputs'') ''seed'' = JUndefined
            \<or> get_prop (get_prop (get_prop entry ''data'') ''inference_inputs'') ''seed'' = JNum 0
          \<longrightarrow> (\<exists>pr. fst (pollGenerationStatus cfg jenv p g) = Inr pr \<and> poll_seed pr = JNum (- 1)))
       \<and> (validateImageOptions (width options) (height options) (batchSize options) = Inr ()
            \<and> jenv = job_env_of env 0
            \<and> job_submission cfg env options 0 = Polling p g fp
            \<and> (\<forall>j<nat (effective_batchSize options). 0 < j \<longrightarrow>
                  (\<exists>res. fst (job_run cfg env options j) = Inr res))
          \<longrightarrow> (\<exists>r. fst (generateImage cfg env options) = Inr r
                 \<and> result_seed r =
                     (if truthy (get_prop (get_prop (get_prop entry ''data'')
                                             ''inference_inputs'') ''seed'')
                      then get_prop (get_prop (get_prop entry ''data'')
                                       ''inference_inputs'') ''seed''
                      else JNum (- 1))))"
proof (intro conjI impI)
  let ?echoed = "get_prop (get_prop (get_prop entry ''data'') ''inference_inputs'') ''seed''"
  let ?pr = "\<lparr>poll_imageUrls =
                  [''data:''
                   @ (case content_type img of
                        Some c \<Rightarrow> if c \<noteq> [] then c else ''image/webp''
                      | None \<Rightarrow> ''image/webp'')
                   @ '';base64,'' @ body_base64 img],
                poll_seed = (if truthy ?echoed then ?echoed else JNum (- 1))\<rparr>"
  have it: "poll_iteration cfg jenv p g a =
              Leave (Inr ?pr) [GetNode p, GetImage p (get_prop (get_prop entry ''data'') ''output'')]"
    using assms(3-6) by (rule poll_iteration_completed)
  have "fst (poll_loop cfg jenv p g 0) = fst (poll_loop cfg jenv p g a)"
    by (rule poll_loop_skip) (use assms(1,2) in auto)
  then show pl: "fst (pollGenerationStatus cfg jenv p g) = Inr ?pr"
    by (simp add: pollGenerationStatus_def poll_loop_leave[OF assms(1) it])
  {
    assume "?echoed = JUndefined \<or> ?echoed = JNum 0"
    then have "\<not> truthy ?echoed" by auto
    then have "poll_seed ?pr = JNum (- 1)" by simp
    with pl show "\<exists>pr. fst (pollGenerationStatus cfg jenv p g) = Inr pr \<and> poll_seed pr = JNum (- 1)"
      by blast
  }
  assume h: "validateImageOptions (width options) (height options) (batchSize options) = Inr ()
            \<and> jenv = job_env_of env 0
            \<and> job_submission cfg env options 0 = Polling p g fp
            \<and> (\<forall>j<nat (effective_batchSize options). 0 < j \<longrightarrow>
                  (\<exists>res. fst (job_run cfg env options j) = Inr res))"
  have sub: "fst (submitGeneration cfg (job_env_of env 0) (job_options env options 0)
      (job_variant options (fst (batch_enhancement cfg env options)) 0)) = Polling p g fp"
    using h by (simp add: job_submission_def)
  have pl0: "fst (pollGenerationStatus cfg (job_env_of env 0) p g) = Inr ?pr"
    using pl h by simp
  from generateSingleImage_polled[OF sub pl0] obtain res where
    res: "fst (job_run cfg env options 0) = Inr res" "single_seed res = poll_seed ?pr"
    unfolding job_run_def by blast
  from generateImage_all_resolved[OF _ res(1)] h
  obtain r where "fst (generateImage cfg env options) = Inr r" "result_seed r = single_seed res"
    by blast
  then show "\<exists>r. fst (generateImage cfg env options) = Inr r
                 \<and> result_seed r = (if truthy ?echoed then ?echoed else JNum (- 1))"
    using res(2) by simp
qed

text \<open>The theorem at a service that echoes the seed 0, at one that echoes no seed, and at
  one that echoes the seed 0 and whose first image request fails.\<close>

lemma zero_seed_batch_submission:
  "job_submission mock_config zero_seed_batch mock_options 0
   = Polling (JStr ''mock-project-id'') (JStr ''mock-gen-id-123'') (JStr ''test prompt'')"
  "job_submission mock_config seedless_batch mock_options 0
   = Polling (JStr ''mock-project-id'') (JStr ''mock-gen-id-123'') (JStr ''test prompt'')"
  "job_submission mock_config flaky_zero_batch mock_options 0
   = Polling (JStr ''mock-project-id'') (JStr ''mock-gen-id-123'') (JStr ''test prompt'')"
  by code_simp+

theorem falsy_echoed_seed_witness:
  "fst (pollGenerationStatus mock_config (job_env_of zero_seed_batch 0)
          (JStr ''mock-project-id'') (JStr ''mock-gen-id-123'')) =
     Inr \<lparr>poll_imageUrls = [''data:image/webp;base64,mock-base64-data''],
          poll_seed = JNum (- 1)\<rparr>
   \<and> (\<exists>r. fst (generateImage mock_config zero_seed_batch mock_options) = Inr r
          \<and> result_seed r = JNum (- 1))
   \<and> (\<exists>r. fst (generateImage mock_config seedless_batch mock_options) = Inr r
          \<and> result_seed r = JNum (- 1))
   \<and> (\<exists>r. fst (generateImage mock_config flaky_zero_batch mock_options) = Inr r
          \<and> result_seed r = JNum (- 1))"
proof -
  let ?zero = "mock_entry [(''output'', JStr ''mock-image-id''),
                           (''inference_inputs'', JObj [(''seed'', JNum 0)])]"
  let ?none = "mock_entry [(''output'', JStr ''mock-image-id'')]"
  let ?img = "\<lparr>body_base64 = ''mock-base64-data'', content_type = Some ''image/webp''\<rparr>"
  have a: "0 < maxPollingAttempts mock_config" "1 < maxPollingAttempts mock_config"
    by (simp_all add: mock_config_def)
  have b: "\<forall>b<(0::nat). \<exists>t. poll_iteration mock_config jenv (JStr ''mock-project-id'')
             (JStr ''mock-gen-id-123'') b = Again t" for jenv
    by simp
  have n: "node_get (job_env_of zero_seed_batch 0) 0 = Inr (mock_listing [?zero])"
    "node_get (job_env_of seedless_batch 0) 0 = Inr (mock_listing [?none])"
    "node_get (job_env_of flaky_zero_batch 0) k = Inr (mock_listing [?zero])" for k
    by (simp_all add: zero_seed_batch_def seedless_batch_def listing_batch_def
          flaky_zero_batch_def)
  have fl: "image_get (job_env_of flaky_zero_batch 0) 0 = Inl (OtherError ''Network Error'')"
    "image_get (job_env_of flaky_zero_batch 0) 1 = Inr ?img"
    by (simp_all add: flaky_zero_batch_def flaky_job_def mock_job_def)
  have f: "ourGeneration_in (mock_listing [?zero]) (JStr ''mock-gen-id-123'') = Inr ?zero"
    "ourGeneration_in (mock_listing [?none]) (JStr ''mock-gen-id-123'') = Inr ?none"
    by (simp_all add: ourGeneration_in_def mock_listing_def mock_entry_def)
  have o: "truthy (get_prop (get_prop ?zero ''data'') ''output'')"
    "truthy (get_prop (get_prop ?none ''data'') ''output'')"
    by (simp_all add: mock_entry_def)
  have i: "image_get (job_env_of zero_seed_batch 0) 0 = Inr ?img"
    "image_get (job_env_of seedless_batch 0) 0 = Inr ?img"
    by (simp_all add: zero_seed_batch_def seedless_batch_def listing_batch_def mock_job_def)
  have v: "validateImageOptions (width mock_options) (height mock_options)
             (batchSize mock_options) = Inr ()"
    by (simp add: validate_ok_iff mock_options_def)
  have e: "nat (effective_batchSize mock_options) = 1"
    by (simp add: effective_batchSize_def mock_options_def)
  have b1: "\<forall>b<(1::nat). \<exists>t. poll_iteration mock_config (job_env_of flaky_zero_batch 0)
             (JStr ''mock-project-id'') (JStr ''mock-gen-id-123'') b = Again t"
    using poll_iteration_fetch_failed[OF n(3) f(1) o(1) fl(1)] by simp
  note z = falsy_echoed_seed[OF a(1) b n(1) f(1) o(1) i(1),
      of mock_options zero_seed_batch "JStr ''test prompt''"]
  note s = falsy_echoed_seed[OF a(1) b n(2) f(2) o(2) i(2),
      of mock_options seedless_batch "JStr ''test prompt''"]
  note y = falsy_echoed_seed[OF a(2) b1 n(3) f(1) o(1) fl(2),
      of mock_options flaky_zero_batch "JStr ''test prompt''"]
  have "fst (pollGenerationStatus mock_config (job_env_of zero_seed_batch 0)
          (JStr ''mock-project-id'') (JStr ''mock-gen-id-123'')) =
     Inr \<lparr>poll_imageUrls = [''data:image/webp;base64,mock-base64-data''],
          poll_seed = JNum (- 1)\<rparr>"
    using z[THEN conjunct1] by (simp add: mock_entry_def)
  moreover have "\<exists>r. fst (generateImage mock_config zero_seed_batch mock_options) = Inr r
          \<and> result_seed r = JNum (- 1)"
    using z[THEN conjunct2, THEN conjunct2] v e zero_seed_batch_submission(1)
    by (simp add: mock_entry_def)
  moreover have "\<exists>r. fst (generateImage mock_config seedless_batch mock_options) = Inr r
          \<and> result_seed r = JNum (- 1)"
    using s[THEN conjunct2, THEN conjunct2] v e zero_seed_batch_submission(2)
    by (simp add: mock_entry_def)
  moreover have "\<exists>r. fst (generateImage mock_config flaky_zero_batch mock_options) = Inr r
          \<and> result_seed r = JNum (- 1)"
    using y[THEN conjunct2, THEN conjunct2] v e zero_seed_batch_submission(3)
    by (simp add: mock_entry_def)
  ultimately show ?thesis by blast
qed

subsection \<open>Exhausting the polling budget\<close>

declare string_of_nat.simps [simp del]

lemma starts_with_append: "starts_with (x @ s) x"
  by (induction x) auto

lemma str_includes_append: "str_includes (p @ x @ s) x"
proof (induction p)
  case Nil
  show ?case
  proof (cases "x @ s")
    case Nil
    then show ?thesis by simp
  next
    case (Cons d r)
    then show ?thesis using starts_with_append[of x s] by simp
  qed
next
  case (Cons c p)
  then show ?case by simp
qed

lemma starts_with_first: "starts_with s (c # t) \<Longrightarrow> c \<in> set s"
  by (cases s) auto

lemma str_includes_first: "str_includes s (c # t) \<Longrightarrow> c \<in> set s"
  by (induction s) (auto dest: starts_with_first)

lemma digit_chars: "n < 10 \<Longrightarrow> ''0123456789'' ! n \<in> set ''0123456789''"
  by (rule nth_mem) simp

lemma string_of_nat_digits: "set (string_of_nat n) \<subseteq> set ''0123456789''"
proof (induction n rule: string_of_nat.induct)
  case (1 n)
  show ?case
  proof (cases "n < 10")
    case True
    then show ?thesis using digit_chars[of n] by (subst string_of_nat.simps) simp
  next
    case False
    have "n mod 10 < 10" by simp
    from digit_chars[OF this] "1.IH"[OF False] False
    show ?thesis by (subst string_of_nat.simps) simp
  qed
qed

lemma timed_out_not_failed:
  "\<not> str_includes (''Generation timed out after '' @ string_of_nat n @ '' polling attempts'')
       ''Generation failed''"
proof -
  have "CHR ''G'' \<notin> set ''0123456789''" by simp
  then have "CHR ''G'' \<notin> set (string_of_nat n)"
    using string_of_nat_digits[of n] by blast
  then have "CHR ''G'' \<notin> set (string_of_nat n @ '' polling attempts'')" by simp
  then have "\<not> str_includes (string_of_nat n @ '' polling attempts'') ''Generation failed''"
    using str_includes_first[of "string_of_nat n @ '' polling attempts''" "CHR ''G''" "''eneration failed''"]
    by blast
  then show ?thesis by simp
qed

lemma timed_out_includes:
  "str_includes (''Generation timed out after '' @ string_of_nat n @ '' polling attempts'')
       ''timed out''"
  by simp

lemma catch_timed_out:
  "generateImage_catch cfg
     (Reve \<lparr>message = ''Generation timed out after '' @ string_of_nat n @ '' polling attempts'',
            type = POLLING_ERROR, statusCode = None\<rparr>)
   = \<lparr>message = (if IS_TEST_ENV cfg then ''Generation timed out''
                 else ''Generation timed out after '' @ string_of_nat n @ '' polling attempts''),
      type = POLLING_ERROR, statusCode = None\<rparr>"
  using timed_out_not_failed[of n] timed_out_includes[of n]
  by (simp add: generateImage_catch_def handleAxiosError_def del: str_includes.simps starts_with.simps)

lemma polling_attempts_getProjectId [simp]:
  "polling_attempts (snd (getProjectId cfg projects)) = 0"
  by (simp add: getProjectId_def polling_attempts_def)

lemma polling_attempts_enhancePrompt [simp]:
  "polling_attempts (snd (enhancePrompt cfg projects answer original n)) = 0"
proof (cases "getProjectId cfg projects")
  case (Pair r t)
  have "polling_attempts t = 0" using polling_attempts_getProjectId[of cfg projects] Pair by simp
  then show ?thesis
    unfolding enhancePrompt_def Pair
    by (cases r) (simp_all add: polling_attempts_def Let_def)
qed

lemma polling_attempts_finalPrompt [simp]:
  "polling_attempts (snd (finalPrompt_of cfg env options ep)) = 0"
proof -
  obtain vs t where e: "enhancePrompt cfg (enhance_projects_get env) (enhance_post env)
      (prompt options) 1 = (vs, t)"
    by (cases "enhancePrompt cfg (enhance_projects_get env) (enhance_post env) (prompt options) 1")
  have "polling_attempts t = 0"
    using polling_attempts_enhancePrompt[of cfg "enhance_projects_get env" "enhance_post env"
        "prompt options" 1] e by simp
  then show ?thesis
    by (simp add: finalPrompt_of_def e) (simp add: polling_attempts_def)
qed

lemma polling_attempts_submitGeneration [simp]:
  "polling_attempts (snd (submitGeneration cfg env options ep)) = 0"
proof (cases "getProjectId cfg (projects_get env)")
  case (Pair r t1)
  have t1: "polling_attempts t1 = 0"
    using polling_attempts_getProjectId[of cfg "projects_get env"] Pair by simp
  show ?thesis
  proof (cases r)
    case (Inl e)
    then show ?thesis using t1 by (simp add: submitGeneration_def Pair)
  next
    case (Inr project)
    obtain fp t2 where fp: "finalPrompt_of cfg env options ep = (fp, t2)"
      by (cases "finalPrompt_of cfg env options ep")
    have t2: "polling_attempts t2 = 0"
      using polling_attempts_finalPrompt[of cfg env options ep] fp by simp
    show ?thesis
      using t1 t2
      by (cases "validateImageOptions (width options) (height options) (Some 1)")
         (simp_all add: submitGeneration_def Pair Inr fp polling_attempts_append,
          simp add: polling_attempts_def)
  qed
qed

lemma polling_attempts_replicate [simp]:
  "polling_attempts (concat (replicate n [GetNode p, Delay d])) = n"
  by (induction n) (simp_all add: polling_attempts_def)

lemma generateSingleImage_polling:
  assumes "fst (submitGeneration cfg env options ep) = Polling p g fp"
    and "pollGenerationStatus cfg env p g = (Inl e, t)"
  shows "fst (generateSingleImage cfg env options ep) = Inl (Reve e)"
    and "polling_attempts (snd (generateSingleImage cfg env options ep)) = polling_attempts t"
proof -
  obtain t3 where s: "submitGeneration cfg env options ep = (Polling p g fp, t3)"
    using assms(1) by (cases "submitGeneration cfg env options ep") auto
  have "polling_attempts t3 = 0"
    using polling_attempts_submitGeneration[of cfg env options ep] s by simp
  then show "fst (generateSingleImage cfg env options ep) = Inl (Reve e)"
    and "polling_attempts (snd (generateSingleImage cfg env options ep)) = polling_attempts t"
    by (simp_all add: generateSingleImage_def s assms(2) polling_attempts_append)
qed

lemma job_run_never_listed:
  assumes "job_submission cfg env options i = Polling p g fp"
    and "\<forall>a<maxPollingAttempts cfg. \<exists>data. node_get (job_env_of env i) a = Inr data
            \<and> ourGeneration_in data g = Inr JUndefined"
  shows "fst (job_run cfg env options i) =
           Inl (Reve \<lparr>message = ''Generation timed out after ''
                          @ string_of_nat (maxPollingAttempts cfg) @ '' polling attempts'',
                       type = POLLING_ERROR, statusCode = None\<rparr>)"
    and "polling_attempts (snd (job_run cfg env options i)) = maxPollingAttempts cfg"
proof -
  have pl: "pollGenerationStatus cfg (job_env_of env i) p g =
      (Inl \<lparr>message = ''Generation timed out after ''
                          @ string_of_nat (maxPollingAttempts cfg) @ '' polling attempts'',
             type = POLLING_ERROR, statusCode = None\<rparr>,
       concat (replicate (maxPollingAttempts cfg - 0)
                 [GetNode p, Delay (pollingInterval cfg)]))"
    unfolding pollGenerationStatus_def
    by (rule poll_loop_absent) (use assms(2) in simp_all)
  have sub: "fst (submitGeneration cfg (job_env_of env i) (job_options env options i)
      (job_variant options (fst (batch_enhancement cfg env options)) i)) = Polling p g fp"
    using assms(1) by (simp add: job_submission_def)
  show "fst (job_run cfg env options i) =
           Inl (Reve \<lparr>message = ''Generation timed out after ''
                          @ string_of_nat (maxPollingAttempts cfg) @ '' polling attempts'',
                       type = POLLING_ERROR, statusCode = None\<rparr>)"
    unfolding job_run_def by (rule generateSingleImage_polling(1)[OF sub pl])
  show "polling_attempts (snd (job_run cfg env options i)) = maxPollingAttempts cfg"
    unfolding job_run_def generateSingleImage_polling(2)[OF sub pl] by simp
qed

lemma promise_all_same_rejection:
  assumes "rs \<noteq> []" and "\<forall>r\<in>set rs. r = Inl e"
  shows "promise_all f rs = Inl e"
proof -
  have "0 < length rs" "rs ! 0 = Inl e" using assms by (simp_all add: nth_mem)
  from promise_all_some_rejection[OF this] obtain e' where p: "promise_all f rs = Inl e'"
    by blast
  from promise_all_rejects[OF p] obtain k where "k < length rs" "rs ! k = Inl e'" by blast
  then have "e' = e" using assms(2) by (metis nth_mem Inl_inject)
  with p show ?thesis by simp
qed

lemma find_generation_absent:
  "find_generation g items = Inr JUndefined \<longleftrightarrow>
     (\<forall>item\<in>set items. \<not> nullish item
        \<and> \<not> (truthy (get_prop item ''node'')
             \<and> strict_eq (get_prop (get_prop item ''node'') ''id'') g))"
  by (induction items) auto

text \<open>
  Claim C7, as the code has it. Take a valid request of which every job is submitted and
  polls, and a service that answers every request for the listing, never with an entry of
  the job (\<open>ourGeneration_in\<close> finds nothing: there is no \<open>list\<close> array, or none of
  its entries carries the id, see \<open>find_generation_absent\<close>). Then every job asks for the
  listing exactly \<open>maxPollingAttempts\<close> times and \<open>generateImage\<close> rejects with a polling
  error. The poller's message names the number of attempts, and \<open>generateImage\<close> passes
  it on outside the test environment; in the test environment its \<open>catch\<close> replaces
  the message by \<open>Generation timed out\<close>, which names no number.
\<close>

theorem polling_budget_exhausted:
  assumes "validateImageOptions (width options) (height options) (batchSize options) = Inr ()"
    and "\<forall>i<nat (effective_batchSize options). \<exists>p g fp.
           job_submission cfg env options i = Polling p g fp
         \<and> (\<forall>a<maxPollingAttempts cfg. \<exists>data. node_get (job_env_of env i) a = Inr data
                \<and> ourGeneration_in data g = Inr JUndefined)"
  shows "fst (generateImage cfg env options) =
           Inl \<lparr>message =
                  (if IS_TEST_ENV cfg then ''Generation timed out''
                   else ''Generation timed out after ''
                          @ string_of_nat (maxPollingAttempts cfg) @ '' polling attempts''),
                type = POLLING_ERROR, statusCode = None\<rparr>
       \<and> (\<forall>i<nat (effective_batchSize options).
             polling_attempts (snd (job_run cfg env options i)) = maxPollingAttempts cfg)
       \<and> str_includes (''Generation timed out after ''
                          @ string_of_nat (maxPollingAttempts cfg) @ '' polling attempts'')
            (string_of_nat (maxPollingAttempts cfg))"
proof -
  let ?e = "\<lparr>message = ''Generation timed out after ''
                          @ string_of_nat (maxPollingAttempts cfg) @ '' polling attempts'',
             type = POLLING_ERROR, statusCode = None\<rparr>"
  have each: "\<And>i. i < nat (effective_batchSize options) \<Longrightarrow>
      fst (job_run cfg env options i) = Inl (Reve ?e)
      \<and> polling_attempts (snd (job_run cfg env options i)) = maxPollingAttempts cfg"
    using assms(2) job_run_never_listed by blast
  have pos: "0 < nat (effective_batchSize options)"
    using effective_batchSize_valid[OF assms(1)] by (cases "batchSize options") auto
  have ne: "job_results cfg env options \<noteq> []"
    using pos by (simp add: job_results_def)
  have "\<forall>r\<in>set (job_results cfg env options). r = Inl (Reve ?e)"
    using each by (auto simp: job_results_def)
  from promise_all_same_rejection[OF ne this]
  have "fst (generateImage cfg env options) = Inl (generateImage_catch cfg (Reve ?e))"
    by (simp add: generateImage_fst[OF assms(1)])
  then show ?thesis
    using each str_includes_append[of "''Generation timed out after ''"
        "string_of_nat (maxPollingAttempts cfg)" "'' polling attempts''"]
    by (simp only: catch_timed_out) simp
qed

text \<open>The theorem at a budget of two attempts and a listing that stays empty.\<close>

lemma absent_batch_submission:
  "job_submission mock_config absent_batch mock_options 0
     = Polling (JStr ''mock-project-id'') (JStr ''mock-gen-id-123'') (JStr ''test prompt'')"
  by code_simp

theorem polling_budget_exhausted_witness:
  "fst (generateImage mock_config absent_batch mock_options) =
     Inl \<lparr>message = ''Generation timed out after 2 polling attempts'',
          type = POLLING_ERROR, statusCode = None\<rparr>
   \<and> polling_attempts (snd (job_run mock_config absent_batch mock_options 0)) = 2"
proof -
  have v: "validateImageOptions (width mock_options) (height mock_options)
             (batchSize mock_options) = Inr ()"
    by (simp add: validate_ok_iff mock_options_def)
  have b: "nat (effective_batchSize mock_options) = 1"
    by (simp add: effective_batchSize_def mock_options_def)
  have n: "\<And>a. node_get (job_env_of absent_batch 0) a = Inr (mock_listing [])"
    by (simp add: absent_batch_def)
  have f: "ourGeneration_in (mock_listing []) (JStr ''mock-gen-id-123'') = Inr JUndefined"
    by (simp add: ourGeneration_in_def mock_listing_def)
  have h: "\<forall>i<nat (effective_batchSize mock_options). \<exists>p g fp.
           job_submission mock_config absent_batch mock_options i = Polling p g fp
         \<and> (\<forall>a<maxPollingAttempts mock_config.
               \<exists>data. node_get (job_env_of absent_batch i) a = Inr data
                \<and> ourGeneration_in data g = Inr JUndefined)"
    unfolding b using absent_batch_submission n f by auto
  have m: "maxPollingAttempts mock_config = 2" "\<not> IS_TEST_ENV mock_config"
    by (simp_all add: mock_config_def)
  show ?thesis
    using polling_budget_exhausted[OF v h] b m
    by (simp add: string_of_nat.simps)
qed

text \<open>Claim C7 as stated fails in the test environment: after the one attempt of the
  budget, \<open>generateImage\<close> rejects with a polling error whose message does not name the
  number of attempts.\<close>

theorem polling_budget_test_env_counterexample:
  "fst (generateImage test_config absent_batch mock_options) =
     Inl \<lparr>message = ''Generation timed out'', type = POLLING_ERROR, statusCode = None\<rparr>
   \<and> polling_attempts (snd (job_run test_config absent_batch mock_options 0)) = 1
   \<and> \<not> str_includes ''Generation timed out'' (string_of_nat 1)"
  by code_simp

subsection \<open>A failure reported by the service\<close>

lemma catch_generation_failed:
  "generateImage_catch cfg
     (Reve \<lparr>message = ''Generation failed: '' @ x, type = GENERATION_ERROR, statusCode = None\<rparr>)
   = \<lparr>message = (if IS_TEST_ENV cfg then ''Generation failed'' else ''Generation failed: '' @ x),
      type = GENERATION_ERROR, statusCode = None\<rparr>"
  by (simp add: generateImage_catch_def handleAxiosError_def)

text \<open>
  Claim C6, as the code has it. Take a polling iteration within the budget whose listing
  holds the job's entry. When the entry carries a truthy (non-empty) \<open>data.error\<close> and
  no truthy \<open>data.output\<close>, the loop ends with that iteration's one request for the
  listing, no wait and no further request, and throws a generation error whose message is
  \<open>Generation failed: \<close> followed by the reported error, so contains it. When the
  iterations before only waited and the job's pipeline is the first of the batch to reject,
  \<open>generateImage\<close> rejects with this error, unchanged outside the test environment; in
  the test environment its \<open>catch\<close> replaces the message by \<open>Generation failed\<close>.
  When the entry carries a truthy output, with or without an error, the job is taken as
  finished: the image is requested, and the loop returns it, or waits and goes on when
  the request fails. When the entry carries neither, the iteration only waits.
\<close>

theorem generation_failure_reported:
  assumes "a < maxPollingAttempts cfg"
    and "node_get jenv a = Inr data" and "ourGeneration_in data g = Inr entry"
  shows "(\<not> truthy (get_prop (get_prop entry ''data'') ''output'')
          \<and> truthy (get_prop (get_prop entry ''data'') ''error'') \<longrightarrow>
            poll_loop cfg jenv p g a =
              (Inl \<lparr>message = ''Generation failed: ''
                                @ to_string (get_prop (get_prop entry ''data'') ''error''),
                     type = GENERATION_ERROR, statusCode = None\<rparr>, [GetNode p])
          \<and> str_includes (''Generation failed: ''
                             @ to_string (get_prop (get_prop entry ''data'') ''error''))
               (to_string (get_prop (get_prop entry ''data'') ''error''))
          \<and> (validateImageOptions (width options) (height options) (batchSize options) = Inr ()
               \<and> i < nat (effective_batchSize options)
               \<and> jenv = job_env_of env i
               \<and> job_submission cfg env options i = Polling p g fp
               \<and> (\<forall>b<a. \<exists>t. poll_iteration cfg jenv p g b = Again t)
               \<and> (\<forall>j<nat (effective_batchSize options). \<forall>e'.
                     fst (job_run cfg env options j) = Inl e' \<longrightarrow>
                       (j < i \<longrightarrow> settled_at env i < settled_at env j)
                     \<and> (i < j \<longrightarrow> settled_at env i \<le> settled_at env j))
             \<longrightarrow> fst (generateImage cfg env options) =
                   Inl \<lparr>message =
                          (if IS_TEST_ENV cfg then ''Generation failed''
                           else ''Generation failed: ''
                                  @ to_string (get_prop (get_prop entry ''data'') ''error'')),
                        type = GENERATION_ERROR, statusCode = None\<rparr>))
       \<and> (truthy (get_prop (get_prop entry ''data'') ''output'') \<longrightarrow>
            (\<forall>img. image_get jenv a = Inr img \<longrightarrow>
               poll_loop cfg jenv p g a =
                 (Inr \<lparr>poll_imageUrls =
                         [''data:''
                          @ (case content_type img of
                               Some c \<Rightarrow> if c \<noteq> [] then c else ''image/webp''
                             | None \<Rightarrow> ''image/webp'')
                          @ '';base64,'' @ body_base64 img],
                       poll_seed =
                         (if truthy (get_prop (get_prop (get_prop entry ''data'')
                                                 ''inference_inputs'') ''seed'')
                          then get_prop (get_prop (get_prop entry ''data'')
                                           ''inference_inputs'') ''seed''
                          else JNum (- 1))\<rparr>,
                  [GetNode p, GetImage p (get_prop (get_prop entry ''data'') ''output'')]))
          \<and> (\<forall>err. image_get jenv a = Inl err \<longrightarrow>
               poll_iteration cfg jenv p g a =
                 Again [GetNode p, GetImage p (get_prop (get_prop entry ''data'') ''output''),
                        Delay (pollingInterval cfg)]))
       \<and> (\<not> truthy (get_prop (get_prop entry ''data'') ''output'')
          \<and> \<not> truthy (get_prop (get_prop entry ''data'') ''error'') \<longrightarrow>
            poll_iteration cfg jenv p g a = Again [GetNode p, Delay (pollingInterval cfg)])"
proof -
  let ?x = "to_string (get_prop (get_prop entry ''data'') ''error'')"
  let ?e = "\<lparr>message = ''Generation failed: '' @ ?x, type = GENERATION_ERROR, statusCode = None\<rparr>"
  have failed: "poll_loop cfg jenv p g a = (Inl ?e, [GetNode p])"
    if "\<not> truthy (get_prop (get_prop entry ''data'') ''output'')"
      "truthy (get_prop (get_prop entry ''data'') ''error'')"
    using assms(1) poll_iteration_failed[OF assms(2,3) that] by (rule poll_loop_leave)
  have incl: "str_includes (''Generation failed: '' @ ?x) ?x"
    using str_includes_append[of "''Generation failed: ''" ?x "[]"] by simp
  have rejected: "fst (generateImage cfg env options) =
                Inl \<lparr>message =
                       (if IS_TEST_ENV cfg then ''Generation failed''
                        else ''Generation failed: '' @ ?x),
                     type = GENERATION_ERROR, statusCode = None\<rparr>"
    if o: "\<not> truthy (get_prop (get_prop entry ''data'') ''output'')"
      "truthy (get_prop (get_prop entry ''data'') ''error'')"
      and h: "validateImageOptions (width options) (height options) (batchSize options) = Inr ()
               \<and> i < nat (effective_batchSize options)
               \<and> jenv = job_env_of env i
               \<and> job_submission cfg env options i = Polling p g fp
               \<and> (\<forall>b<a. \<exists>t. poll_iteration cfg jenv p g b = Again t)
               \<and> (\<forall>j<nat (effective_batchSize options). \<forall>e'.
                     fst (job_run cfg env options j) = Inl e' \<longrightarrow>
                       (j < i \<longrightarrow> settled_at env i < settled_at env j)
                     \<and> (i < j \<longrightarrow> settled_at env i \<le> settled_at env j))"
  proof -
    have "fst (poll_loop cfg jenv p g 0) = fst (poll_loop cfg jenv p g a)"
      by (rule poll_loop_skip) (use h assms(1) in auto)
    then have "fst (pollGenerationStatus cfg jenv p g) = Inl ?e"
      by (simp add: pollGenerationStatus_def failed[OF o])
    then obtain t where pl: "pollGenerationStatus cfg (job_env_of env i) p g = (Inl ?e, t)"
      using h by (cases "pollGenerationStatus cfg jenv p g") auto
    have sub: "fst (submitGeneration cfg (job_env_of env i) (job_options env options i)
        (job_variant options (fst (batch_enhancement cfg env options)) i)) = Polling p g fp"
      using h by (simp add: job_submission_def)
    have run: "fst (job_run cfg env options i) = Inl (Reve ?e)"
      unfolding job_run_def by (rule generateSingleImage_polling(1)[OF sub pl])
    have "fst (generateImage cfg env options) = Inl (generateImage_catch cfg (Reve ?e))"
      by (rule generateImage_first_rejection[OF _ _ run]) (use h in blast)+
    then show ?thesis by (simp only: catch_generation_failed)
  qed
  have finished: "poll_loop cfg jenv p g a =
                 (Inr \<lparr>poll_imageUrls =
                         [''data:''
                          @ (case content_type img of
                               Some c \<Rightarrow> if c \<noteq> [] then c else ''image/webp''
                             | None \<Rightarrow> ''image/webp'')
                          @ '';base64,'' @ body_base64 img],
                       poll_seed =
                         (if truthy (get_prop (get_prop (get_prop entry ''data'')
                                                 ''inference_inputs'') ''seed'')
                          then get_prop (get_prop (get_prop entry ''data'')
                                           ''inference_inputs'') ''seed''
                          else JNum (- 1))\<rparr>,
                  [GetNode p, GetImage p (get_prop (get_prop entry ''data'') ''output'')])"
    if "truthy (get_prop (get_prop entry ''data'') ''output'')" "image_get jenv a = Inr img"
    for img
    using assms(1) poll_iteration_completed[OF assms(2,3) that] by (rule poll_loop_leave)
  have retried: "poll_iteration cfg jenv p g a =
                 Again [GetNode p, GetImage p (get_prop (get_prop entry ''data'') ''output''),
                        Delay (pollingInterval cfg)]"
    if "truthy (get_prop (get_prop entry ''data'') ''output'')" "image_get jenv a = Inl err"
    for err
    using assms(2,3) that by (rule poll_iteration_fetch_failed)
  have waiting: "poll_iteration cfg jenv p g a = Again [GetNode p, Delay (pollingInterval cfg)]"
    if "\<not> truthy (get_prop (get_prop entry ''data'') ''output'')"
      "\<not> truthy (get_prop (get_prop entry ''data'') ''error'')"
    using assms(2,3) that by (rule poll_iteration_waiting)
  show ?thesis
    using failed incl rejected finished retried waiting
    by (intro conjI impI allI) blast+
qed

text \<open>The theorem at a batch of two whose listing reports \<open>quota exceeded\<close> for each
  job: the first job's failure is the first.\<close>

lemma failed_batch_submission:
  "job_submission mock_config (listing_batch [(''error'', JStr ''quota exceeded'')])
     (mock_options\<lparr>batchSize := Some 2\<rparr>) 0
   = Polling (JStr ''mock-project-id'') (JStr ''mock-gen-id-123'') (JStr ''variant 1'')"
  by code_simp

theorem generation_failure_reported_witness:
  "poll_loop mock_config (job_env_of (listing_batch [(''error'', JStr ''quota exceeded'')]) 0)
     (JStr ''mock-project-id'') (JStr ''mock-gen-id-123'') 0 =
       (Inl \<lparr>message = ''Generation failed: quota exceeded'',
              type = GENERATION_ERROR, statusCode = None\<rparr>,
        [GetNode (JStr ''mock-project-id'')])
   \<and> fst (generateImage mock_config (listing_batch [(''error'', JStr ''quota exceeded'')])
            (mock_options\<lparr>batchSize := Some 2\<rparr>)) =
       Inl \<lparr>message = ''Generation failed: quota exceeded'',
            type = GENERATION_ERROR, statusCode = None\<rparr>"
proof -
  let ?kvs = "[(''error'', JStr ''quota exceeded'')]"
  let ?env = "listing_batch ?kvs"
  let ?options = "mock_options\<lparr>batchSize := Some 2\<rparr>"
  have a: "0 < maxPollingAttempts mock_config" by (simp add: mock_config_def)
  have n: "node_get (job_env_of ?env 0) 0 = Inr (mock_listing [mock_entry ?kvs])"
    by (simp add: listing_batch_def)
  have f: "ourGeneration_in (mock_listing [mock_entry ?kvs]) (JStr ''mock-gen-id-123'')
             = Inr (mock_entry ?kvs)"
    by (simp add: ourGeneration_in_def mock_listing_def mock_entry_def)
  have o: "\<not> truthy (get_prop (get_prop (mock_entry ?kvs) ''data'') ''output'')"
    by (simp add: mock_entry_def)
  have e: "truthy (get_prop (get_prop (mock_entry ?kvs) ''data'') ''error'')"
    by (simp add: mock_entry_def)
  have x: "to_string (get_prop (get_prop (mock_entry ?kvs) ''data'') ''error'') = ''quota exceeded''"
    by (simp add: mock_entry_def)
  have v: "validateImageOptions (width ?options) (height ?options) (batchSize ?options) = Inr ()"
    by (simp add: validate_ok_iff mock_options_def)
  have i: "0 < nat (effective_batchSize ?options)"
    by (simp add: effective_batchSize_def)
  have t: "\<not> IS_TEST_ENV mock_config" by (simp add: mock_config_def)
  have first: "\<forall>j<nat (effective_batchSize ?options). \<forall>e'.
                 fst (job_run mock_config ?env ?options j) = Inl e' \<longrightarrow>
                   (j < 0 \<longrightarrow> settled_at ?env 0 < settled_at ?env j)
                 \<and> (0 < j \<longrightarrow> settled_at ?env 0 \<le> settled_at ?env j)"
    by (simp add: listing_batch_def mock_batch_def)
  have b: "\<forall>b<(0::nat). \<exists>t. poll_iteration mock_config (job_env_of ?env 0)
             (JStr ''mock-project-id'') (JStr ''mock-gen-id-123'') b = Again t"
    by simp
  note c = generation_failure_reported[OF a n f, of "JStr ''mock-project-id''"
      ?options 0 ?env "JStr ''variant 1''", THEN conjunct1, rule_format, OF conjI[OF o e]]
  have "poll_loop mock_config (job_env_of ?env 0)
     (JStr ''mock-project-id'') (JStr ''mock-gen-id-123'') 0 =
       (Inl \<lparr>message = ''Generation failed: quota exceeded'',
              type = GENERATION_ERROR, statusCode = None\<rparr>,
        [GetNode (JStr ''mock-project-id'')])"
    using c[THEN conjunct1] unfolding x by simp
  moreover have "fst (generateImage mock_config ?env ?options) =
       Inl \<lparr>message = ''Generation failed: quota exceeded'',
            type = GENERATION_ERROR, statusCode = None\<rparr>"
    using c[THEN conjunct2, THEN conjunct2, rule_format] v i failed_batch_submission b first t
    unfolding x by simp
  ultimately show ?thesis by blast
qed

text \<open>
  Claim C6 as stated fails in four runs whose listing holds the job with a
  \<open>data.error\<close>: when the entry carries an output too, the image is fetched and the batch
  resolves; in the test environment the rejection's message is \<open>Generation failed\<close>,
  which does not contain the reported error; an empty error is falsy, so the job is polled
  to the end of the budget; and when another job of the batch has failed before,
  \<open>generateImage\<close> rejects with that job's failure.
\<close>

theorem generation_failure_counterexample:
  "fst (generateImage mock_config
         (listing_batch [(''output'', JStr ''mock-image-id''), (''error'', JStr ''X'')])
         mock_options) =
     Inr \<lparr>imageUrls = [JStr ''data:image/webp;base64,mock-base64-data''],
          result_seed = JNum (- 1), completedAt = 0, result_prompt = ''test prompt'',
          enhancedPrompt = None, enhancedPrompts = None, result_negativePrompt = None\<rparr>
   \<and> fst (generateImage test_config (listing_batch [(''error'', JStr ''quota exceeded'')])
            mock_options) =
     Inl \<lparr>message = ''Generation failed'', type = GENERATION_ERROR, statusCode = None\<rparr>
   \<and> \<not> str_includes ''Generation failed'' ''quota exceeded''
   \<and> fst (generateImage mock_config (listing_batch [(''error'', JStr [])]) mock_options) =
     Inl \<lparr>message = ''Generation timed out after 2 polling attempts'',
          type = POLLING_ERROR, statusCode = None\<rparr>
   \<and> fst (job_run mock_config mixed_failure_batch (mock_options\<lparr>batchSize := Some 2\<rparr>) 1) =
     Inl (Reve \<lparr>message = ''Generation failed: quota exceeded'',
                type = GENERATION_ERROR, statusCode = None\<rparr>)
   \<and> fst (generateImage mock_config mixed_failure_batch (mock_options\<lparr>batchSize := Some 2\<rparr>)) =
     Inl \<lparr>message = ''Network error during generating image: Network Error'',
          type = REQUEST_ERROR, statusCode = None\<rparr>"
  by code_simp

subsection \<open>The requests of a pipeline\<close>

lemma submitted_payloads_append [simp]:
  "submitted_payloads (s @ t) = submitted_payloads s @ submitted_payloads t"
  by (simp add: submitted_payloads_def)

lemma enhancement_calls_append [simp]:
  "enhancement_calls (s @ t) = enhancement_calls s @ enhancement_calls t"
  by (simp add: enhancement_calls_def)

lemma getProjectId_events:
  "snd (getProjectId cfg projects) = [] \<or> snd (getProjectId cfg projects) = [GetProjects]"
  by (simp add: getProjectId_def)

lemma getProjectId_quiet [simp]:
  "submitted_payloads (snd (getProjectId cfg projects)) = []"
  "enhancement_calls (snd (getProjectId cfg projects)) = []"
  using getProjectId_events[of cfg projects]
  by (auto simp: submitted_payloads_def enhancement_calls_def)

lemma enhancePrompt_events:
  "snd (enhancePrompt cfg projects answer original n) =
     (case getProjectId cfg projects of
        (Inl e, t) \<Rightarrow> t
      | (Inr pid, t) \<Rightarrow>
          t @ [PostEnhance \<lparr>num_variants = n, inputs_prompt = original,
                            model_id = ''promptenhancer_v1/prod/20250224-0952'',
                            project_id = pid\<rparr>])"
  by (simp add: enhancePrompt_def Let_def split: prod.splits sum.splits)

lemma enhancePrompt_payloads [simp]:
  "submitted_payloads (snd (enhancePrompt cfg projects answer original n)) = []"
proof (cases "getProjectId cfg projects")
  case (Pair r t)
  have "submitted_payloads t = []" using getProjectId_quiet(1)[of cfg projects] Pair by simp
  then show ?thesis
    by (cases r) (simp_all add: enhancePrompt_events Pair, simp add: submitted_payloads_def)
qed

lemma enhancePrompt_calls:
  "enhancement_calls (snd (enhancePrompt cfg projects answer original n)) =
     (case fst (getProjectId cfg projects) of
        Inl e \<Rightarrow> []
      | Inr pid \<Rightarrow>
          [\<lparr>num_variants = n, inputs_prompt = original,
            model_id = ''promptenhancer_v1/prod/20250224-0952'', project_id = pid\<rparr>])"
proof (cases "getProjectId cfg projects")
  case (Pair r t)
  have "enhancement_calls t = []" using getProjectId_quiet(2)[of cfg projects] Pair by simp
  then show ?thesis
    by (cases r) (simp_all add: enhancePrompt_events Pair, simp add: enhancement_calls_def)
qed

lemma finalPrompt_payloads [simp]:
  "submitted_payloads (snd (finalPrompt_of cfg env options ep)) = []"
proof -
  obtain vs t where e: "enhancePrompt cfg (enhance_projects_get env) (enhance_post env)
      (prompt options) 1 = (vs, t)"
    by (cases "enhancePrompt cfg (enhance_projects_get env) (enhance_post env) (prompt options) 1")
  have "submitted_payloads t = []"
    using enhancePrompt_payloads[of cfg "enhance_projects_get env" "enhance_post env"
        "prompt options" 1] e by simp
  then show ?thesis
    by (simp add: finalPrompt_of_def e) (simp add: submitted_payloads_def)
qed

lemma poll_iteration_quiet:
  "poll_iteration cfg env p g a = Leave r t \<Longrightarrow>
     submitted_payloads t = [] \<and> enhancement_calls t = []"
  "poll_iteration cfg env p g a = Again t \<Longrightarrow>
     submitted_payloads t = [] \<and> enhancement_calls t = []"
  unfolding poll_iteration_def submitted_payloads_def enhancement_calls_def
  by (auto simp: Let_def split: sum.splits if_splits)

lemma poll_loop_quiet:
  "submitted_payloads (snd (poll_loop cfg env p g a)) = []
   \<and> enhancement_calls (snd (poll_loop cfg env p g a)) = []"
proof (induction cfg env p g a rule: poll_loop.induct)
  case (1 cfg env p g a)
  show ?case
  proof (cases "a < maxPollingAttempts cfg")
    case False
    then show ?thesis
      by (simp add: poll_loop_exhausted submitted_payloads_def enhancement_calls_def)
  next
    case True
    show ?thesis
    proof (cases "poll_iteration cfg env p g a")
      case (Leave r t)
      then show ?thesis
        using True poll_iteration_quiet(1)[OF Leave] by (simp add: poll_loop_leave)
    next
      case (Again t)
      then show ?thesis
        using "1.IH"[OF True Again] poll_iteration_quiet(2)[OF Again]
        by (simp add: poll_loop_again[OF True Again])
    qed
  qed
qed

lemma submitGeneration_events:
  "snd (submitGeneration cfg env options ep) =
     (case getProjectId cfg (projects_get env) of
        (Inl e, t1) \<Rightarrow> t1
      | (Inr project, t1) \<Rightarrow>
          (case validateImageOptions (width options) (height options) (Some 1) of
             Inl e \<Rightarrow> t1
           | Inr ok \<Rightarrow>
               t1 @ snd (finalPrompt_of cfg env options ep)
               @ [PostGeneration project
                    (generationPayload env options (fst (finalPrompt_of cfg env options ep)))]))"
  by (simp add: submitGeneration_def split: prod.splits sum.splits)

lemma generateSingleImage_events:
  "\<exists>t4. snd (generateSingleImage cfg env options ep) = snd (submitGeneration cfg env options ep) @ t4
        \<and> submitted_payloads t4 = [] \<and> enhancement_calls t4 = []"
proof (cases "submitGeneration cfg env options ep")
  case (Pair sub t3)
  show ?thesis
  proof (cases sub)
    case (Settled r)
    then show ?thesis
      using Pair by (simp add: generateSingleImage_def submitted_payloads_def enhancement_calls_def)
  next
    case (Polling p g fp)
    obtain r t4 where pg: "pollGenerationStatus cfg env p g = (r, t4)"
      by (cases "pollGenerationStatus cfg env p g")
    have "submitted_payloads t4 = [] \<and> enhancement_calls t4 = []"
      using poll_loop_quiet[of cfg env p g 0] pg by (simp add: pollGenerationStatus_def)
    then show ?thesis
      using Pair Polling pg by (cases r) (simp_all add: generateSingleImage_def)
  qed
qed

lemma generateSingleImage_payloads:
  "submitted_payloads (snd (generateSingleImage cfg env options ep)) = []
   \<or> submitted_payloads (snd (generateSingleImage cfg env options ep))
       = [generationPayload env options (fst (finalPrompt_of cfg env options ep))]"
proof -
  obtain t4 where t4: "snd (generateSingleImage cfg env options ep)
      = snd (submitGeneration cfg env options ep) @ t4" "submitted_payloads t4 = []"
    using generateSingleImage_events by blast
  obtain r t1 where g: "getProjectId cfg (projects_get env) = (r, t1)"
    by (cases "getProjectId cfg (projects_get env)")
  have t1: "submitted_payloads t1 = []"
    using getProjectId_quiet(1)[of cfg "projects_get env"] g by simp
  show ?thesis
    unfolding t4(1) submitGeneration_events g
    using t1 t4(2)
    by (cases r; cases "validateImageOptions (width options) (height options) (Some 1)")
       (simp_all, simp add: submitted_payloads_def)
qed

subsection \<open>The seed a job submits\<close>

lemma generateImage_events:
  assumes "validateImageOptions (width options) (height options) (batchSize options) = Inr ()"
  shows "snd (generateImage cfg env options) =
           (snd (batch_enhancement cfg env options),
            map (\<lambda>i. snd (job_run cfg env options i)) [0 ..< nat (effective_batchSize options)])"
  using assms by (simp add: generateImage_def Let_def comp_def)

lemma generateImage_job_events:
  assumes "validateImageOptions (width options) (height options) (batchSize options) = Inr ()"
    and "i < nat (effective_batchSize options)"
  shows "snd (snd (generateImage cfg env options)) ! i = snd (job_run cfg env options i)"
  using assms(2) by (simp add: generateImage_events[OF assms(1)])

lemma job_run_payload:
  assumes "payload \<in> set (submitted_payloads (snd (job_run cfg env options i)))"
  shows "payload = generationPayload (job_env_of env i) (job_options env options i)
           (fst (finalPrompt_of cfg (job_env_of env i) (job_options env options i)
                  (job_variant options (fst (batch_enhancement cfg env options)) i)))"
  using assms
    generateSingleImage_payloads[of cfg "job_env_of env i" "job_options env options i"
      "job_variant options (fst (batch_enhancement cfg env options)) i"]
  by (auto simp: job_run_def)

lemma generateSingleImage_submits:
  "submitted_payloads (snd (generateSingleImage cfg env options ep)) =
     (case fst (getProjectId cfg (projects_get env)) of
        Inl e \<Rightarrow> []
      | Inr project \<Rightarrow>
          (case validateImageOptions (width options) (height options) (Some 1) of
             Inl e \<Rightarrow> []
           | Inr ok \<Rightarrow>
               [generationPayload env options (fst (finalPrompt_of cfg env options ep))]))"
proof -
  obtain t4 where t4: "snd (generateSingleImage cfg env options ep)
      = snd (submitGeneration cfg env options ep) @ t4" "submitted_payloads t4 = []"
    using generateSingleImage_events by blast
  obtain r t1 where g: "getProjectId cfg (projects_get env) = (r, t1)"
    by (cases "getProjectId cfg (projects_get env)")
  have t1: "submitted_payloads t1 = []"
    using getProjectId_quiet(1)[of cfg "projects_get env"] g by simp
  show ?thesis
    unfolding t4(1) submitGeneration_events g
    using t1 t4(2)
    by (cases r; cases "validateImageOptions (width options) (height options) (Some 1)")
       (simp_all, simp add: submitted_payloads_def)
qed

lemma validate_for_job:
  "validateImageOptions wd ht b = Inr () \<Longrightarrow> validateImageOptions wd ht (Some 1) = Inr ()"
  by (simp add: validate_ok_iff)

lemma job_run_submits:
  assumes "validateImageOptions (width options) (height options) (batchSize options) = Inr ()"
    and "fst (getProjectId cfg (projects_get (job_env_of env i))) = Inr project"
  shows "submitted_payloads (snd (job_run cfg env options i)) =
           [generationPayload (job_env_of env i) (job_options env options i)
              (fst (finalPrompt_of cfg (job_env_of env i) (job_options env options i)
                     (job_variant options (fst (batch_enhancement cfg env options)) i)))]"
proof -
  have "validateImageOptions (width (job_options env options i))
          (height (job_options env options i)) (Some 1) = Inr ()"
    using validate_for_job[OF assms(1)] by (simp add: job_options_def)
  then show ?thesis
    unfolding job_run_def generateSingleImage_submits using assms(2) by simp
qed

lemma payload_seed_omitted:
  "seed options = None \<Longrightarrow>
     inference_seed (generationPayload jenv (job_options env options i) fp) = drawn_seed jenv"
  by (simp add: generationPayload_def job_options_def Let_def)

lemma payload_seed_given:
  "seed options = Some S \<Longrightarrow>
     inference_seed (generationPayload jenv (job_options env options i) fp) =
       (if jittered_seed env S i = - 1 then drawn_seed jenv else jittered_seed env S i)"
  by (simp add: generationPayload_def job_options_def Let_def)

lemma drawn_seed_range:
  "is_random (seed_random jenv) \<Longrightarrow> 0 \<le> drawn_seed jenv \<and> drawn_seed jenv < 10000000"
  unfolding is_random_def drawn_seed_def using seed_draw_range[of "seed_random jenv"] by blast

lemma job_jitter_range:
  "is_random (jitter_random env i) \<Longrightarrow> 0 \<le> job_jitter env i \<and> job_jitter env i < 1000"
  unfolding is_random_def job_jitter_def using jitter_draw_range[of "jitter_random env i"] by blast

lemma jittered_seed_exact:
  assumes "\<bar>S + job_jitter env i\<bar> \<le> 2 ^ 53"
  shows "jittered_seed env S i = S + job_jitter env i"
proof -
  have "to_double (real_of_int (S + job_jitter env i)) = real_of_int (S + job_jitter env i)"
    using assms by (rule to_double_int)
  then have "\<lfloor>to_double (real_of_int S + real_of_int (job_jitter env i))\<rfloor>
               = \<lfloor>real_of_int (S + job_jitter env i)\<rfloor>" by simp
  then show ?thesis unfolding jittered_seed_def by (simp only: floor_of_int)
qed

lemma jittered_seed_ge:
  assumes "is_double (of_int S)" and "0 \<le> job_jitter env i"
  shows "S \<le> jittered_seed env S i"
  unfolding jittered_seed_def using to_double_add_ge[OF assms] by (simp add: le_floor_iff)

text \<open>
  Claim C3, as the code has it. When the caller omits the seed, every job of a valid batch
  that resolves its project id submits one generation request, whose seed is
  \<open>Math.floor(Math.random() * 10000000)\<close> for that job's own draw, the product being
  rounded to a double before the floor. It lies in [0, 10000000), and it is the floor of
  the exact product up to that rounding: the exact product lies between the seed less
  \<open>2^(-30)\<close> and the seed plus one.
\<close>

theorem omitted_seed_is_drawn:
  assumes "seed options = None"
    and "validateImageOptions (width options) (height options) (batchSize options) = Inr ()"
    and "i < nat (effective_batchSize options)"
    and "fst (getProjectId cfg (projects_get (job_env_of env i))) = Inr project"
    and "is_random (seed_random (job_env_of env i))"
  shows "map inference_seed
           (submitted_payloads (snd (snd (generateImage cfg env options)) ! i))
           = [\<lfloor>to_double (seed_random (job_env_of env i) * 10000000)\<rfloor>]
       \<and> 0 \<le> \<lfloor>to_double (seed_random (job_env_of env i) * 10000000)\<rfloor>
       \<and> \<lfloor>to_double (seed_random (job_env_of env i) * 10000000)\<rfloor> < 10000000
       \<and> real_of_int \<lfloor>to_double (seed_random (job_env_of env i) * 10000000)\<rfloor> - 1 / 2 ^ 30
           \<le> seed_random (job_env_of env i) * 10000000
       \<and> seed_random (job_env_of env i) * 10000000
           < real_of_int \<lfloor>to_double (seed_random (job_env_of env i) * 10000000)\<rfloor> + 1"
proof -
  let ?d = "seed_random (job_env_of env i)"
  have d: "is_double ?d" "0 \<le> ?d" "?d < 1" using assms(5) by (simp_all add: is_random_def)
  have "map inference_seed
           (submitted_payloads (snd (snd (generateImage cfg env options)) ! i))
           = [drawn_seed (job_env_of env i)]"
    unfolding generateImage_job_events[OF assms(2,3)] job_run_submits[OF assms(2,4)]
    by (simp add: payload_seed_omitted[OF assms(1)])
  then have "map inference_seed
           (submitted_payloads (snd (snd (generateImage cfg env options)) ! i))
           = [\<lfloor>to_double (?d * 10000000)\<rfloor>]"
    by (simp add: drawn_seed_def)
  moreover note seed_draw_range[OF d] seed_draw_preimage[OF d]
  ultimately show ?thesis by blast
qed

text \<open>The theorem at a batch of two whose jobs draw 1/2 and 1/4: they submit the seeds
  5000000 and 2500000.\<close>

lemma drawing_batch_seeds:
  "\<lfloor>to_double (seed_random (job_env_of drawing_batch 0) * 10000000)\<rfloor> = 5000000"
  "\<lfloor>to_double (seed_random (job_env_of drawing_batch 1) * 10000000)\<rfloor> = 2500000"
  "is_random (seed_random (job_env_of drawing_batch 0))"
  "is_random (seed_random (job_env_of drawing_batch 1))"
  "is_random (jitter_random drawing_batch 0)"
  "is_random (jitter_random drawing_batch 1)"
  by code_simp+

lemma mock_project:
  "fst (getProjectId mock_config (projects_get (job_env_of drawing_batch i)))
     = Inr (JStr ''mock-project-id'')"
  "fst (getProjectId mock_config (projects_get (job_env_of mock_batch i)))
     = Inr (JStr ''mock-project-id'')"
  by (simp_all add: getProjectId_def mock_config_def)

theorem omitted_seed_is_drawn_witness:
  "map inference_seed
     (submitted_payloads
        (snd (snd (generateImage mock_config drawing_batch
                     (mock_options\<lparr>batchSize := Some 2\<rparr>))) ! 0)) = [5000000]
   \<and> map inference_seed
       (submitted_payloads
          (snd (snd (generateImage mock_config drawing_batch
                       (mock_options\<lparr>batchSize := Some 2\<rparr>))) ! 1)) = [2500000]"
proof -
  let ?options = "mock_options\<lparr>batchSize := Some 2\<rparr>"
  have s: "seed ?options = None" by (simp add: mock_options_def)
  have v: "validateImageOptions (width ?options) (height ?options) (batchSize ?options) = Inr ()"
    by (simp add: validate_ok_iff mock_options_def)
  have i: "0 < nat (effective_batchSize ?options)" "1 < nat (effective_batchSize ?options)"
    by (simp_all add: effective_batchSize_def)
  show ?thesis
    using omitted_seed_is_drawn[OF s v i(1) mock_project(1) drawing_batch_seeds(3)]
      omitted_seed_is_drawn[OF s v i(2) mock_project(1) drawing_batch_seeds(4)]
    unfolding drawing_batch_seeds(1,2) by blast
qed

text \<open>
  Claim C3 as stated fails: at the draw 0.5 the job submits 5000000, where the draw from
  [0, 2^31 - 1) of \<open>generateRandomSeed\<close> gives 1073741823; and when the caller supplies
  -1, \<open>generateImage\<close> adds the jitter to it like to any given seed (here 500), so the
  job submits 499.
\<close>

theorem seed_range_counterexample:
  "map inference_seed (submitted_payloads (snd (job_run mock_config mock_batch mock_options 0)))
     = [5000000]
   \<and> generateRandomSeed (seed_random (job_env_of mock_batch 0)) = 1073741823
   \<and> map inference_seed
        (submitted_payloads
           (snd (job_run mock_config mock_batch (mock_options\<lparr>seed := Some (- 1)\<rparr>) 0)))
     = [499]"
  by code_simp

text \<open>
  Claim C9, as the code has it. When the caller gives a seed \<open>S\<close> other than -1 (an
  integer that is a double), every job of a valid batch that resolves its project id has
  a jitter \<open>Math.floor(Math.random() * 1000)\<close> of its own draw, which lies in [0, 1000),
  and its seed is the double nearest to \<open>S\<close> plus the jitter: exactly the sum when that
  is at most \<open>2^53\<close> in absolute value, and never less than \<open>S\<close>. The job submits one
  generation request. Its seed is the seed of the job, unless that is the sentinel -1,
  which needs \<open>S < -1\<close>: then the request carries a fresh draw from [0, 10000000). In
  every case the submitted seed is at least \<open>S\<close>.
\<close>

theorem given_seed_is_jittered:
  assumes "seed options = Some S" and "S \<noteq> - 1" and "is_double (of_int S)"
    and "validateImageOptions (width options) (height options) (batchSize options) = Inr ()"
    and "i < nat (effective_batchSize options)"
    and "fst (getProjectId cfg (projects_get (job_env_of env i))) = Inr project"
    and "is_random (jitter_random env i)"
    and "is_random (seed_random (job_env_of env i))"
  shows "job_jitter env i = \<lfloor>to_double (jitter_random env i * 1000)\<rfloor>
       \<and> 0 \<le> job_jitter env i \<and> job_jitter env i < 1000
       \<and> jittered_seed env S i = \<lfloor>to_double (of_int S + of_int (job_jitter env i))\<rfloor>
       \<and> (\<bar>S + job_jitter env i\<bar> \<le> 2 ^ 53 \<longrightarrow> jittered_seed env S i = S + job_jitter env i)
       \<and> S \<le> jittered_seed env S i
       \<and> map inference_seed
           (submitted_payloads (snd (snd (generateImage cfg env options)) ! i))
           = [if jittered_seed env S i = - 1
              then \<lfloor>to_double (seed_random (job_env_of env i) * 10000000)\<rfloor>
              else jittered_seed env S i]
       \<and> (jittered_seed env S i = - 1 \<longrightarrow> S < - 1)
       \<and> 0 \<le> \<lfloor>to_double (seed_random (job_env_of env i) * 10000000)\<rfloor>
       \<and> \<lfloor>to_double (seed_random (job_env_of env i) * 10000000)\<rfloor> < 10000000
       \<and> S \<le> (if jittered_seed env S i = - 1
                then \<lfloor>to_double (seed_random (job_env_of env i) * 10000000)\<rfloor>
                else jittered_seed env S i)"
proof -
  let ?r = "\<lfloor>to_double (seed_random (job_env_of env i) * 10000000)\<rfloor>"
  have j: "0 \<le> job_jitter env i \<and> job_jitter env i < 1000"
    using assms(7) by (rule job_jitter_range)
  have r: "0 \<le> ?r \<and> ?r < 10000000"
    using drawn_seed_range[OF assms(8)] by (simp add: drawn_seed_def)
  have ge: "S \<le> jittered_seed env S i"
    using assms(3) j by (simp add: jittered_seed_ge)
  have ex: "\<bar>S + job_jitter env i\<bar> \<le> 2 ^ 53 \<longrightarrow> jittered_seed env S i = S + job_jitter env i"
    using jittered_seed_exact by blast
  have p: "map inference_seed
           (submitted_payloads (snd (snd (generateImage cfg env options)) ! i))
           = [if jittered_seed env S i = - 1 then ?r else jittered_seed env S i]"
    unfolding generateImage_job_events[OF assms(4,5)] job_run_submits[OF assms(4,6)]
    by (simp add: payload_seed_given[OF assms(1)] drawn_seed_def)
  have lt: "jittered_seed env S i = - 1 \<longrightarrow> S < - 1"
    using ge assms(2) by linarith
  have le: "S \<le> (if jittered_seed env S i = - 1 then ?r else jittered_seed env S i)"
  proof (cases "jittered_seed env S i = - 1")
    case True
    with lt have "S < - 1" by blast
    moreover have "0 \<le> ?r" using r by blast
    ultimately have "S \<le> ?r" by linarith
    then show ?thesis using True by simp
  next
    case False
    then show ?thesis using ge by simp
  qed
  show ?thesis
    using j r ge ex p lt le
    by (intro conjI) (simp_all add: job_jitter_def jittered_seed_def)
qed

text \<open>The theorem at the seed 42 and a batch of two whose jobs draw 1/2 and 1/4 for the
  jitter: they submit the seeds 542 and 292.\<close>

lemma drawing_batch_jitters:
  "job_jitter drawing_batch 0 = 500" "job_jitter drawing_batch 1 = 250"
  "jittered_seed drawing_batch 42 0 = 542" "jittered_seed drawing_batch 42 1 = 292"
  "is_double (real_of_int 42)"
  by code_simp+

theorem given_seed_is_jittered_witness:
  "map inference_seed
     (submitted_payloads
        (snd (snd (generateImage mock_config drawing_batch
                     (mock_options\<lparr>seed := Some 42, batchSize := Some 2\<rparr>))) ! 0)) = [542]
   \<and> map inference_seed
       (submitted_payloads
          (snd (snd (generateImage mock_config drawing_batch
                       (mock_options\<lparr>seed := Some 42, batchSize := Some 2\<rparr>))) ! 1)) = [292]
   \<and> job_jitter drawing_batch 0 = 500 \<and> job_jitter drawing_batch 1 = 250"
proof -
  let ?options = "mock_options\<lparr>seed := Some 42, batchSize := Some 2\<rparr>"
  have s: "seed ?options = Some 42" by simp
  have n: "(42::int) \<noteq> - 1" by simp
  have v: "validateImageOptions (width ?options) (height ?options) (batchSize ?options) = Inr ()"
    by (simp add: validate_ok_iff mock_options_def)
  have i: "0 < nat (effective_batchSize ?options)" "1 < nat (effective_batchSize ?options)"
    by (simp_all add: effective_batchSize_def)
  note a = given_seed_is_jittered[OF s n drawing_batch_jitters(5) v i(1) mock_project(1)
      drawing_batch_seeds(5) drawing_batch_seeds(3)]
  note b = given_seed_is_jittered[OF s n drawing_batch_jitters(5) v i(2) mock_project(1)
      drawing_batch_seeds(6) drawing_batch_seeds(4)]
  have "map inference_seed
     (submitted_payloads (snd (snd (generateImage mock_config drawing_batch ?options)) ! 0))
       = [542]"
    using a unfolding drawing_batch_jitters(3) by simp
  moreover have "map inference_seed
     (submitted_payloads (snd (snd (generateImage mock_config drawing_batch ?options)) ! 1))
       = [292]"
    using b unfolding drawing_batch_jitters(4) by simp
  ultimately show ?thesis using drawing_batch_jitters(1,2) by blast
qed

text \<open>
  Claim C9 as stated fails at the seed -2 and a jitter of 1: the sum is the sentinel, and
  the job submits a fresh draw, 5000000, which is not -2 plus a jitter below 1000. It
  fails at the seed \<open>2^53\<close> and a jitter of 999 as well: the sum is not a double, it is
  rounded to \<open>2^53 + 1000\<close>, and that is submitted.
\<close>

theorem given_seed_sentinel_counterexample:
  "job_jitter low_jitter_batch 0 = 1
   \<and> map inference_seed
        (submitted_payloads
           (snd (job_run mock_config low_jitter_batch (mock_options\<lparr>seed := Some (- 2)\<rparr>) 0)))
     = [5000000]
   \<and> \<not> (5000000 < - 2 + (1000::int))
   \<and> job_jitter high_jitter_batch 0 = 999
   \<and> map inference_seed
        (submitted_payloads
           (snd (job_run mock_config high_jitter_batch
                   (mock_options\<lparr>seed := Some 9007199254740992\<rparr>) 0)))
     = [9007199254740992 + 1000]"
  by code_simp

subsection \<open>The variants of a batch\<close>

lemma shouldEnhancePrompt_job_options [simp]:
  "shouldEnhancePrompt (job_options env options i) = shouldEnhancePrompt options"
  by (simp add: shouldEnhancePrompt_def job_options_def)

lemma finalPrompt_given:
  "truthy ep \<Longrightarrow> shouldEnhancePrompt options \<Longrightarrow> finalPrompt_of cfg env options ep = (ep, [])"
  by (simp add: finalPrompt_of_def)

lemma caption_generationPayload [simp]:
  "caption (generationPayload env options fp) = fp"
  by (simp add: generationPayload_def Let_def)

lemma generateSingleImage_enhances:
  "enhancement_calls (snd (generateSingleImage cfg env options ep)) =
     (case fst (getProjectId cfg (projects_get env)) of
        Inl e \<Rightarrow> []
      | Inr project \<Rightarrow>
          (case validateImageOptions (width options) (height options) (Some 1) of
             Inl e \<Rightarrow> []
           | Inr ok \<Rightarrow> enhancement_calls (snd (finalPrompt_of cfg env options ep))))"
proof -
  obtain t4 where t4: "snd (generateSingleImage cfg env options ep)
      = snd (submitGeneration cfg env options ep) @ t4" "enhancement_calls t4 = []"
    using generateSingleImage_events by blast
  obtain r t1 where g: "getProjectId cfg (projects_get env) = (r, t1)"
    by (cases "getProjectId cfg (projects_get env)")
  have t1: "enhancement_calls t1 = []"
    using getProjectId_quiet(2)[of cfg "projects_get env"] g by simp
  show ?thesis
    unfolding t4(1) submitGeneration_events g
    using t1 t4(2)
    by (cases r; cases "validateImageOptions (width options) (height options) (Some 1)")
       (simp_all, simp add: enhancement_calls_def)
qed

lemma finalPrompt_own:
  assumes "\<not> truthy ep" and "shouldEnhancePrompt options"
  shows "finalPrompt_of cfg env options ep =
           ((case fst (enhancePrompt cfg (enhance_projects_get env) (enhance_post env)
                         (prompt options) 1) of
               [] \<Rightarrow> JStr (prompt options)
             | first # rest \<Rightarrow> first),
            snd (enhancePrompt cfg (enhance_projects_get env) (enhance_post env)
                   (prompt options) 1))"
  using assms by (simp add: finalPrompt_of_def split: prod.splits)

lemma job_run_enhances:
  assumes "validateImageOptions (width options) (height options) (batchSize options) = Inr ()"
  shows "enhancement_calls (snd (job_run cfg env options i)) =
           (case fst (getProjectId cfg (projects_get (job_env_of env i))) of
              Inl e \<Rightarrow> []
            | Inr project \<Rightarrow>
                enhancement_calls
                  (snd (finalPrompt_of cfg (job_env_of env i) (job_options env options i)
                          (job_variant options (fst (batch_enhancement cfg env options)) i))))"
proof -
  have "validateImageOptions (width (job_options env options i))
          (height (job_options env options i)) (Some 1) = Inr ()"
    using validate_for_job[OF assms] by (simp add: job_options_def)
  then show ?thesis
    unfolding job_run_def generateSingleImage_enhances by (simp split: sum.splits)
qed

lemma job_run_unresolved:
  assumes "fst (getProjectId cfg (projects_get (job_env_of env i))) = Inl e"
  shows "submitted_payloads (snd (job_run cfg env options i)) = []"
  unfolding job_run_def generateSingleImage_submits using assms by simp

lemma prompt_job_options [simp]: "prompt (job_options env options i) = prompt options"
  by (simp add: job_options_def)

text \<open>
  Claim C4, as the code has it. For a valid request with \<open>batchSize = B > 1\<close> and
  enhancement enabled, the batch itself calls the enhancer at most once, with
  \<open>num_variants = B\<close> and the prompt: exactly once when the project id is resolved, not
  at all otherwise (the enhancer then falls back to the prompt). There are \<open>B\<close> jobs.
  A job that does not resolve its project id calls no enhancer and submits nothing. A job
  that resolves it submits one generation request. When the enhancer of the batch
  returned at least one variant and the variant \<open>i mod returnedVariantCount\<close> is truthy
  (a non-empty string), job \<open>i\<close> makes no enhancement call and the caption it submits is
  that variant. Otherwise the job enhances on its own: it makes one enhancement call, for
  one variant of the prompt (none when the enhancer cannot resolve the project id), and
  the caption it submits is the first prompt its enhancer returns, or the prompt itself
  when that returns none.
\<close>

theorem batch_enhancement_once:
  assumes "validateImageOptions (width options) (height options) (batchSize options) = Inr ()"
    and "batchSize options = Some B" and "1 < B" and "shouldEnhancePrompt options"
  shows "enhancement_calls (fst (snd (generateImage cfg env options))) =
           (case fst (getProjectId cfg (batch_projects_get env)) of
              Inl e \<Rightarrow> []
            | Inr pid \<Rightarrow>
                [\<lparr>num_variants = B, inputs_prompt = prompt options,
                  model_id = ''promptenhancer_v1/prod/20250224-0952'', project_id = pid\<rparr>])
       \<and> fst (batch_enhancement cfg env options) =
           fst (enhancePrompt cfg (batch_projects_get env) (batch_enhance_post env)
                  (prompt options) B)
       \<and> int (length (snd (snd (generateImage cfg env options)))) = B
       \<and> (\<forall>i<length (snd (snd (generateImage cfg env options))).
            snd (snd (generateImage cfg env options)) ! i = snd (job_run cfg env options i)
          \<and> ((\<exists>e. fst (getProjectId cfg (projects_get (job_env_of env i))) = Inl e)
             \<longrightarrow> enhancement_calls (snd (snd (generateImage cfg env options)) ! i) = []
               \<and> submitted_payloads (snd (snd (generateImage cfg env options)) ! i) = [])
          \<and> ((\<exists>project. fst (getProjectId cfg (projects_get (job_env_of env i))) = Inr project)
              \<and> fst (batch_enhancement cfg env options) \<noteq> []
              \<and> truthy (fst (batch_enhancement cfg env options)
                          ! (i mod length (fst (batch_enhancement cfg env options))))
             \<longrightarrow> enhancement_calls (snd (snd (generateImage cfg env options)) ! i) = []
               \<and> map caption (submitted_payloads (snd (snd (generateImage cfg env options)) ! i))
                   = [fst (batch_enhancement cfg env options)
                        ! (i mod length (fst (batch_enhancement cfg env options)))])
          \<and> ((\<exists>project. fst (getProjectId cfg (projects_get (job_env_of env i))) = Inr project)
              \<and> \<not> (fst (batch_enhancement cfg env options) \<noteq> []
                     \<and> truthy (fst (batch_enhancement cfg env options)
                                 ! (i mod length (fst (batch_enhancement cfg env options)))))
             \<longrightarrow> enhancement_calls (snd (snd (generateImage cfg env options)) ! i) =
                   (case fst (getProjectId cfg (enhance_projects_get (job_env_of env i))) of
                      Inl e \<Rightarrow> []
                    | Inr pid \<Rightarrow>
                        [\<lparr>num_variants = 1, inputs_prompt = prompt options,
                          model_id = ''promptenhancer_v1/prod/20250224-0952'',
                          project_id = pid\<rparr>])
               \<and> map caption (submitted_payloads (snd (snd (generateImage cfg env options)) ! i))
                   = [case fst (enhancePrompt cfg (enhance_projects_get (job_env_of env i))
                                  (enhance_post (job_env_of env i)) (prompt options) 1) of
                        [] \<Rightarrow> JStr (prompt options)
                      | first # rest \<Rightarrow> first]))"
proof -
  have eff: "effective_batchSize options = B"
    using assms(2,3) by (simp add: effective_batchSize_def)
  have be: "batch_enhancement cfg env options =
      enhancePrompt cfg (batch_projects_get env) (batch_enhance_post env) (prompt options) B"
    using assms(3,4) eff by (simp add: batch_enhancement_def)
  note ev = generateImage_events[OF assms(1), of cfg env]
  have c1: "enhancement_calls (fst (snd (generateImage cfg env options))) =
           (case fst (getProjectId cfg (batch_projects_get env)) of
              Inl e \<Rightarrow> []
            | Inr pid \<Rightarrow>
                [\<lparr>num_variants = B, inputs_prompt = prompt options,
                  model_id = ''promptenhancer_v1/prod/20250224-0952'', project_id = pid\<rparr>])"
    by (simp add: ev be enhancePrompt_calls)
  have c2: "fst (batch_enhancement cfg env options) =
           fst (enhancePrompt cfg (batch_projects_get env) (batch_enhance_post env)
                  (prompt options) B)"
    by (simp add: be)
  have c3: "int (length (snd (snd (generateImage cfg env options)))) = B"
    using assms(3) by (simp add: ev eff)
  let ?vs = "fst (batch_enhancement cfg env options)"
  have job: "snd (snd (generateImage cfg env options)) ! i = snd (job_run cfg env options i)
          \<and> ((\<exists>e. fst (getProjectId cfg (projects_get (job_env_of env i))) = Inl e)
             \<longrightarrow> enhancement_calls (snd (snd (generateImage cfg env options)) ! i) = []
               \<and> submitted_payloads (snd (snd (generateImage cfg env options)) ! i) = [])
          \<and> ((\<exists>project. fst (getProjectId cfg (projects_get (job_env_of env i))) = Inr project)
              \<and> ?vs \<noteq> [] \<and> truthy (?vs ! (i mod length ?vs))
             \<longrightarrow> enhancement_calls (snd (snd (generateImage cfg env options)) ! i) = []
               \<and> map caption (submitted_payloads (snd (snd (generateImage cfg env options)) ! i))
                   = [?vs ! (i mod length ?vs)])
          \<and> ((\<exists>project. fst (getProjectId cfg (projects_get (job_env_of env i))) = Inr project)
              \<and> \<not> (?vs \<noteq> [] \<and> truthy (?vs ! (i mod length ?vs)))
             \<longrightarrow> enhancement_calls (snd (snd (generateImage cfg env options)) ! i) =
                   (case fst (getProjectId cfg (enhance_projects_get (job_env_of env i))) of
                      Inl e \<Rightarrow> []
                    | Inr pid \<Rightarrow>
                        [\<lparr>num_variants = 1, inputs_prompt = prompt options,
                          model_id = ''promptenhancer_v1/prod/20250224-0952'',
                          project_id = pid\<rparr>])
               \<and> map caption (submitted_payloads (snd (snd (generateImage cfg env options)) ! i))
                   = [case fst (enhancePrompt cfg (enhance_projects_get (job_env_of env i))
                                  (enhance_post (job_env_of env i)) (prompt options) 1) of
                        [] \<Rightarrow> JStr (prompt options)
                      | first # rest \<Rightarrow> first])"
    if i: "i < length (snd (snd (generateImage cfg env options)))" for i
  proof -
    let ?jenv = "job_env_of env i"
    let ?jopts = "job_options env options i"
    have run: "snd (snd (generateImage cfg env options)) ! i = snd (job_run cfg env options i)"
      using i by (simp add: ev)
    have unresolved: "enhancement_calls (snd (job_run cfg env options i)) = []
               \<and> submitted_payloads (snd (job_run cfg env options i)) = []"
      if "\<exists>e. fst (getProjectId cfg (projects_get ?jenv)) = Inl e"
    proof -
      from that obtain e where e: "fst (getProjectId cfg (projects_get ?jenv)) = Inl e" by blast
      show ?thesis
        by (simp add: job_run_enhances[OF assms(1)] job_run_unresolved[OF e] e)
    qed
    have given: "enhancement_calls (snd (job_run cfg env options i)) = []
               \<and> map caption (submitted_payloads (snd (job_run cfg env options i)))
                   = [?vs ! (i mod length ?vs)]"
      if "(\<exists>project. fst (getProjectId cfg (projects_get ?jenv)) = Inr project)
              \<and> ?vs \<noteq> [] \<and> truthy (?vs ! (i mod length ?vs))"
    proof -
      from that obtain project where
        p: "fst (getProjectId cfg (projects_get ?jenv)) = Inr project" by blast
      have jv: "job_variant options ?vs i = ?vs ! (i mod length ?vs)"
        using that assms(4) by (simp add: job_variant_def)
      have fp: "finalPrompt_of cfg ?jenv ?jopts (job_variant options ?vs i)
                  = (?vs ! (i mod length ?vs), [])"
        unfolding jv by (rule finalPrompt_given) (use that assms(4) in simp_all)
      have nil: "enhancement_calls [] = []" by (simp add: enhancement_calls_def)
      show ?thesis
        by (simp add: job_run_enhances[OF assms(1)] job_run_submits[OF assms(1) p] p fp nil)
    qed
    have own: "enhancement_calls (snd (job_run cfg env options i)) =
                   (case fst (getProjectId cfg (enhance_projects_get ?jenv)) of
                      Inl e \<Rightarrow> []
                    | Inr pid \<Rightarrow>
                        [\<lparr>num_variants = 1, inputs_prompt = prompt options,
                          model_id = ''promptenhancer_v1/prod/20250224-0952'',
                          project_id = pid\<rparr>])
               \<and> map caption (submitted_payloads (snd (job_run cfg env options i)))
                   = [case fst (enhancePrompt cfg (enhance_projects_get ?jenv)
                                  (enhance_post ?jenv) (prompt options) 1) of
                        [] \<Rightarrow> JStr (prompt options)
                      | first # rest \<Rightarrow> first]"
      if "(\<exists>project. fst (getProjectId cfg (projects_get ?jenv)) = Inr project)
              \<and> \<not> (?vs \<noteq> [] \<and> truthy (?vs ! (i mod length ?vs)))"
    proof -
      from that obtain project where
        p: "fst (getProjectId cfg (projects_get ?jenv)) = Inr project" by blast
      have jv: "\<not> truthy (job_variant options ?vs i)"
        using that by (auto simp: job_variant_def)
      have sh: "shouldEnhancePrompt ?jopts" using assms(4) by simp
      note fp = finalPrompt_own[OF jv sh, of cfg ?jenv]
      show ?thesis
        by (simp add: job_run_enhances[OF assms(1)] job_run_submits[OF assms(1) p] p fp
              enhancePrompt_calls cong: list.case_cong)
    qed
    show ?thesis
      unfolding run using unresolved given own by blast
  qed
  show ?thesis
    using c1 c2 c3 job by (intro conjI allI impI) blast+
qed

text \<open>The theorem at a batch of three on the mock service: one call for three variants,
  and the second job submits the second variant; and at a batch of two whose enhancer
  returns no variant: the first job calls the enhancer for one variant, and submits the
  prompt that this returns.\<close>

lemma mock_batch_variants:
  "fst (batch_enhancement mock_config mock_batch (mock_options\<lparr>batchSize := Some 3\<rparr>))
     = [JStr ''variant 1'', JStr ''variant 2'', JStr ''variant 3'']"
  "fst (batch_enhancement mock_config empty_variants_batch (mock_options\<lparr>batchSize := Some 2\<rparr>))
     = []"
  "fst (enhancePrompt mock_config (enhance_projects_get (job_env_of empty_variants_batch 0))
          (enhance_post (job_env_of empty_variants_batch 0)) ''test prompt'' 1)
     = [JStr ''test prompt'']"
  by code_simp+

lemma mock_config_project:
  "fst (getProjectId mock_config projects) = Inr (JStr ''mock-project-id'')"
  by (simp add: getProjectId_def mock_config_def)

theorem batch_enhancement_once_witness:
  "enhancement_calls
     (fst (snd (generateImage mock_config mock_batch (mock_options\<lparr>batchSize := Some 3\<rparr>))))
     = [\<lparr>num_variants = 3, inputs_prompt = ''test prompt'',
         model_id = ''promptenhancer_v1/prod/20250224-0952'',
         project_id = JStr ''mock-project-id''\<rparr>]
   \<and> int (length (snd (snd (generateImage mock_config mock_batch
                                (mock_options\<lparr>batchSize := Some 3\<rparr>))))) = 3
   \<and> enhancement_calls
        (snd (snd (generateImage mock_config mock_batch
                     (mock_options\<lparr>batchSize := Some 3\<rparr>))) ! 1) = []
   \<and> map caption (submitted_payloads
          (snd (snd (generateImage mock_config mock_batch
                       (mock_options\<lparr>batchSize := Some 3\<rparr>))) ! 1))
       = [JStr ''variant 2'']
   \<and> enhancement_calls
        (snd (snd (generateImage mock_config empty_variants_batch
                     (mock_options\<lparr>batchSize := Some 2\<rparr>))) ! 0)
       = [\<lparr>num_variants = 1, inputs_prompt = ''test prompt'',
           model_id = ''promptenhancer_v1/prod/20250224-0952'',
           project_id = JStr ''mock-project-id''\<rparr>]
   \<and> map caption (submitted_payloads
          (snd (snd (generateImage mock_config empty_variants_batch
                       (mock_options\<lparr>batchSize := Some 2\<rparr>))) ! 0))
       = [JStr ''test prompt'']"
proof -
  let ?three = "mock_options\<lparr>batchSize := Some 3\<rparr>"
  let ?two = "mock_options\<lparr>batchSize := Some 2\<rparr>"
  let ?traces = "snd (snd (generateImage mock_config mock_batch ?three))"
  let ?traces' = "snd (snd (generateImage mock_config empty_variants_batch ?two))"
  have v: "validateImageOptions (width ?three) (height ?three) (batchSize ?three) = Inr ()"
    "validateImageOptions (width ?two) (height ?two) (batchSize ?two) = Inr ()"
    by (simp_all add: validate_ok_iff mock_options_def)
  have b: "batchSize ?three = Some 3" "batchSize ?two = Some 2" by simp_all
  have lt: "1 < (3::int)" "1 < (2::int)" by simp_all
  have sh: "shouldEnhancePrompt ?three" "shouldEnhancePrompt ?two"
    by (simp_all add: shouldEnhancePrompt_def mock_options_def)
  have pr: "prompt ?two = ''test prompt''" by (simp add: mock_options_def)
  note t = batch_enhancement_once[OF v(1) b(1) lt(1) sh(1), of mock_config mock_batch]
  note u = batch_enhancement_once[OF v(2) b(2) lt(2) sh(2), of mock_config empty_variants_batch]
  have c1: "enhancement_calls (fst (snd (generateImage mock_config mock_batch ?three)))
     = [\<lparr>num_variants = 3, inputs_prompt = ''test prompt'',
         model_id = ''promptenhancer_v1/prod/20250224-0952'',
         project_id = JStr ''mock-project-id''\<rparr>]"
    using t[THEN conjunct1] by (simp add: mock_config_project mock_options_def)
  have len: "int (length ?traces) = 3"
    by (rule t[THEN conjunct2, THEN conjunct2, THEN conjunct1])
  then have i: "1 < length ?traces" by simp
  have "int (length ?traces') = 2"
    by (rule u[THEN conjunct2, THEN conjunct2, THEN conjunct1])
  then have i': "0 < length ?traces'" by simp
  have tr: "truthy ([JStr ''variant 1'', JStr ''variant 2'', JStr ''variant 3'']
                     ! (1 mod length [JStr ''variant 1'', JStr ''variant 2'', JStr ''variant 3'']))"
    by simp
  have given: "enhancement_calls (?traces ! 1) = []
      \<and> map caption (submitted_payloads (?traces ! 1))
          = [[JStr ''variant 1'', JStr ''variant 2'', JStr ''variant 3'']
               ! (1 mod length [JStr ''variant 1'', JStr ''variant 2'', JStr ''variant 3''])]"
    using t[THEN conjunct2, THEN conjunct2, THEN conjunct2, rule_format, OF i,
            THEN conjunct2, THEN conjunct2, THEN conjunct1] tr mock_config_project
    unfolding mock_batch_variants(1) by blast
  have own: "enhancement_calls (?traces' ! 0) =
                   (case fst (getProjectId mock_config
                                (enhance_projects_get (job_env_of empty_variants_batch 0))) of
                      Inl e \<Rightarrow> []
                    | Inr pid \<Rightarrow>
                        [\<lparr>num_variants = 1, inputs_prompt = prompt ?two,
                          model_id = ''promptenhancer_v1/prod/20250224-0952'',
                          project_id = pid\<rparr>])
      \<and> map caption (submitted_payloads (?traces' ! 0))
          = [case fst (enhancePrompt mock_config
                         (enhance_projects_get (job_env_of empty_variants_batch 0))
                         (enhance_post (job_env_of empty_variants_batch 0)) (prompt ?two) 1) of
               [] \<Rightarrow> JStr (prompt ?two)
             | first # rest \<Rightarrow> first]"
    using u[THEN conjunct2, THEN conjunct2, THEN conjunct2, rule_format, OF i',
            THEN conjunct2, THEN conjunct2, THEN conjunct2] mock_config_project
    unfolding mock_batch_variants(2) by blast
  have c5: "enhancement_calls (?traces' ! 0)
       = [\<lparr>num_variants = 1, inputs_prompt = ''test prompt'',
           model_id = ''promptenhancer_v1/prod/20250224-0952'',
           project_id = JStr ''mock-project-id''\<rparr>]"
    using own[THEN conjunct1] by (simp add: mock_config_project pr)
  have c6: "map caption (submitted_payloads (?traces' ! 0)) = [JStr ''test prompt'']"
    using own[THEN conjunct2] unfolding pr mock_batch_variants(3) by simp
  show ?thesis using c1 len given c5 c6 by simp
qed

text \<open>
  Claim C4 as stated fails in three runs. When the enhancer reports success with an
  empty list of variants, there is no variant \<open>i mod 0\<close>, and after the call of the
  batch for two variants each of the two jobs calls the enhancer again, three calls in
  all. When the first variant is the empty string, the first job enhances on its own and
  submits what that returns. When the client has no project id and none can be fetched,
  no enhancement call is made at all.
\<close>

theorem batch_enhancement_empty_counterexample:
  "fst (batch_enhancement mock_config empty_variants_batch (mock_options\<lparr>batchSize := Some 2\<rparr>))
     = []
   \<and> map num_variants
        (enhancement_calls
           (fst (snd (generateImage mock_config empty_variants_batch
                        (mock_options\<lparr>batchSize := Some 2\<rparr>))))) = [2]
   \<and> map (\<lambda>t. map num_variants (enhancement_calls t))
        (snd (snd (generateImage mock_config empty_variants_batch
                     (mock_options\<lparr>batchSize := Some 2\<rparr>)))) = [[1], [1]]
   \<and> fst (batch_enhancement mock_config blank_variant_batch (mock_options\<lparr>batchSize := Some 2\<rparr>))
     = [JStr [], JStr ''variant 2'']
   \<and> map (\<lambda>t. map num_variants (enhancement_calls t))
        (snd (snd (generateImage mock_config blank_variant_batch
                     (mock_options\<lparr>batchSize := Some 2\<rparr>)))) = [[1], []]
   \<and> map (\<lambda>t. map caption (submitted_payloads t))
        (snd (snd (generateImage mock_config blank_variant_batch
                     (mock_options\<lparr>batchSize := Some 2\<rparr>))))
     = [[JStr ''test prompt''], [JStr ''variant 2'']]
   \<and> enhancement_calls
        (fst (snd (generateImage unconfigured mock_batch
                     (mock_options\<lparr>batchSize := Some 2\<rparr>)))) = []
   \<and> map enhancement_calls
        (snd (snd (generateImage unconfigured mock_batch
                     (mock_options\<lparr>batchSize := Some 2\<rparr>)))) = [[], []]"
  by code_simp

end
